theory Spec2Isabelle
  imports Complex_Main
begin

section \<open>JavaScript values\<close>

text \<open>
  A JavaScript number is modelled as a real number extended with the two infinities and
  NaN. Rounding to binary64 (and with it overflow to an infinity) and the sign of zero
  are not modelled: every comparison and every clamp of \<open>alerts.js\<close> is monotone, and
  the bounds it uses are number literals.
\<close>

datatype jsnum = NaN | NegInf | Fin real | PosInf

text \<open>
  The values a configuration entry can hold (the custom fields arrive as JSON scalars),
  and \<open>Builtin name\<close> for the member that every object inherits from \<open>Object.prototype\<close>
  under that name: a function, or the prototype object itself for \<open>__proto__\<close>.
  A \<open>char\<close> of a string stands for one UTF-16 code unit below 256.
\<close>

datatype jsval = Undefined | Null | Bool bool | Num jsnum | Str string | Builtin string

fun num_le :: "jsnum \<Rightarrow> jsnum \<Rightarrow> bool" where
  "num_le NaN _ = False"
| "num_le _ NaN = False"
| "num_le NegInf _ = True"
| "num_le _ PosInf = True"
| "num_le (Fin a) (Fin b) = (a \<le> b)"
| "num_le (Fin a) NegInf = False"
| "num_le PosInf (Fin b) = False"
| "num_le PosInf NegInf = False"

text \<open>\<open>isNaN\<close> applied to a number.\<close>

fun isNaN :: "jsnum \<Rightarrow> bool" where
  "isNaN NaN = True"
| "isNaN _ = False"

text \<open>\<open>Math.max\<close> and \<open>Math.min\<close> of two numbers: NaN is contagious.\<close>

fun Math_max :: "jsnum \<Rightarrow> jsnum \<Rightarrow> jsnum" where
  "Math_max NaN _ = NaN"
| "Math_max _ NaN = NaN"
| "Math_max a b = (if num_le a b then b else a)"

fun Math_min :: "jsnum \<Rightarrow> jsnum \<Rightarrow> jsnum" where
  "Math_min NaN _ = NaN"
| "Math_min _ NaN = NaN"
| "Math_min a b = (if num_le a b then a else b)"

text \<open>Unary minus, binary minus and division of numbers.\<close>

fun num_neg :: "jsnum \<Rightarrow> jsnum" where
  "num_neg NaN = NaN"
| "num_neg NegInf = PosInf"
| "num_neg PosInf = NegInf"
| "num_neg (Fin a) = Fin (- a)"

fun num_sub :: "jsnum \<Rightarrow> jsnum \<Rightarrow> jsnum" where
  "num_sub NaN _ = NaN"
| "num_sub _ NaN = NaN"
| "num_sub (Fin a) (Fin b) = Fin (a - b)"
| "num_sub PosInf PosInf = NaN"
| "num_sub NegInf NegInf = NaN"
| "num_sub PosInf _ = PosInf"
| "num_sub NegInf _ = NegInf"
| "num_sub (Fin a) PosInf = NegInf"
| "num_sub (Fin a) NegInf = PosInf"

fun num_div :: "jsnum \<Rightarrow> jsnum \<Rightarrow> jsnum" where
  "num_div NaN _ = NaN"
| "num_div _ NaN = NaN"
| "num_div (Fin a) (Fin b) =
     (if b = 0 then (if a = 0 then NaN else if 0 < a then PosInf else NegInf)
      else Fin (a / b))"
| "num_div (Fin a) _ = Fin 0"
| "num_div PosInf (Fin b) = (if 0 \<le> b then PosInf else NegInf)"
| "num_div NegInf (Fin b) = (if 0 \<le> b then NegInf else PosInf)"
| "num_div _ _ = NaN"

section \<open>Strings\<close>

text \<open>
  White space and line terminators of ECMAScript among the code units below 256:
  TAB, LF, VT, FF, CR, SP and NBSP.
\<close>

definition isWhiteSpace :: "char \<Rightarrow> bool" where
  "isWhiteSpace c = (c \<in> {CHR 0x09, CHR 0x0A, CHR 0x0B, CHR 0x0C, CHR 0x0D, CHR 0x20, CHR 0xA0})"

text \<open>\<open>String.prototype.trim\<close>.\<close>

definition String_trim :: "string \<Rightarrow> string" where
  "String_trim s = rev (dropWhile isWhiteSpace (rev (dropWhile isWhiteSpace s)))"

text \<open>\<open>String.prototype.includes\<close> with a one-character search string.\<close>

definition String_includes :: "string \<Rightarrow> char \<Rightarrow> bool" where
  "String_includes s c = (c \<in> set s)"

section \<open>parseFloat\<close>

text \<open>
  \<open>parseFloat\<close> skips leading white space and reads the longest prefix that is a
  \<open>StrDecimalLiteral\<close>: an optional sign, then \<open>Infinity\<close> or decimal digits with an
  optional fraction and an optional exponent. Without such a prefix the result is NaN.
\<close>

definition isDecimalDigit :: "char \<Rightarrow> bool" where
  "isDecimalDigit c = (c \<in> set ''0123456789'')"

definition digitValue :: "char \<Rightarrow> nat" where
  "digitValue c = of_char c - 48"

definition digitsValue :: "string \<Rightarrow> nat" where
  "digitsValue ds = foldl (\<lambda>a c. 10 * a + digitValue c) 0 ds"

definition scale10 :: "nat \<Rightarrow> int \<Rightarrow> real" where
  "scale10 m e = (if 0 \<le> e then of_nat m * 10 ^ nat e else of_nat m / 10 ^ nat (- e))"

text \<open>
  The exponent of an optional \<open>ExponentPart\<close> at the head of the rest: \<open>e\<close> or \<open>E\<close>, an
  optional sign and at least one digit. An \<open>e\<close> without digits is not part of the literal.
\<close>

definition exponentPart :: "string \<Rightarrow> int" where
  "exponentPart r =
     (case r of
        [] \<Rightarrow> 0
      | c # r1 \<Rightarrow>
          if c = CHR ''e'' \<or> c = CHR ''E'' then
            (case r1 of
               [] \<Rightarrow> 0
             | d # r2 \<Rightarrow>
                 if d = CHR ''+'' then int (digitsValue (takeWhile isDecimalDigit r2))
                 else if d = CHR ''-'' then - int (digitsValue (takeWhile isDecimalDigit r2))
                 else int (digitsValue (takeWhile isDecimalDigit r1)))
          else 0)"

definition strUnsignedDecimalLiteral :: "string \<Rightarrow> jsnum" where
  "strUnsignedDecimalLiteral s =
     (if take 8 s = ''Infinity'' then PosInf
      else
        let ip = takeWhile isDecimalDigit s; r1 = dropWhile isDecimalDigit s in
        if r1 \<noteq> [] \<and> hd r1 = CHR ''.'' then
          (let fp = takeWhile isDecimalDigit (tl r1); r2 = dropWhile isDecimalDigit (tl r1) in
           if ip = [] \<and> fp = [] then NaN
           else Fin (scale10 (digitsValue (ip @ fp)) (exponentPart r2 - int (length fp))))
        else if ip = [] then NaN
        else Fin (scale10 (digitsValue ip) (exponentPart r1)))"

definition parseFloat_str :: "string \<Rightarrow> jsnum" where
  "parseFloat_str s =
     (let t = dropWhile isWhiteSpace s in
      case t of
        [] \<Rightarrow> NaN
      | c # r \<Rightarrow>
          if c = CHR ''+'' then strUnsignedDecimalLiteral r
          else if c = CHR ''-'' then num_neg (strUnsignedDecimalLiteral r)
          else strUnsignedDecimalLiteral t)"

text \<open>
  \<open>parseFloat\<close> converts its argument to a string first. The string of a number reads
  back as that number, so the conversion of numbers is not spelled out. The string of an
  inherited function is its source text, and that of the prototype object is
  \<open>[object Object]\<close>.
\<close>

fun parseFloat :: "jsval \<Rightarrow> jsnum" where
  "parseFloat (Num n) = n"
| "parseFloat (Str s) = parseFloat_str s"
| "parseFloat Undefined = parseFloat_str ''undefined''"
| "parseFloat Null = parseFloat_str ''null''"
| "parseFloat (Bool b) = parseFloat_str (if b then ''true'' else ''false'')"
| "parseFloat (Builtin name) =
     parseFloat_str (if name = ''__proto__'' then ''[object Object]''
                     else ''function '' @ name @ ''() { [native code] }'')"

section \<open>Utility functions\<close>

type_synonym fields = "string \<rightharpoonup> jsval"

text \<open>
  The names of the members of \<open>Object.prototype\<close>. The custom fields and \<open>DEFAULTS\<close>
  are ordinary objects, so each of them inherits these members.
\<close>

definition Object_prototype_names :: "string list" where
  "Object_prototype_names =
     [''constructor'', ''hasOwnProperty'', ''isPrototypeOf'', ''propertyIsEnumerable'',
      ''toLocaleString'', ''toString'', ''valueOf'', ''__proto__'', ''__defineGetter__'',
      ''__defineSetter__'', ''__lookupGetter__'', ''__lookupSetter__'']"

text \<open>
  \<open>fields[key]\<close>, line 146: the entry of the object itself when it has one, otherwise
  the inherited member of that name, otherwise \<open>undefined\<close>.
\<close>

definition get_property :: "fields \<Rightarrow> string \<Rightarrow> jsval" where
  "get_property fs key =
     (case fs key of
        Some v \<Rightarrow> v
      | None \<Rightarrow> if key \<in> set Object_prototype_names then Builtin key else Undefined)"

text \<open>\<open>getField\<close>, lines 145 to 155.\<close>

definition getField :: "fields \<Rightarrow> string \<Rightarrow> jsval \<Rightarrow> jsval" where
  "getField fs key fallback =
     (let val = get_property fs key in
      if val = Undefined \<or> val = Null \<or> val = Str [] then fallback
      else
        (case val of
           Str s \<Rightarrow> (let trimmed = String_trim s in if trimmed = [] then fallback else Str trimmed)
         | _ \<Rightarrow> val))"

text \<open>
  \<open>parseNumber\<close>, lines 165 to 169. Every caller passes a number as fallback. The
  defaults of \<open>min\<close> and \<open>max\<close> are \<open>NegInf\<close> and \<open>PosInf\<close>.
\<close>

definition parseNumber :: "jsval \<Rightarrow> jsnum \<Rightarrow> jsnum \<Rightarrow> jsnum \<Rightarrow> jsnum" where
  "parseNumber val fallback mn mx =
     (let num = parseFloat val in
      if isNaN num then fallback
      else Math_min (Math_max num mn) mx)"


section \<open>Configuration\<close>

text \<open>The table \<open>DEFAULTS\<close>, lines 30 to 109.\<close>

definition DEFAULTS :: "(string \<times> jsval) list" where
  "DEFAULTS =
     [(''alertBoxShape'', Str ''rounded-rectangle''),
      (''shapePadding'', Num (Fin 16)),
      (''maintainAspectRatio'', Str ''none''),
      (''containerWidth'', Num (Fin 1000)),
      (''containerHeight'', Num (Fin 180)),
      (''containerBorderRadius'', Num (Fin 42)),
      (''containerOutlineWidth'', Num (Fin 8)),
      (''scalingMode'', Str ''fixed''),
      (''maxScale'', Num (Fin (3 / 2))),
      (''minScale'', Num (Fin (1 / 2))),
      (''containerGradient1'', Str ''#7d1dff''),
      (''containerGradient2'', Str ''#a82bff''),
      (''containerGradient3'', Str ''#5a11c9''),
      (''containerGradient4'', Str ''#3f0a9b''),
      (''gradientAngle'', Num (Fin 135)),
      (''containerOpacity'', Num (Fin 1)),
      (''backgroundBlur'', Num (Fin 0)),
      (''avatarSize'', Num (Fin 150)),
      (''avatarRingWidth'', Num (Fin 10)),
      (''avatarShape'', Str ''circle''),
      (''avatarBorderColor'', Str ''#ffffff''),
      (''avatarBorderWidth'', Num (Fin 4)),
      (''circleGradient1'', Str ''#ff9a1f''),
      (''circleGradient2'', Str ''#ff5df2''),
      (''circleGradient3'', Str ''#7c2dff''),
      (''rotationAngle'', Num (Fin 25)),
      (''rotationSpeed'', Num (Fin 6)),
      (''ringSpinSpeed'', Num (Fin 6)),
      (''gradientAnimationSpeed'', Num (Fin 8)),
      (''introDuration'', Num (Fin 800)),
      (''introEasing'', Str ''easeOutExpo''),
      (''enableSway'', Str ''true''),
      (''enableRingSpin'', Str ''true''),
      (''enableGradientAnimation'', Str ''true''),
      (''textScale'', Num (Fin 1)),
      (''textColorMain'', Str ''#0c0018''),
      (''textColorMeta'', Str ''#f4d8ff''),
      (''textShadowColor'', Str ''rgba(0, 0, 0, 0.35)''),
      (''textShadowBlur'', Num (Fin 4)),
      (''textCase'', Str ''none''),
      (''fontChoice'', Str ''Ubuntu''),
      (''fontWeightPrimary'', Num (Fin 900)),
      (''fontWeightMeta'', Num (Fin 700)),
      (''letterSpacing'', Num (Fin (- (2 / 100)))),
      (''dropShadowEnabled'', Str ''true''),
      (''dropShadowOffsetX'', Num (Fin 0)),
      (''dropShadowOffsetY'', Num (Fin 12)),
      (''dropShadowBlur'', Num (Fin 24)),
      (''dropShadowColor'', Str ''#000000''),
      (''dropShadowOpacity'', Num (Fin (4 / 10))),
      (''glowEnabled'', Str ''false''),
      (''glowColor'', Str ''#ffffff''),
      (''glowIntensity'', Num (Fin 20)),
      (''layoutDirection'', Str ''row''),
      (''contentAlignment'', Str ''center''),
      (''avatarPosition'', Str ''center''),
      (''contentGap'', Num (Fin 24)),
      (''fallbackImage'', Str ''https://i.imgur.com/y1kRGQp.gif''),
      (''soundVolume'', Num (Fin (8 / 10)))]"

definition DEFAULTS_fallbackImage :: string where
  "DEFAULTS_fallbackImage = ''https://i.imgur.com/y1kRGQp.gif''"

text \<open>The operator \<open>??\<close>, strict equality \<open>===\<close> and the truth value of a JavaScript value.\<close>

definition nullish :: "jsval \<Rightarrow> jsval \<Rightarrow> jsval" where
  "nullish a b = (if a = Undefined \<or> a = Null then b else a)"

definition strict_eq :: "jsval \<Rightarrow> jsval \<Rightarrow> bool" where
  "strict_eq a b = (a = b \<and> a \<noteq> Num NaN)"

fun truthy :: "jsval \<Rightarrow> bool" where
  "truthy Undefined = False"
| "truthy Null = False"
| "truthy (Bool b) = b"
| "truthy (Num n) = (n \<noteq> NaN \<and> n \<noteq> Fin 0)"
| "truthy (Str s) = (s \<noteq> [])"
| "truthy (Builtin name) = True"

text \<open>
  \<open>ConfigManager.get\<close>, lines 220 to 222, on the fields held by the manager. A call
  that leaves the fallback out passes \<open>Undefined\<close>.
\<close>

definition get_from :: "fields \<Rightarrow> string \<Rightarrow> jsval \<Rightarrow> jsval" where
  "get_from fs key fallback = getField fs key (nullish fallback (get_property (map_of DEFAULTS) key))"

section \<open>Document and managers\<close>

text \<open>
  A style variable holds what \<open>setVar\<close> was given: a value as it is, a number followed
  by a unit (the template literals \<open>${n}px\<close>, \<open>${n}deg\<close>, \<open>${n}s\<close>, \<open>${n}em\<close>), or
  the font-family template around the configured font. Attributes hold the assigned
  value; the conversion to a string by the document is not modelled.
\<close>

datatype cssvalue = Raw jsval | WithUnit jsnum string | FontFamily jsval

text \<open>
  An element with its \<open>dataset\<close> and its \<open>classList\<close>; the avatar image with the
  text of its \<open>src\<close> attribute (what was last assigned to \<open>src\<close>), its \<open>data-fallback\<close>
  attribute and the number of listeners registered for its error event; the sound
  element.
\<close>

record element =
  dataset :: "string \<rightharpoonup> jsval"
  classList :: "string set"

record img_element =
  img_src :: string
  img_data_fallback :: "string option"
  img_error_listeners :: nat

record audio_element =
  audio_src :: jsval
  audio_volume :: jsnum
  audio_currentTime :: jsnum

text \<open>The exception the program can meet, and what it sends to the console and the host.\<close>

datatype exn = TypeError

datatype event =
    ConsoleWarn string
  | ConsoleLog string
  | ConsoleError string exn
  | AvatarSrcAssigned string
  | PlayRequested
  | IntroTimeline
  | TimeoutSet nat string

text \<open>
  The page: \<open>window.customFields\<close>, whether \<open>anime\<close> is defined, whether the host
  rejects a request to play, how the document resolves an address (reading \<open>src\<close> of an
  image gives the resolved address of its attribute, not the text of the attribute), the
  style variables of the root element, the elements the
  selectors find (absent when \<open>None\<close> or \<open>False\<close>), the fields of the manager objects,
  and the trace of console output and requests to the host. A manager's \<open>element\<close>
  field is \<open>True\<close> when it refers to the element of its selector and \<open>False\<close> when null.
\<close>

record world =
  customFields :: "fields option"
  animeDefined :: bool
  playRejected :: bool
  resolveURL :: "string \<Rightarrow> string"
  styleVars :: "string \<rightharpoonup> cssvalue"
  alertFrame :: "element option"
  alertAvatarWrapper :: "element option"
  alertAvatarRing :: "element option"
  alertZoneLeft :: bool
  alertZoneRight :: bool
  alertAvatar :: "img_element option"
  alertSound :: "audio_element option"
  srAnnouncement :: "string option"
  cm_fields :: fields
  ir_element :: bool
  ir_fallbackSrc :: string
  am_element :: bool
  acc_element :: bool
  trace :: "event list"

definition emit :: "event \<Rightarrow> world \<Rightarrow> world" where
  "emit e w = w\<lparr>trace := trace w @ [e]\<rparr>"

text \<open>\<open>setVar\<close>, lines 134 to 136.\<close>

definition setVar :: "string \<Rightarrow> cssvalue \<Rightarrow> world \<Rightarrow> world" where
  "setVar name val w = w\<lparr>styleVars := (styleVars w)(name \<mapsto> val)\<rparr>"

definition ConfigManager_get :: "world \<Rightarrow> string \<Rightarrow> jsval \<Rightarrow> jsval" where
  "ConfigManager_get w key fallback = get_from (cm_fields w) key fallback"

text \<open>
  \<open>ConfigManager.init\<close>, lines 186 to 193. The field \<open>images\<close> it also sets is read
  nowhere in the program and is left out.
\<close>

definition ConfigManager_init :: "world \<Rightarrow> world" where
  "ConfigManager_init w =
     w\<lparr>cm_fields := (case customFields w of None \<Rightarrow> Map.empty | Some fs \<Rightarrow> fs)\<rparr>"

section \<open>Theme manager\<close>

definition px :: "jsnum \<Rightarrow> cssvalue" where
  "px n = WithUnit n ''px''"

definition digitChar :: "nat \<Rightarrow> char" where
  "digitChar i = ''0123456789'' ! i"

text \<open>\<open>applyContainerSize\<close>, lines 249 to 260.\<close>

definition applyContainerSize :: "world \<Rightarrow> world" where
  "applyContainerSize w =
     (let width = parseNumber (ConfigManager_get w ''containerWidth'' Undefined) (Fin 1000) (Fin 300) (Fin 1600);
          height = parseNumber (ConfigManager_get w ''containerHeight'' Undefined) (Fin 180) (Fin 80) (Fin 400);
          borderRadius = parseNumber (ConfigManager_get w ''containerBorderRadius'' Undefined) (Fin 42) (Fin 0) (Fin 100);
          outlineWidth = parseNumber (ConfigManager_get w ''containerOutlineWidth'' Undefined) (Fin 8) (Fin 1) (Fin 30)
      in setVar ''outline-width'' (px outlineWidth)
           (setVar ''container-radius-inner'' (px (Math_max (Fin 0) (num_sub borderRadius (Fin 8))))
             (setVar ''container-radius-outer'' (px borderRadius)
               (setVar ''container-height'' (px height)
                 (setVar ''container-width'' (px width) w)))))"

text \<open>\<open>applyContainerGradients\<close>, lines 265 to 270: the loop runs for \<open>i\<close> from 1 to 4.\<close>

definition applyContainerGradients :: "world \<Rightarrow> world" where
  "applyContainerGradients w =
     foldl (\<lambda>w i. setVar (''container-'' @ [digitChar i])
                     (Raw (ConfigManager_get w (''containerGradient'' @ [digitChar i]) Undefined)) w)
       w [1, 2, 3, 4]"

text \<open>\<open>applyAvatarSize\<close>, lines 275 to 282.\<close>

definition applyAvatarSize :: "world \<Rightarrow> world" where
  "applyAvatarSize w =
     (let size = parseNumber (ConfigManager_get w ''avatarSize'' Undefined) (Fin 150) (Fin 60) (Fin 300);
          ringWidth = parseNumber (ConfigManager_get w ''avatarRingWidth'' Undefined) (Fin 10) (Fin 2) (Fin 30)
      in setVar ''avatar-ring-width'' (px (Math_max (Fin 2) (num_div ringWidth (Fin 2))))
           (setVar ''avatar-ring-offset'' (px ringWidth)
             (setVar ''avatar-size'' (px size) w)))"

text \<open>\<open>applyRingGradients\<close>, lines 287 to 292: the loop runs for \<open>i\<close> from 1 to 3.\<close>

definition applyRingGradients :: "world \<Rightarrow> world" where
  "applyRingGradients w =
     foldl (\<lambda>w i. setVar (''ring-'' @ [digitChar i])
                     (Raw (ConfigManager_get w (''circleGradient'' @ [digitChar i]) Undefined)) w)
       w [1, 2, 3]"

text \<open>\<open>applyAnimation\<close>, lines 297 to 305.\<close>

definition applyAnimation :: "world \<Rightarrow> world" where
  "applyAnimation w =
     (let angle = parseNumber (ConfigManager_get w ''rotationAngle'' Undefined) (Fin 25) (Fin 0) (Fin 45);
          speed = parseNumber (ConfigManager_get w ''rotationSpeed'' Undefined) (Fin 6) (Fin 1) (Fin 20);
          ringSpeed = parseNumber (ConfigManager_get w ''ringSpinSpeed'' Undefined) (Fin 6) (Fin 1) (Fin 20)
      in setVar ''ring-spin-duration'' (WithUnit ringSpeed ''s'')
           (setVar ''sway-duration'' (WithUnit speed ''s'')
             (setVar ''sway-angle'' (WithUnit angle ''deg'') w)))"

text \<open>\<open>applyTypography\<close>, lines 310 to 329.\<close>

definition applyTypography :: "world \<Rightarrow> world" where
  "applyTypography w =
     (let scale = parseNumber (ConfigManager_get w ''textScale'' Undefined) (Fin 1) (Fin (1 / 2)) (Fin 2);
          textCase = ConfigManager_get w ''textCase'' (Str ''none'');
          font = ConfigManager_get w ''fontChoice'' (Str ''Ubuntu'');
          shadowBlur = parseNumber (ConfigManager_get w ''textShadowBlur'' Undefined) (Fin 4) (Fin 0) (Fin 30);
          fontWeightPrimary = ConfigManager_get w ''fontWeightPrimary'' (Num (Fin 900));
          fontWeightMeta = ConfigManager_get w ''fontWeightMeta'' (Num (Fin 700));
          letterSpacing = parseNumber (ConfigManager_get w ''letterSpacing'' Undefined)
                            (Fin (- (2 / 100))) (Fin (- (1 / 10))) (Fin (3 / 10))
      in setVar ''letter-spacing'' (WithUnit letterSpacing ''em'')
           (setVar ''font-weight-meta'' (Raw fontWeightMeta)
             (setVar ''font-weight-primary'' (Raw fontWeightPrimary)
               (setVar ''text-shadow-blur'' (px shadowBlur)
                 (setVar ''text-shadow-color'' (Raw (ConfigManager_get w ''textShadowColor'' Undefined))
                   (setVar ''text-secondary'' (Raw (ConfigManager_get w ''textColorMeta'' Undefined))
                     (setVar ''text-primary'' (Raw (ConfigManager_get w ''textColorMain'' Undefined))
                       (setVar ''font-family'' (FontFamily font)
                         (setVar ''text-transform'' (Raw textCase)
                           (setVar ''text-scale'' (Raw (Num scale)) w))))))))))"

text \<open>\<open>ThemeManager.apply\<close>, lines 237 to 244.\<close>

definition ThemeManager_apply :: "world \<Rightarrow> world" where
  "ThemeManager_apply w =
     applyTypography (applyAnimation (applyRingGradients (applyAvatarSize
       (applyContainerGradients (applyContainerSize w)))))"


section \<open>Shape manager\<close>

text \<open>\<open>ShapeManager.apply\<close>, lines 344 to 374.\<close>

definition ShapeManager_apply :: "world \<Rightarrow> world" where
  "ShapeManager_apply w =
     (case alertFrame w of
        None \<Rightarrow> emit (ConsoleWarn ''[Alert] Alert frame not found for shape application'') w
      | Some frame \<Rightarrow>
          let shape = ConfigManager_get w ''alertBoxShape'' (Str ''rounded-rectangle'');
              frame1 = frame\<lparr>dataset := (dataset frame)(''shape'' \<mapsto> shape)\<rparr>;
              aspectRatio = ConfigManager_get w ''maintainAspectRatio'' (Str ''none'');
              frame2 = (if \<not> strict_eq aspectRatio (Str ''none'')
                        then frame1\<lparr>dataset := (dataset frame1)(''aspect'' \<mapsto> aspectRatio)\<rparr>
                        else frame1\<lparr>dataset := (dataset frame1)(''aspect'' := None)\<rparr>);
              w1 = w\<lparr>alertFrame := Some frame2\<rparr>;
              w2 = (case alertAvatarWrapper w1 of
                      None \<Rightarrow> w1
                    | Some avatarWrapper \<Rightarrow>
                        let avatarShape = ConfigManager_get w1 ''avatarShape'' (Str ''circle'')
                        in w1\<lparr>alertAvatarWrapper :=
                               Some (avatarWrapper\<lparr>dataset := (dataset avatarWrapper)(''avatarShape'' \<mapsto> avatarShape)\<rparr>)\<rparr>);
              padding = parseNumber (ConfigManager_get w2 ''shapePadding'' Undefined) (Fin 16) (Fin 0) (Fin 60)
          in setVar ''shape-padding'' (px padding) w2)"

section \<open>Effects manager\<close>

text \<open>\<open>classList.toggle(name, force)\<close>.\<close>

definition toggle :: "string \<Rightarrow> bool \<Rightarrow> element \<Rightarrow> element" where
  "toggle name force e =
     e\<lparr>classList := (if force then insert name (classList e) else classList e - {name})\<rparr>"

definition flag01 :: "bool \<Rightarrow> cssvalue" where
  "flag01 enabled = Raw (Str (if enabled then ''1'' else ''0''))"

text \<open>\<open>applyDropShadow\<close>, lines 397 to 411.\<close>

definition applyDropShadow :: "world \<Rightarrow> world" where
  "applyDropShadow w =
     (let enabled = strict_eq (ConfigManager_get w ''dropShadowEnabled'' (Str ''true'')) (Str ''true'');
          offsetX = parseNumber (ConfigManager_get w ''dropShadowOffsetX'' Undefined) (Fin 0) (Fin (- 50)) (Fin 50);
          offsetY = parseNumber (ConfigManager_get w ''dropShadowOffsetY'' Undefined) (Fin 12) (Fin 0) (Fin 50);
          blur = parseNumber (ConfigManager_get w ''dropShadowBlur'' Undefined) (Fin 24) (Fin 0) (Fin 80);
          color = ConfigManager_get w ''dropShadowColor'' (Str ''#000000'');
          opacity = parseNumber (ConfigManager_get w ''dropShadowOpacity'' Undefined) (Fin (4 / 10)) (Fin 0) (Fin 1)
      in setVar ''drop-shadow-opacity'' (Raw (Num opacity))
           (setVar ''drop-shadow-color'' (Raw color)
             (setVar ''drop-shadow-blur'' (px blur)
               (setVar ''drop-shadow-y'' (px offsetY)
                 (setVar ''drop-shadow-x'' (px offsetX)
                   (setVar ''drop-shadow-enabled'' (flag01 enabled) w))))))"

text \<open>\<open>applyGlow\<close>, lines 416 to 430.\<close>

definition applyGlow :: "world \<Rightarrow> world" where
  "applyGlow w =
     (let enabled = strict_eq (ConfigManager_get w ''glowEnabled'' (Str ''false'')) (Str ''true'');
          color = ConfigManager_get w ''glowColor'' (Str ''#ffffff'');
          intensity = parseNumber (ConfigManager_get w ''glowIntensity'' Undefined) (Fin 20) (Fin 5) (Fin 60);
          w1 = setVar ''glow-intensity'' (px intensity)
                 (setVar ''glow-color'' (Raw color)
                   (setVar ''glow-enabled'' (flag01 enabled) w))
      in case alertFrame w1 of
           None \<Rightarrow> w1
         | Some frame \<Rightarrow> w1\<lparr>alertFrame := Some (toggle ''alert-frame--glow'' enabled frame)\<rparr>)"

text \<open>\<open>applyAnimationToggles\<close>, lines 435 to 460.\<close>

definition applyAnimationToggles :: "world \<Rightarrow> world" where
  "applyAnimationToggles w =
     (let swayEnabled = strict_eq (ConfigManager_get w ''enableSway'' (Str ''true'')) (Str ''true'');
          w1 = (case alertFrame w of
                  None \<Rightarrow> w
                | Some frame \<Rightarrow> w\<lparr>alertFrame := Some (toggle ''alert-frame--no-sway'' (\<not> swayEnabled) frame)\<rparr>);
          ringSpinEnabled = strict_eq (ConfigManager_get w1 ''enableRingSpin'' (Str ''true'')) (Str ''true'');
          w2 = (case alertAvatarRing w1 of
                  None \<Rightarrow> w1
                | Some ring \<Rightarrow>
                    w1\<lparr>alertAvatarRing := Some (toggle ''alert-avatar-ring--no-spin'' (\<not> ringSpinEnabled) ring)\<rparr>);
          gradientEnabled = strict_eq (ConfigManager_get w2 ''enableGradientAnimation'' (Str ''true'')) (Str ''true'');
          w3 = (case alertFrame w2 of
                  None \<Rightarrow> w2
                | Some frame \<Rightarrow>
                    w2\<lparr>alertFrame := Some (toggle ''alert-frame--no-gradient-animation'' (\<not> gradientEnabled) frame)\<rparr>);
          gradientSpeed = parseNumber (ConfigManager_get w3 ''gradientAnimationSpeed'' Undefined) (Fin 8) (Fin 2) (Fin 20)
      in setVar ''gradient-duration'' (WithUnit gradientSpeed ''s'') w3)"

text \<open>\<open>EffectsManager.apply\<close>, lines 388 to 392.\<close>

definition EffectsManager_apply :: "world \<Rightarrow> world" where
  "EffectsManager_apply w = applyAnimationToggles (applyGlow (applyDropShadow w))"

section \<open>Image renderer\<close>

text \<open>\<open>ImageRenderer.init\<close>, lines 479 to 494.\<close>

definition ImageRenderer_init :: "world \<Rightarrow> world" where
  "ImageRenderer_init w =
     (case alertAvatar w of
        None \<Rightarrow> emit (ConsoleWarn ''[Alert] Avatar element not found'') (w\<lparr>ir_element := False\<rparr>)
      | Some el \<Rightarrow>
          w\<lparr>ir_element := True,
            ir_fallbackSrc :=
              (case img_data_fallback el of
                 None \<Rightarrow> DEFAULTS_fallbackImage
               | Some d \<Rightarrow> if d = [] then DEFAULTS_fallbackImage else d),
            alertAvatar := Some (el\<lparr>img_error_listeners := Suc (img_error_listeners el)\<rparr>)\<rparr>)"

text \<open>\<open>ImageRenderer.render\<close>, lines 500 to 503, does nothing.\<close>

definition ImageRenderer_render :: "world \<Rightarrow> world" where
  "ImageRenderer_render w = w"

text \<open>
  \<open>ImageRenderer.handleError\<close>, lines 508 to 518. \<open>this.element.src\<close> reads the
  resolved address of the attribute; \<open>this.fallbackSrc\<close> is the text that
  \<open>ImageRenderer.init\<close> took from \<open>data-fallback\<close> or from the default.
\<close>

definition handleError :: "world \<Rightarrow> world" where
  "handleError w =
     (if \<not> ir_element w then w
      else
        (case alertAvatar w of
           None \<Rightarrow> w
         | Some el \<Rightarrow>
             let currentSrc = resolveURL w (img_src el) in
             if currentSrc \<noteq> ir_fallbackSrc w then
               emit (AvatarSrcAssigned (ir_fallbackSrc w))
                 ((emit (ConsoleWarn (''[Alert] Image failed to load: '' @ currentSrc @ '', using fallback'')) w)
                    \<lparr>alertAvatar := Some (el\<lparr>img_src := ir_fallbackSrc w\<rparr>)\<rparr>)
             else w))"

text \<open>
  A load failure of the avatar: the element's error event runs every listener that
  \<open>ImageRenderer.init\<close> has registered, and each of them calls \<open>handleError\<close>.
\<close>

definition avatar_error_event :: "world \<Rightarrow> world" where
  "avatar_error_event w =
     (case alertAvatar w of
        None \<Rightarrow> w
      | Some el \<Rightarrow> (handleError ^^ img_error_listeners el) w)"

text \<open>The number of assignments to the avatar's source recorded in a trace.\<close>

definition src_assignments :: "event list \<Rightarrow> nat" where
  "src_assignments t = length (filter (\<lambda>e. case e of AvatarSrcAssigned _ \<Rightarrow> True | _ \<Rightarrow> False) t)"

section \<open>Audio manager\<close>

text \<open>\<open>AudioManager.init\<close>, lines 534 to 537.\<close>

definition AudioManager_init :: "world \<Rightarrow> world" where
  "AudioManager_init w = w\<lparr>am_element := (alertSound w \<noteq> None)\<rparr>"

text \<open>
  \<open>AudioManager.isTokenString\<close>, lines 563 to 565. A value that is true and not a
  string has no method \<open>includes\<close>: the call throws a TypeError.
\<close>

definition isTokenString :: "jsval \<Rightarrow> exn + bool" where
  "isTokenString str =
     (if \<not> truthy str then Inr True
      else
        (case str of
           Str s \<Rightarrow> Inr (String_includes s CHR ''{'' \<or> String_includes s CHR ''}'')
         | _ \<Rightarrow> Inl TypeError))"

text \<open>
  \<open>AudioManager.play\<close>, lines 542 to 556. The request to play is an event of the trace;
  when the host rejects it, the handler given to \<open>catch\<close> writes a warning.
\<close>

definition AudioManager_play :: "world \<Rightarrow> exn + world" where
  "AudioManager_play w =
     (if \<not> am_element w then Inr w
      else
        (case alertSound w of
           None \<Rightarrow> Inr w
         | Some el \<Rightarrow>
             let soundSrc = ConfigManager_get w ''alertSound'' (Str []);
                 volume = parseNumber (ConfigManager_get w ''soundVolume'' Undefined) (Fin (8 / 10)) (Fin 0) (Fin 1)
             in if \<not> truthy soundSrc then Inr w
                else
                  (case isTokenString soundSrc of
                     Inl e \<Rightarrow> Inl e
                   | Inr True \<Rightarrow> Inr w
                   | Inr False \<Rightarrow>
                       let w1 = emit PlayRequested
                                  (w\<lparr>alertSound :=
                                       Some (el\<lparr>audio_src := soundSrc, audio_volume := volume,
                                                audio_currentTime := Fin 0\<rparr>)\<rparr>)
                       in Inr (if playRejected w1
                               then emit (ConsoleWarn ''[Alert] Audio playback failed:'') w1
                               else w1))))"

section \<open>Animation controller and accessibility manager\<close>

text \<open>
  \<open>AnimationController.playIntro\<close>, lines 587 to 652. What the animation engine does
  with the targets is outside the program: the call is an event of the trace.
\<close>

definition playIntro :: "world \<Rightarrow> world" where
  "playIntro w =
     (if \<not> animeDefined w then emit (ConsoleWarn ''[Alert] anime.js not available, skipping animations'') w
      else if alertFrame w = None \<and> \<not> alertZoneLeft w \<and> \<not> alertZoneRight w \<and> alertAvatarWrapper w = None
      then emit (ConsoleWarn ''[Alert] No animation targets found'') w
      else emit IntroTimeline w)"

text \<open>\<open>AccessibilityManager.init\<close> and \<open>announce\<close>, lines 668 to 685.\<close>

definition AccessibilityManager_init :: "world \<Rightarrow> world" where
  "AccessibilityManager_init w = w\<lparr>acc_element := (srAnnouncement w \<noteq> None)\<rparr>"

definition announce :: "string \<Rightarrow> world \<Rightarrow> world" where
  "announce message w =
     (if \<not> acc_element w then w
      else
        (case srAnnouncement w of
           None \<Rightarrow> w
         | Some _ \<Rightarrow> emit (TimeoutSet 100 message) (w\<lparr>srAnnouncement := Some []\<rparr>)))"

section \<open>Main initialization\<close>

text \<open>
  \<open>init\<close>, lines 696 to 729. Only \<open>AudioManager.play\<close> can throw; the handler of the
  \<open>try\<close> writes the error to the console and the remaining steps are skipped.
\<close>

definition init :: "world \<Rightarrow> world" where
  "init w =
     (let w1 = AccessibilityManager_init (AudioManager_init (ImageRenderer_init (ConfigManager_init w)));
          w2 = ThemeManager_apply w1;
          w3 = ShapeManager_apply w2;
          w4 = EffectsManager_apply w3;
          w5 = ImageRenderer_render w4
      in case AudioManager_play w5 of
           Inl error \<Rightarrow> emit (ConsoleError ''[Alert] Initialization error:'' error) w5
         | Inr w6 \<Rightarrow>
             emit (ConsoleLog ''[Alert] Initialization complete v2.1.0'')
               (announce ''New subscription alert'' (playIntro w6)))"

section \<open>Notions used by the properties\<close>

text \<open>
  The calls of \<open>parseNumber\<close> in \<open>alerts.js\<close>: the configuration key, the fallback and
  the bounds of each (lines 250 to 253, 276, 277, 298 to 300, 311, 314, 317, 372, 399 to
  403, 420, 458 and 546).
\<close>

definition parseNumber_calls :: "(string \<times> jsnum \<times> jsnum \<times> jsnum) list" where
  "parseNumber_calls =
     [(''containerWidth'', Fin 1000, Fin 300, Fin 1600),
      (''containerHeight'', Fin 180, Fin 80, Fin 400),
      (''containerBorderRadius'', Fin 42, Fin 0, Fin 100),
      (''containerOutlineWidth'', Fin 8, Fin 1, Fin 30),
      (''avatarSize'', Fin 150, Fin 60, Fin 300),
      (''avatarRingWidth'', Fin 10, Fin 2, Fin 30),
      (''rotationAngle'', Fin 25, Fin 0, Fin 45),
      (''rotationSpeed'', Fin 6, Fin 1, Fin 20),
      (''ringSpinSpeed'', Fin 6, Fin 1, Fin 20),
      (''textScale'', Fin 1, Fin (1 / 2), Fin 2),
      (''textShadowBlur'', Fin 4, Fin 0, Fin 30),
      (''letterSpacing'', Fin (- (2 / 100)), Fin (- (1 / 10)), Fin (3 / 10)),
      (''shapePadding'', Fin 16, Fin 0, Fin 60),
      (''dropShadowOffsetX'', Fin 0, Fin (- 50), Fin 50),
      (''dropShadowOffsetY'', Fin 12, Fin 0, Fin 50),
      (''dropShadowBlur'', Fin 24, Fin 0, Fin 80),
      (''dropShadowOpacity'', Fin (4 / 10), Fin 0, Fin 1),
      (''glowIntensity'', Fin 20, Fin 5, Fin 60),
      (''gradientAnimationSpeed'', Fin 8, Fin 2, Fin 20),
      (''soundVolume'', Fin (8 / 10), Fin 0, Fin 1)]"

text \<open>A number lies within the bounds, both included.\<close>

definition in_range :: "jsnum \<Rightarrow> jsnum \<Rightarrow> jsnum \<Rightarrow> bool" where
  "in_range lo hi n = (num_le lo n \<and> num_le n hi)"

text \<open>
  A string has a numeric prefix: after leading white space and an optional sign it starts
  with \<open>Infinity\<close>, with a digit, or with a point followed by a digit.
\<close>

definition spec_numericPrefix :: "string \<Rightarrow> bool" where
  "spec_numericPrefix s =
     (let t = dropWhile isWhiteSpace s;
          u = (if t \<noteq> [] \<and> (hd t = CHR ''+'' \<or> hd t = CHR ''-'') then tl t else t)
      in take 8 u = ''Infinity''
         \<or> (u \<noteq> [] \<and> isDecimalDigit (hd u))
         \<or> (u \<noteq> [] \<and> hd u = CHR ''.'' \<and> tl u \<noteq> [] \<and> isDecimalDigit (hd (tl u))))"

text \<open>
  An example of how a document resolves an address: one that starts with a scheme stays
  as it is, any other is taken relative to the address of the page.
\<close>

definition example_resolve :: "string \<Rightarrow> string" where
  "example_resolve s =
     (if take 8 s = ''https://'' \<or> take 7 s = ''http://'' then s
      else ''https://streamlabs.com/alert-box/'' @ s)"

text \<open>
  The parts of a decimal literal: an optional sign, the digits before the point, whether
  there is a point, the digits after it, and an optional exponent made of the letter, an
  optional sign and digits. \<open>spec_literal_text\<close> is the literal as written and
  \<open>spec_literal_value\<close> the number it denotes, digit by digit.
\<close>

fun spec_decimal :: "string \<Rightarrow> nat" where
  "spec_decimal [] = 0"
| "spec_decimal (d # ds) = digitValue d * 10 ^ length ds + spec_decimal ds"

definition spec_sign :: "string \<Rightarrow> bool" where
  "spec_sign sg = (sg = [] \<or> sg = ''+'' \<or> sg = ''-'')"

definition spec_exponent_ok :: "(char \<times> string \<times> string) option \<Rightarrow> bool" where
  "spec_exponent_ok ex =
     (case ex of
        None \<Rightarrow> True
      | Some (ec, esg, ed) \<Rightarrow>
          (ec = CHR ''e'' \<or> ec = CHR ''E'') \<and> spec_sign esg \<and> ed \<noteq> [] \<and> list_all isDecimalDigit ed)"

definition spec_exponent_text :: "(char \<times> string \<times> string) option \<Rightarrow> string" where
  "spec_exponent_text ex = (case ex of None \<Rightarrow> [] | Some (ec, esg, ed) \<Rightarrow> ec # esg @ ed)"

definition spec_exponent_value :: "(char \<times> string \<times> string) option \<Rightarrow> int" where
  "spec_exponent_value ex =
     (case ex of
        None \<Rightarrow> 0
      | Some (ec, esg, ed) \<Rightarrow> if esg = ''-'' then - int (spec_decimal ed) else int (spec_decimal ed))"

definition spec_literal_text ::
  "string \<Rightarrow> string \<Rightarrow> bool \<Rightarrow> string \<Rightarrow> (char \<times> string \<times> string) option \<Rightarrow> string" where
  "spec_literal_text sg ip dot fp ex =
     sg @ ip @ (if dot then CHR ''.'' # fp else []) @ spec_exponent_text ex"

definition spec_literal_value ::
  "string \<Rightarrow> string \<Rightarrow> string \<Rightarrow> (char \<times> string \<times> string) option \<Rightarrow> real" where
  "spec_literal_value sg ip fp ex =
     (if sg = ''-'' then - 1 else 1)
       * (real (spec_decimal ip) + real (spec_decimal fp) / 10 ^ length fp)
       * 10 powi spec_exponent_value ex"

text \<open>
  The literal is well formed: it has a digit before or after the point, and digits after
  the point only when there is a point.
\<close>

definition spec_literal_ok ::
  "string \<Rightarrow> string \<Rightarrow> bool \<Rightarrow> string \<Rightarrow> (char \<times> string \<times> string) option \<Rightarrow> bool" where
  "spec_literal_ok sg ip dot fp ex =
     (spec_sign sg \<and> list_all isDecimalDigit ip \<and> list_all isDecimalDigit fp
      \<and> (dot \<or> fp = []) \<and> (ip \<noteq> [] \<or> fp \<noteq> []) \<and> spec_exponent_ok ex)"

text \<open>
  The rest of the string starts an exponent: the letter, an optional sign and a digit.
\<close>

definition spec_exponentStart :: "string \<Rightarrow> bool" where
  "spec_exponentStart r =
     (case r of
        [] \<Rightarrow> False
      | c # r1 \<Rightarrow>
          (c = CHR ''e'' \<or> c = CHR ''E'')
          \<and> (case r1 of
                [] \<Rightarrow> False
              | d # r2 \<Rightarrow>
                  isDecimalDigit d
                  \<or> ((d = CHR ''+'' \<or> d = CHR ''-'') \<and> (case r2 of [] \<Rightarrow> False | g # r3 \<Rightarrow> isDecimalDigit g))))"

text \<open>
  What follows the literal cannot make it longer: no digit; no exponent when the literal
  has none; no point when the literal has neither point nor exponent.
\<close>

definition spec_stops :: "bool \<Rightarrow> (char \<times> string \<times> string) option \<Rightarrow> string \<Rightarrow> bool" where
  "spec_stops dot ex rest =
     (case rest of
        [] \<Rightarrow> True
      | c # r \<Rightarrow>
          \<not> isDecimalDigit c
          \<and> (ex \<noteq> None \<or> \<not> spec_exponentStart rest)
          \<and> (dot \<or> ex \<noteq> None \<or> c \<noteq> CHR ''.''))"

text \<open>
  A page before the first call of \<open>init\<close>: every element of the markup is present, no
  custom field is set, and the manager objects hold their initial values.
\<close>

definition example_page :: world where
  "example_page =
     \<lparr>customFields = None, animeDefined = True, playRejected = False,
      resolveURL = example_resolve,
      styleVars = Map.empty,
      alertFrame = Some \<lparr>dataset = Map.empty, classList = {''alert-frame''}\<rparr>,
      alertAvatarWrapper = Some \<lparr>dataset = Map.empty, classList = {''alert-avatar-wrapper''}\<rparr>,
      alertAvatarRing = Some \<lparr>dataset = Map.empty, classList = {''alert-avatar-ring''}\<rparr>,
      alertZoneLeft = True, alertZoneRight = True,
      alertAvatar = Some \<lparr>img_src = ''https://example.com/avatar.png'', img_data_fallback = None,
                          img_error_listeners = 0\<rparr>,
      alertSound = Some \<lparr>audio_src = Str [], audio_volume = Fin 1, audio_currentTime = Fin 0\<rparr>,
      srAnnouncement = Some [],
      cm_fields = Map.empty, ir_element = False, ir_fallbackSrc = DEFAULTS_fallbackImage,
      am_element = False, acc_element = False, trace = []\<rparr>"

text \<open>The example page with a relative address as the fallback of the avatar image.\<close>

definition relative_fallback_page :: world where
  "relative_fallback_page =
     example_page\<lparr>alertAvatar :=
       Some \<lparr>img_src = ''https://example.com/avatar.png'', img_data_fallback = Some ''fallback.gif'',
             img_error_listeners = 0\<rparr>\<rparr>"

text \<open>The number of requests to play recorded in a trace.\<close>

definition play_requests :: "event list \<Rightarrow> nat" where
  "play_requests t = length (filter (\<lambda>e. e = PlayRequested) t)"

text \<open>A sound source is resolved: a string that is not empty and has no brace.\<close>

definition spec_resolved :: "jsval \<Rightarrow> bool" where
  "spec_resolved v = (case v of Str s \<Rightarrow> s \<noteq> [] \<and> CHR ''{'' \<notin> set s \<and> CHR ''}'' \<notin> set s | _ \<Rightarrow> False)"

text \<open>
  What a reinitialization is compared on: the style variables, the attributes and classes
  of the frame, the avatar wrapper and the ring, the source and the fallback attribute of
  the avatar image, the sound element and the text of the announcement element. The
  console, the requests to the host and the number of registered listeners are left out.
\<close>

definition observable ::
  "world \<Rightarrow> (string \<rightharpoonup> cssvalue) \<times> element option \<times> element option \<times> element option
             \<times> (string \<times> string option) option \<times> audio_element option \<times> string option" where
  "observable w =
     (styleVars w, alertFrame w, alertAvatarWrapper w, alertAvatarRing w,
      map_option (\<lambda>el. (img_src el, img_data_fallback el)) (alertAvatar w),
      alertSound w, srAnnouncement w)"

text \<open>
  A style variable holds a finite number within the bounds, followed by the unit, or as
  it is.
\<close>

definition var_within :: "world \<Rightarrow> string \<Rightarrow> string \<Rightarrow> real \<Rightarrow> real \<Rightarrow> bool" where
  "var_within w name unit lo hi =
     (case styleVars w name of
        Some (WithUnit (Fin r) u) \<Rightarrow> u = unit \<and> lo \<le> r \<and> r \<le> hi
      | _ \<Rightarrow> False)"

definition raw_within :: "world \<Rightarrow> string \<Rightarrow> real \<Rightarrow> real \<Rightarrow> bool" where
  "raw_within w name lo hi =
     (case styleVars w name of
        Some (Raw (Num (Fin r))) \<Rightarrow> lo \<le> r \<and> r \<le> hi
      | _ \<Rightarrow> False)"

section \<open>Auxiliary notions of the proofs\<close>

text \<open>The three stages of \<open>init\<close>: the managers, the translators, and sound, intro and announcement.\<close>

definition managers_init :: "world \<Rightarrow> world" where
  "managers_init w =
     AccessibilityManager_init (AudioManager_init (ImageRenderer_init (ConfigManager_init w)))"

definition apply_styles :: "world \<Rightarrow> world" where
  "apply_styles w = EffectsManager_apply (ShapeManager_apply (ThemeManager_apply w))"

definition finish_init :: "world \<Rightarrow> world" where
  "finish_init w =
     (case AudioManager_play w of
        Inl error \<Rightarrow> emit (ConsoleError ''[Alert] Initialization error:'' error) w
      | Inr w6 \<Rightarrow>
          emit (ConsoleLog ''[Alert] Initialization complete v2.1.0'')
            (announce ''New subscription alert'' (playIntro w6)))"

text \<open>
  A pass adds style variables: what it writes depends on the configuration fields and on
  the presence of the frame only, and the other style variables stay as they are.
\<close>

definition adds_vars :: "(world \<Rightarrow> world) \<Rightarrow> bool" where
  "adds_vars P =
     (\<forall>w w0. styleVars w0 = Map.empty \<and> cm_fields w0 = cm_fields w
             \<and> (alertFrame w0 = None) = (alertFrame w = None)
        \<longrightarrow> styleVars (P w) = styleVars w ++ styleVars (P w0))"

text \<open>
  The elements after the translators, and the sound element after \<open>AudioManager.play\<close>,
  in terms of the configuration fields.
\<close>

definition frame_styled :: "fields \<Rightarrow> element \<Rightarrow> element" where
  "frame_styled fs frame =
     toggle ''alert-frame--no-gradient-animation''
       (\<not> strict_eq (get_from fs ''enableGradientAnimation'' (Str ''true'')) (Str ''true''))
       (toggle ''alert-frame--no-sway''
          (\<not> strict_eq (get_from fs ''enableSway'' (Str ''true'')) (Str ''true''))
          (toggle ''alert-frame--glow''
             (strict_eq (get_from fs ''glowEnabled'' (Str ''false'')) (Str ''true''))
             (frame\<lparr>dataset := (dataset frame)
                (''shape'' \<mapsto> get_from fs ''alertBoxShape'' (Str ''rounded-rectangle''),
                 ''aspect'' :=
                   (if strict_eq (get_from fs ''maintainAspectRatio'' (Str ''none'')) (Str ''none'')
                    then None
                    else Some (get_from fs ''maintainAspectRatio'' (Str ''none''))))\<rparr>)))"

definition wrapper_styled :: "fields \<Rightarrow> element \<Rightarrow> element" where
  "wrapper_styled fs e =
     e\<lparr>dataset := (dataset e)(''avatarShape'' \<mapsto> get_from fs ''avatarShape'' (Str ''circle''))\<rparr>"

definition ring_styled :: "fields \<Rightarrow> element \<Rightarrow> element" where
  "ring_styled fs e =
     toggle ''alert-avatar-ring--no-spin''
       (\<not> strict_eq (get_from fs ''enableRingSpin'' (Str ''true'')) (Str ''true'')) e"

definition sound_played :: "fields \<Rightarrow> audio_element \<Rightarrow> audio_element" where
  "sound_played fs el =
     (if spec_resolved (get_from fs ''alertSound'' (Str []))
      then el\<lparr>audio_src := get_from fs ''alertSound'' (Str []),
              audio_volume := parseNumber (get_from fs ''soundVolume'' Undefined) (Fin (8 / 10)) (Fin 0) (Fin 1),
              audio_currentTime := Fin 0\<rparr>
      else el)"

definition play_throws :: "fields \<Rightarrow> bool" where
  "play_throws fs =
     (truthy (get_from fs ''alertSound'' (Str []))
      \<and> (case get_from fs ''alertSound'' (Str []) of Str s \<Rightarrow> False | _ \<Rightarrow> True))"

section \<open>How each pass leaves the rest of the page\<close>

text \<open>
  Each pass changes a few fields of the page; the lemmas of this section list, pass by
  pass, the fields it leaves as they are.
\<close>

lemma ConfigManager_init_frame [simp]:
  "customFields (ConfigManager_init w) = customFields w"
  "animeDefined (ConfigManager_init w) = animeDefined w"
  "playRejected (ConfigManager_init w) = playRejected w"
  "resolveURL (ConfigManager_init w) = resolveURL w"
  "styleVars (ConfigManager_init w) = styleVars w"
  "alertFrame (ConfigManager_init w) = alertFrame w"
  "alertAvatarWrapper (ConfigManager_init w) = alertAvatarWrapper w"
  "alertAvatarRing (ConfigManager_init w) = alertAvatarRing w"
  "alertZoneLeft (ConfigManager_init w) = alertZoneLeft w"
  "alertZoneRight (ConfigManager_init w) = alertZoneRight w"
  "alertAvatar (ConfigManager_init w) = alertAvatar w"
  "alertSound (ConfigManager_init w) = alertSound w"
  "srAnnouncement (ConfigManager_init w) = srAnnouncement w"
  "ir_element (ConfigManager_init w) = ir_element w"
  "ir_fallbackSrc (ConfigManager_init w) = ir_fallbackSrc w"
  "am_element (ConfigManager_init w) = am_element w"
  "acc_element (ConfigManager_init w) = acc_element w"
  "trace (ConfigManager_init w) = trace w"
  by (simp_all add: ConfigManager_init_def Let_def setVar_def emit_def split: option.splits)

lemma ImageRenderer_init_frame [simp]:
  "customFields (ImageRenderer_init w) = customFields w"
  "animeDefined (ImageRenderer_init w) = animeDefined w"
  "playRejected (ImageRenderer_init w) = playRejected w"
  "resolveURL (ImageRenderer_init w) = resolveURL w"
  "styleVars (ImageRenderer_init w) = styleVars w"
  "alertFrame (ImageRenderer_init w) = alertFrame w"
  "alertAvatarWrapper (ImageRenderer_init w) = alertAvatarWrapper w"
  "alertAvatarRing (ImageRenderer_init w) = alertAvatarRing w"
  "alertZoneLeft (ImageRenderer_init w) = alertZoneLeft w"
  "alertZoneRight (ImageRenderer_init w) = alertZoneRight w"
  "alertSound (ImageRenderer_init w) = alertSound w"
  "srAnnouncement (ImageRenderer_init w) = srAnnouncement w"
  "cm_fields (ImageRenderer_init w) = cm_fields w"
  "am_element (ImageRenderer_init w) = am_element w"
  "acc_element (ImageRenderer_init w) = acc_element w"
  by (simp_all add: ImageRenderer_init_def Let_def setVar_def emit_def split: option.splits)

lemma AudioManager_init_frame [simp]:
  "customFields (AudioManager_init w) = customFields w"
  "animeDefined (AudioManager_init w) = animeDefined w"
  "playRejected (AudioManager_init w) = playRejected w"
  "resolveURL (AudioManager_init w) = resolveURL w"
  "styleVars (AudioManager_init w) = styleVars w"
  "alertFrame (AudioManager_init w) = alertFrame w"
  "alertAvatarWrapper (AudioManager_init w) = alertAvatarWrapper w"
  "alertAvatarRing (AudioManager_init w) = alertAvatarRing w"
  "alertZoneLeft (AudioManager_init w) = alertZoneLeft w"
  "alertZoneRight (AudioManager_init w) = alertZoneRight w"
  "alertAvatar (AudioManager_init w) = alertAvatar w"
  "alertSound (AudioManager_init w) = alertSound w"
  "srAnnouncement (AudioManager_init w) = srAnnouncement w"
  "cm_fields (AudioManager_init w) = cm_fields w"
  "ir_element (AudioManager_init w) = ir_element w"
  "ir_fallbackSrc (AudioManager_init w) = ir_fallbackSrc w"
  "acc_element (AudioManager_init w) = acc_element w"
  "trace (AudioManager_init w) = trace w"
  by (simp_all add: AudioManager_init_def Let_def setVar_def emit_def split: option.splits)

lemma AccessibilityManager_init_frame [simp]:
  "customFields (AccessibilityManager_init w) = customFields w"
  "animeDefined (AccessibilityManager_init w) = animeDefined w"
  "playRejected (AccessibilityManager_init w) = playRejected w"
  "resolveURL (AccessibilityManager_init w) = resolveURL w"
  "styleVars (AccessibilityManager_init w) = styleVars w"
  "alertFrame (AccessibilityManager_init w) = alertFrame w"
  "alertAvatarWrapper (AccessibilityManager_init w) = alertAvatarWrapper w"
  "alertAvatarRing (AccessibilityManager_init w) = alertAvatarRing w"
  "alertZoneLeft (AccessibilityManager_init w) = alertZoneLeft w"
  "alertZoneRight (AccessibilityManager_init w) = alertZoneRight w"
  "alertAvatar (AccessibilityManager_init w) = alertAvatar w"
  "alertSound (AccessibilityManager_init w) = alertSound w"
  "srAnnouncement (AccessibilityManager_init w) = srAnnouncement w"
  "cm_fields (AccessibilityManager_init w) = cm_fields w"
  "ir_element (AccessibilityManager_init w) = ir_element w"
  "ir_fallbackSrc (AccessibilityManager_init w) = ir_fallbackSrc w"
  "am_element (AccessibilityManager_init w) = am_element w"
  "trace (AccessibilityManager_init w) = trace w"
  by (simp_all add: AccessibilityManager_init_def Let_def setVar_def emit_def split: option.splits)

lemma applyContainerSize_frame [simp]:
  "customFields (applyContainerSize w) = customFields w"
  "animeDefined (applyContainerSize w) = animeDefined w"
  "playRejected (applyContainerSize w) = playRejected w"
  "resolveURL (applyContainerSize w) = resolveURL w"
  "alertFrame (applyContainerSize w) = alertFrame w"
  "alertAvatarWrapper (applyContainerSize w) = alertAvatarWrapper w"
  "alertAvatarRing (applyContainerSize w) = alertAvatarRing w"
  "alertZoneLeft (applyContainerSize w) = alertZoneLeft w"
  "alertZoneRight (applyContainerSize w) = alertZoneRight w"
  "alertAvatar (applyContainerSize w) = alertAvatar w"
  "alertSound (applyContainerSize w) = alertSound w"
  "srAnnouncement (applyContainerSize w) = srAnnouncement w"
  "cm_fields (applyContainerSize w) = cm_fields w"
  "ir_element (applyContainerSize w) = ir_element w"
  "ir_fallbackSrc (applyContainerSize w) = ir_fallbackSrc w"
  "am_element (applyContainerSize w) = am_element w"
  "acc_element (applyContainerSize w) = acc_element w"
  "trace (applyContainerSize w) = trace w"
  by (simp_all add: applyContainerSize_def Let_def setVar_def emit_def split: option.splits)

lemma applyContainerGradients_frame [simp]:
  "customFields (applyContainerGradients w) = customFields w"
  "animeDefined (applyContainerGradients w) = animeDefined w"
  "playRejected (applyContainerGradients w) = playRejected w"
  "resolveURL (applyContainerGradients w) = resolveURL w"
  "alertFrame (applyContainerGradients w) = alertFrame w"
  "alertAvatarWrapper (applyContainerGradients w) = alertAvatarWrapper w"
  "alertAvatarRing (applyContainerGradients w) = alertAvatarRing w"
  "alertZoneLeft (applyContainerGradients w) = alertZoneLeft w"
  "alertZoneRight (applyContainerGradients w) = alertZoneRight w"
  "alertAvatar (applyContainerGradients w) = alertAvatar w"
  "alertSound (applyContainerGradients w) = alertSound w"
  "srAnnouncement (applyContainerGradients w) = srAnnouncement w"
  "cm_fields (applyContainerGradients w) = cm_fields w"
  "ir_element (applyContainerGradients w) = ir_element w"
  "ir_fallbackSrc (applyContainerGradients w) = ir_fallbackSrc w"
  "am_element (applyContainerGradients w) = am_element w"
  "acc_element (applyContainerGradients w) = acc_element w"
  "trace (applyContainerGradients w) = trace w"
  by (simp_all add: applyContainerGradients_def Let_def setVar_def emit_def split: option.splits)

lemma applyAvatarSize_frame [simp]:
  "customFields (applyAvatarSize w) = customFields w"
  "animeDefined (applyAvatarSize w) = animeDefined w"
  "playRejected (applyAvatarSize w) = playRejected w"
  "resolveURL (applyAvatarSize w) = resolveURL w"
  "alertFrame (applyAvatarSize w) = alertFrame w"
  "alertAvatarWrapper (applyAvatarSize w) = alertAvatarWrapper w"
  "alertAvatarRing (applyAvatarSize w) = alertAvatarRing w"
  "alertZoneLeft (applyAvatarSize w) = alertZoneLeft w"
  "alertZoneRight (applyAvatarSize w) = alertZoneRight w"
  "alertAvatar (applyAvatarSize w) = alertAvatar w"
  "alertSound (applyAvatarSize w) = alertSound w"
  "srAnnouncement (applyAvatarSize w) = srAnnouncement w"
  "cm_fields (applyAvatarSize w) = cm_fields w"
  "ir_element (applyAvatarSize w) = ir_element w"
  "ir_fallbackSrc (applyAvatarSize w) = ir_fallbackSrc w"
  "am_element (applyAvatarSize w) = am_element w"
  "acc_element (applyAvatarSize w) = acc_element w"
  "trace (applyAvatarSize w) = trace w"
  by (simp_all add: applyAvatarSize_def Let_def setVar_def emit_def split: option.splits)

lemma applyRingGradients_frame [simp]:
  "customFields (applyRingGradients w) = customFields w"
  "animeDefined (applyRingGradients w) = animeDefined w"
  "playRejected (applyRingGradients w) = playRejected w"
  "resolveURL (applyRingGradients w) = resolveURL w"
  "alertFrame (applyRingGradients w) = alertFrame w"
  "alertAvatarWrapper (applyRingGradients w) = alertAvatarWrapper w"
  "alertAvatarRing (applyRingGradients w) = alertAvatarRing w"
  "alertZoneLeft (applyRingGradients w) = alertZoneLeft w"
  "alertZoneRight (applyRingGradients w) = alertZoneRight w"
  "alertAvatar (applyRingGradients w) = alertAvatar w"
  "alertSound (applyRingGradients w) = alertSound w"
  "srAnnouncement (applyRingGradients w) = srAnnouncement w"
  "cm_fields (applyRingGradients w) = cm_fields w"
  "ir_element (applyRingGradients w) = ir_element w"
  "ir_fallbackSrc (applyRingGradients w) = ir_fallbackSrc w"
  "am_element (applyRingGradients w) = am_element w"
  "acc_element (applyRingGradients w) = acc_element w"
  "trace (applyRingGradients w) = trace w"
  by (simp_all add: applyRingGradients_def Let_def setVar_def emit_def split: option.splits)

lemma applyAnimation_frame [simp]:
  "customFields (applyAnimation w) = customFields w"
  "animeDefined (applyAnimation w) = animeDefined w"
  "playRejected (applyAnimation w) = playRejected w"
  "resolveURL (applyAnimation w) = resolveURL w"
  "alertFrame (applyAnimation w) = alertFrame w"
  "alertAvatarWrapper (applyAnimation w) = alertAvatarWrapper w"
  "alertAvatarRing (applyAnimation w) = alertAvatarRing w"
  "alertZoneLeft (applyAnimation w) = alertZoneLeft w"
  "alertZoneRight (applyAnimation w) = alertZoneRight w"
  "alertAvatar (applyAnimation w) = alertAvatar w"
  "alertSound (applyAnimation w) = alertSound w"
  "srAnnouncement (applyAnimation w) = srAnnouncement w"
  "cm_fields (applyAnimation w) = cm_fields w"
  "ir_element (applyAnimation w) = ir_element w"
  "ir_fallbackSrc (applyAnimation w) = ir_fallbackSrc w"
  "am_element (applyAnimation w) = am_element w"
  "acc_element (applyAnimation w) = acc_element w"
  "trace (applyAnimation w) = trace w"
  by (simp_all add: applyAnimation_def Let_def setVar_def emit_def split: option.splits)

lemma applyTypography_frame [simp]:
  "customFields (applyTypography w) = customFields w"
  "animeDefined (applyTypography w) = animeDefined w"
  "playRejected (applyTypography w) = playRejected w"
  "resolveURL (applyTypography w) = resolveURL w"
  "alertFrame (applyTypography w) = alertFrame w"
  "alertAvatarWrapper (applyTypography w) = alertAvatarWrapper w"
  "alertAvatarRing (applyTypography w) = alertAvatarRing w"
  "alertZoneLeft (applyTypography w) = alertZoneLeft w"
  "alertZoneRight (applyTypography w) = alertZoneRight w"
  "alertAvatar (applyTypography w) = alertAvatar w"
  "alertSound (applyTypography w) = alertSound w"
  "srAnnouncement (applyTypography w) = srAnnouncement w"
  "cm_fields (applyTypography w) = cm_fields w"
  "ir_element (applyTypography w) = ir_element w"
  "ir_fallbackSrc (applyTypography w) = ir_fallbackSrc w"
  "am_element (applyTypography w) = am_element w"
  "acc_element (applyTypography w) = acc_element w"
  "trace (applyTypography w) = trace w"
  by (simp_all add: applyTypography_def Let_def setVar_def emit_def split: option.splits)

lemma ThemeManager_apply_frame [simp]:
  "customFields (ThemeManager_apply w) = customFields w"
  "animeDefined (ThemeManager_apply w) = animeDefined w"
  "playRejected (ThemeManager_apply w) = playRejected w"
  "resolveURL (ThemeManager_apply w) = resolveURL w"
  "alertFrame (ThemeManager_apply w) = alertFrame w"
  "alertAvatarWrapper (ThemeManager_apply w) = alertAvatarWrapper w"
  "alertAvatarRing (ThemeManager_apply w) = alertAvatarRing w"
  "alertZoneLeft (ThemeManager_apply w) = alertZoneLeft w"
  "alertZoneRight (ThemeManager_apply w) = alertZoneRight w"
  "alertAvatar (ThemeManager_apply w) = alertAvatar w"
  "alertSound (ThemeManager_apply w) = alertSound w"
  "srAnnouncement (ThemeManager_apply w) = srAnnouncement w"
  "cm_fields (ThemeManager_apply w) = cm_fields w"
  "ir_element (ThemeManager_apply w) = ir_element w"
  "ir_fallbackSrc (ThemeManager_apply w) = ir_fallbackSrc w"
  "am_element (ThemeManager_apply w) = am_element w"
  "acc_element (ThemeManager_apply w) = acc_element w"
  "trace (ThemeManager_apply w) = trace w"
  by (simp_all add: ThemeManager_apply_def)

lemma ShapeManager_apply_frame [simp]:
  "customFields (ShapeManager_apply w) = customFields w"
  "animeDefined (ShapeManager_apply w) = animeDefined w"
  "playRejected (ShapeManager_apply w) = playRejected w"
  "resolveURL (ShapeManager_apply w) = resolveURL w"
  "alertAvatarRing (ShapeManager_apply w) = alertAvatarRing w"
  "alertZoneLeft (ShapeManager_apply w) = alertZoneLeft w"
  "alertZoneRight (ShapeManager_apply w) = alertZoneRight w"
  "alertAvatar (ShapeManager_apply w) = alertAvatar w"
  "alertSound (ShapeManager_apply w) = alertSound w"
  "srAnnouncement (ShapeManager_apply w) = srAnnouncement w"
  "cm_fields (ShapeManager_apply w) = cm_fields w"
  "ir_element (ShapeManager_apply w) = ir_element w"
  "ir_fallbackSrc (ShapeManager_apply w) = ir_fallbackSrc w"
  "am_element (ShapeManager_apply w) = am_element w"
  "acc_element (ShapeManager_apply w) = acc_element w"
  by (simp_all add: ShapeManager_apply_def Let_def setVar_def emit_def split: option.splits)

lemma applyDropShadow_frame [simp]:
  "customFields (applyDropShadow w) = customFields w"
  "animeDefined (applyDropShadow w) = animeDefined w"
  "playRejected (applyDropShadow w) = playRejected w"
  "resolveURL (applyDropShadow w) = resolveURL w"
  "alertFrame (applyDropShadow w) = alertFrame w"
  "alertAvatarWrapper (applyDropShadow w) = alertAvatarWrapper w"
  "alertAvatarRing (applyDropShadow w) = alertAvatarRing w"
  "alertZoneLeft (applyDropShadow w) = alertZoneLeft w"
  "alertZoneRight (applyDropShadow w) = alertZoneRight w"
  "alertAvatar (applyDropShadow w) = alertAvatar w"
  "alertSound (applyDropShadow w) = alertSound w"
  "srAnnouncement (applyDropShadow w) = srAnnouncement w"
  "cm_fields (applyDropShadow w) = cm_fields w"
  "ir_element (applyDropShadow w) = ir_element w"
  "ir_fallbackSrc (applyDropShadow w) = ir_fallbackSrc w"
  "am_element (applyDropShadow w) = am_element w"
  "acc_element (applyDropShadow w) = acc_element w"
  "trace (applyDropShadow w) = trace w"
  by (simp_all add: applyDropShadow_def Let_def setVar_def emit_def split: option.splits)

lemma applyGlow_frame [simp]:
  "customFields (applyGlow w) = customFields w"
  "animeDefined (applyGlow w) = animeDefined w"
  "playRejected (applyGlow w) = playRejected w"
  "resolveURL (applyGlow w) = resolveURL w"
  "alertAvatarWrapper (applyGlow w) = alertAvatarWrapper w"
  "alertAvatarRing (applyGlow w) = alertAvatarRing w"
  "alertZoneLeft (applyGlow w) = alertZoneLeft w"
  "alertZoneRight (applyGlow w) = alertZoneRight w"
  "alertAvatar (applyGlow w) = alertAvatar w"
  "alertSound (applyGlow w) = alertSound w"
  "srAnnouncement (applyGlow w) = srAnnouncement w"
  "cm_fields (applyGlow w) = cm_fields w"
  "ir_element (applyGlow w) = ir_element w"
  "ir_fallbackSrc (applyGlow w) = ir_fallbackSrc w"
  "am_element (applyGlow w) = am_element w"
  "acc_element (applyGlow w) = acc_element w"
  "trace (applyGlow w) = trace w"
  by (simp_all add: applyGlow_def Let_def setVar_def emit_def split: option.splits)

lemma applyAnimationToggles_frame [simp]:
  "customFields (applyAnimationToggles w) = customFields w"
  "animeDefined (applyAnimationToggles w) = animeDefined w"
  "playRejected (applyAnimationToggles w) = playRejected w"
  "resolveURL (applyAnimationToggles w) = resolveURL w"
  "alertAvatarWrapper (applyAnimationToggles w) = alertAvatarWrapper w"
  "alertZoneLeft (applyAnimationToggles w) = alertZoneLeft w"
  "alertZoneRight (applyAnimationToggles w) = alertZoneRight w"
  "alertAvatar (applyAnimationToggles w) = alertAvatar w"
  "alertSound (applyAnimationToggles w) = alertSound w"
  "srAnnouncement (applyAnimationToggles w) = srAnnouncement w"
  "cm_fields (applyAnimationToggles w) = cm_fields w"
  "ir_element (applyAnimationToggles w) = ir_element w"
  "ir_fallbackSrc (applyAnimationToggles w) = ir_fallbackSrc w"
  "am_element (applyAnimationToggles w) = am_element w"
  "acc_element (applyAnimationToggles w) = acc_element w"
  "trace (applyAnimationToggles w) = trace w"
  by (simp_all add: applyAnimationToggles_def Let_def setVar_def emit_def split: option.splits)

lemma EffectsManager_apply_frame [simp]:
  "customFields (EffectsManager_apply w) = customFields w"
  "animeDefined (EffectsManager_apply w) = animeDefined w"
  "playRejected (EffectsManager_apply w) = playRejected w"
  "resolveURL (EffectsManager_apply w) = resolveURL w"
  "alertAvatarWrapper (EffectsManager_apply w) = alertAvatarWrapper w"
  "alertZoneLeft (EffectsManager_apply w) = alertZoneLeft w"
  "alertZoneRight (EffectsManager_apply w) = alertZoneRight w"
  "alertAvatar (EffectsManager_apply w) = alertAvatar w"
  "alertSound (EffectsManager_apply w) = alertSound w"
  "srAnnouncement (EffectsManager_apply w) = srAnnouncement w"
  "cm_fields (EffectsManager_apply w) = cm_fields w"
  "ir_element (EffectsManager_apply w) = ir_element w"
  "ir_fallbackSrc (EffectsManager_apply w) = ir_fallbackSrc w"
  "am_element (EffectsManager_apply w) = am_element w"
  "acc_element (EffectsManager_apply w) = acc_element w"
  "trace (EffectsManager_apply w) = trace w"
  by (simp_all add: EffectsManager_apply_def)

lemma playIntro_frame [simp]:
  "customFields (playIntro w) = customFields w"
  "animeDefined (playIntro w) = animeDefined w"
  "playRejected (playIntro w) = playRejected w"
  "resolveURL (playIntro w) = resolveURL w"
  "styleVars (playIntro w) = styleVars w"
  "alertFrame (playIntro w) = alertFrame w"
  "alertAvatarWrapper (playIntro w) = alertAvatarWrapper w"
  "alertAvatarRing (playIntro w) = alertAvatarRing w"
  "alertZoneLeft (playIntro w) = alertZoneLeft w"
  "alertZoneRight (playIntro w) = alertZoneRight w"
  "alertAvatar (playIntro w) = alertAvatar w"
  "alertSound (playIntro w) = alertSound w"
  "srAnnouncement (playIntro w) = srAnnouncement w"
  "cm_fields (playIntro w) = cm_fields w"
  "ir_element (playIntro w) = ir_element w"
  "ir_fallbackSrc (playIntro w) = ir_fallbackSrc w"
  "am_element (playIntro w) = am_element w"
  "acc_element (playIntro w) = acc_element w"
  by (simp_all add: playIntro_def Let_def setVar_def emit_def split: option.splits)

lemma handleError_frame [simp]:
  "customFields (handleError w) = customFields w"
  "animeDefined (handleError w) = animeDefined w"
  "playRejected (handleError w) = playRejected w"
  "resolveURL (handleError w) = resolveURL w"
  "styleVars (handleError w) = styleVars w"
  "alertFrame (handleError w) = alertFrame w"
  "alertAvatarWrapper (handleError w) = alertAvatarWrapper w"
  "alertAvatarRing (handleError w) = alertAvatarRing w"
  "alertZoneLeft (handleError w) = alertZoneLeft w"
  "alertZoneRight (handleError w) = alertZoneRight w"
  "alertSound (handleError w) = alertSound w"
  "srAnnouncement (handleError w) = srAnnouncement w"
  "cm_fields (handleError w) = cm_fields w"
  "ir_element (handleError w) = ir_element w"
  "ir_fallbackSrc (handleError w) = ir_fallbackSrc w"
  "am_element (handleError w) = am_element w"
  "acc_element (handleError w) = acc_element w"
  by (simp_all add: handleError_def Let_def setVar_def emit_def split: option.splits)

lemma announce_frame [simp]:
  "customFields (announce m w) = customFields w"
  "animeDefined (announce m w) = animeDefined w"
  "playRejected (announce m w) = playRejected w"
  "resolveURL (announce m w) = resolveURL w"
  "styleVars (announce m w) = styleVars w"
  "alertFrame (announce m w) = alertFrame w"
  "alertAvatarWrapper (announce m w) = alertAvatarWrapper w"
  "alertAvatarRing (announce m w) = alertAvatarRing w"
  "alertZoneLeft (announce m w) = alertZoneLeft w"
  "alertZoneRight (announce m w) = alertZoneRight w"
  "alertAvatar (announce m w) = alertAvatar w"
  "alertSound (announce m w) = alertSound w"
  "cm_fields (announce m w) = cm_fields w"
  "ir_element (announce m w) = ir_element w"
  "ir_fallbackSrc (announce m w) = ir_fallbackSrc w"
  "am_element (announce m w) = am_element w"
  "acc_element (announce m w) = acc_element w"
  by (simp_all add: announce_def emit_def split: option.splits)

lemma apply_styles_frame [simp]:
  "customFields (apply_styles w) = customFields w"
  "animeDefined (apply_styles w) = animeDefined w"
  "playRejected (apply_styles w) = playRejected w"
  "resolveURL (apply_styles w) = resolveURL w"
  "alertZoneLeft (apply_styles w) = alertZoneLeft w"
  "alertZoneRight (apply_styles w) = alertZoneRight w"
  "alertAvatar (apply_styles w) = alertAvatar w"
  "alertSound (apply_styles w) = alertSound w"
  "srAnnouncement (apply_styles w) = srAnnouncement w"
  "cm_fields (apply_styles w) = cm_fields w"
  "ir_element (apply_styles w) = ir_element w"
  "ir_fallbackSrc (apply_styles w) = ir_fallbackSrc w"
  "am_element (apply_styles w) = am_element w"
  "acc_element (apply_styles w) = acc_element w"
  by (simp_all add: apply_styles_def)

lemma finish_init_frame [simp]:
  "customFields (finish_init w) = customFields w"
  "animeDefined (finish_init w) = animeDefined w"
  "playRejected (finish_init w) = playRejected w"
  "resolveURL (finish_init w) = resolveURL w"
  "styleVars (finish_init w) = styleVars w"
  "alertFrame (finish_init w) = alertFrame w"
  "alertAvatarWrapper (finish_init w) = alertAvatarWrapper w"
  "alertAvatarRing (finish_init w) = alertAvatarRing w"
  "alertZoneLeft (finish_init w) = alertZoneLeft w"
  "alertZoneRight (finish_init w) = alertZoneRight w"
  "alertAvatar (finish_init w) = alertAvatar w"
  "cm_fields (finish_init w) = cm_fields w"
  "ir_element (finish_init w) = ir_element w"
  "ir_fallbackSrc (finish_init w) = ir_fallbackSrc w"
  "am_element (finish_init w) = am_element w"
  "acc_element (finish_init w) = acc_element w"
  by (auto simp add: finish_init_def AudioManager_play_def Let_def emit_def split: option.splits sum.splits bool.splits if_splits)

section \<open>Reinitialization\<close>

text \<open>
  Every translator adds style variables in the sense of \<open>adds_vars\<close>, and so does their
  composition.
\<close>

lemma adds_varsI:
  assumes "\<And>w w0. styleVars w0 = Map.empty \<Longrightarrow> cm_fields w0 = cm_fields w
             \<Longrightarrow> (alertFrame w0 = None) = (alertFrame w = None)
             \<Longrightarrow> styleVars (P w) = styleVars w ++ styleVars (P w0)"
  shows "adds_vars P"
  unfolding adds_vars_def by (intro allI impI, elim conjE, rule assms)

lemma adds_varsD:
  "adds_vars P \<Longrightarrow> styleVars w0 = Map.empty \<Longrightarrow> cm_fields w0 = cm_fields w
     \<Longrightarrow> (alertFrame w0 = None) = (alertFrame w = None)
     \<Longrightarrow> styleVars (P w) = styleVars w ++ styleVars (P w0)"
  unfolding adds_vars_def by (elim allE impE) (intro conjI, assumption+)

lemma adds_vars_comp:
  assumes P: "adds_vars P" and Q: "adds_vars Q"
    and fr: "\<And>w. cm_fields (P w) = cm_fields w \<and> (alertFrame (P w) = None) = (alertFrame w = None)"
  shows "adds_vars (\<lambda>w. Q (P w))"
proof (rule adds_varsI)
  fix w w0 :: world
  assume b: "styleVars w0 = Map.empty" "cm_fields w0 = cm_fields w"
    "(alertFrame w0 = None) = (alertFrame w = None)"
  have 1: "styleVars (Q (P w)) = styleVars (P w) ++ styleVars (Q w0)"
    by (rule adds_varsD [OF Q]) (simp_all add: b fr)
  have 2: "styleVars (P w) = styleVars w ++ styleVars (P w0)"
    by (rule adds_varsD [OF P]) (simp_all add: b)
  have 3: "styleVars (Q (P w0)) = styleVars (P w0) ++ styleVars (Q w0)"
    by (rule adds_varsD [OF Q]) (simp_all add: b fr)
  show "styleVars (Q (P w)) = styleVars w ++ styleVars (Q (P w0))"
    by (simp add: 1 2 3)
qed

lemma adds_vars_applyContainerSize: "adds_vars applyContainerSize"
  by (rule adds_varsI) (simp add: applyContainerSize_def Let_def setVar_def ConfigManager_get_def)

lemma adds_vars_applyContainerGradients: "adds_vars applyContainerGradients"
  by (rule adds_varsI) (simp add: applyContainerGradients_def Let_def setVar_def ConfigManager_get_def)

lemma adds_vars_applyAvatarSize: "adds_vars applyAvatarSize"
  by (rule adds_varsI) (simp add: applyAvatarSize_def Let_def setVar_def ConfigManager_get_def)

lemma adds_vars_applyRingGradients: "adds_vars applyRingGradients"
  by (rule adds_varsI) (simp add: applyRingGradients_def Let_def setVar_def ConfigManager_get_def)

lemma adds_vars_applyAnimation: "adds_vars applyAnimation"
  by (rule adds_varsI) (simp add: applyAnimation_def Let_def setVar_def ConfigManager_get_def)

lemma adds_vars_applyTypography: "adds_vars applyTypography"
  by (rule adds_varsI) (simp add: applyTypography_def Let_def setVar_def ConfigManager_get_def)

lemma adds_vars_applyDropShadow: "adds_vars applyDropShadow"
  by (rule adds_varsI) (simp add: applyDropShadow_def Let_def setVar_def ConfigManager_get_def)

lemma adds_vars_applyGlow: "adds_vars applyGlow"
  by (rule adds_varsI)
     (simp add: applyGlow_def Let_def setVar_def ConfigManager_get_def split: option.splits)

lemma adds_vars_applyAnimationToggles: "adds_vars applyAnimationToggles"
  by (rule adds_varsI)
     (simp add: applyAnimationToggles_def Let_def setVar_def ConfigManager_get_def split: option.splits)

lemma adds_vars_ShapeManager_apply: "adds_vars ShapeManager_apply"
  by (rule adds_varsI)
     (auto simp add: ShapeManager_apply_def Let_def setVar_def emit_def ConfigManager_get_def
        split: option.splits)

lemma frame_present_ShapeManager_apply [simp]:
  "(alertFrame (ShapeManager_apply w) = None) = (alertFrame w = None)"
  by (simp add: ShapeManager_apply_def Let_def setVar_def emit_def split: option.splits)

lemma frame_present_applyGlow [simp]:
  "(alertFrame (applyGlow w) = None) = (alertFrame w = None)"
  by (simp add: applyGlow_def Let_def setVar_def split: option.splits)

lemma frame_present_applyAnimationToggles [simp]:
  "(alertFrame (applyAnimationToggles w) = None) = (alertFrame w = None)"
  by (simp add: applyAnimationToggles_def Let_def setVar_def split: option.splits)

lemma adds_vars_ThemeManager_apply: "adds_vars ThemeManager_apply"
proof -
  have 1: "adds_vars (\<lambda>w. applyContainerGradients (applyContainerSize w))"
    by (rule adds_vars_comp [OF adds_vars_applyContainerSize adds_vars_applyContainerGradients]) simp
  have 2: "adds_vars (\<lambda>w. applyAvatarSize (applyContainerGradients (applyContainerSize w)))"
    by (rule adds_vars_comp [OF 1 adds_vars_applyAvatarSize]) simp
  have 3: "adds_vars (\<lambda>w. applyRingGradients (applyAvatarSize (applyContainerGradients
             (applyContainerSize w))))"
    by (rule adds_vars_comp [OF 2 adds_vars_applyRingGradients]) simp
  have 4: "adds_vars (\<lambda>w. applyAnimation (applyRingGradients (applyAvatarSize
             (applyContainerGradients (applyContainerSize w)))))"
    by (rule adds_vars_comp [OF 3 adds_vars_applyAnimation]) simp
  have 5: "adds_vars (\<lambda>w. applyTypography (applyAnimation (applyRingGradients (applyAvatarSize
             (applyContainerGradients (applyContainerSize w))))))"
    by (rule adds_vars_comp [OF 4 adds_vars_applyTypography]) simp
  show ?thesis
    using 5 unfolding ThemeManager_apply_def .
qed

lemma adds_vars_EffectsManager_apply: "adds_vars EffectsManager_apply"
proof -
  have 1: "adds_vars (\<lambda>w. applyGlow (applyDropShadow w))"
    by (rule adds_vars_comp [OF adds_vars_applyDropShadow adds_vars_applyGlow]) simp
  have 2: "adds_vars (\<lambda>w. applyAnimationToggles (applyGlow (applyDropShadow w)))"
    by (rule adds_vars_comp [OF 1 adds_vars_applyAnimationToggles]) simp
  show ?thesis
    using 2 unfolding EffectsManager_apply_def .
qed

lemma frame_present_EffectsManager_apply [simp]:
  "(alertFrame (EffectsManager_apply w) = None) = (alertFrame w = None)"
  by (simp add: EffectsManager_apply_def)

lemma adds_vars_apply_styles: "adds_vars apply_styles"
proof -
  have 1: "adds_vars (\<lambda>w. ShapeManager_apply (ThemeManager_apply w))"
    by (rule adds_vars_comp [OF adds_vars_ThemeManager_apply adds_vars_ShapeManager_apply]) simp
  have 2: "adds_vars (\<lambda>w. EffectsManager_apply (ShapeManager_apply (ThemeManager_apply w)))"
    by (rule adds_vars_comp [OF 1 adds_vars_EffectsManager_apply]) simp
  show ?thesis
    using 2 unfolding apply_styles_def .
qed

text \<open>\<open>init\<close> is the three stages in turn.\<close>

lemma init_split: "init w = finish_init (apply_styles (managers_init w))"
  by (simp add: init_def finish_init_def apply_styles_def managers_init_def ImageRenderer_render_def
      Let_def)

lemma managers_init_fields [simp]:
  "customFields (managers_init w) = customFields w"
  "animeDefined (managers_init w) = animeDefined w"
  "playRejected (managers_init w) = playRejected w"
  "styleVars (managers_init w) = styleVars w"
  "alertFrame (managers_init w) = alertFrame w"
  "alertAvatarWrapper (managers_init w) = alertAvatarWrapper w"
  "alertAvatarRing (managers_init w) = alertAvatarRing w"
  "alertSound (managers_init w) = alertSound w"
  "srAnnouncement (managers_init w) = srAnnouncement w"
  "cm_fields (managers_init w) = (case customFields w of None \<Rightarrow> Map.empty | Some fs \<Rightarrow> fs)"
  "am_element (managers_init w) = (alertSound w \<noteq> None)"
  "acc_element (managers_init w) = (srAnnouncement w \<noteq> None)"
  "map_option (\<lambda>el. (img_src el, img_data_fallback el)) (alertAvatar (managers_init w))
     = map_option (\<lambda>el. (img_src el, img_data_fallback el)) (alertAvatar w)"
  by (simp_all add: managers_init_def AccessibilityManager_init_def AudioManager_init_def
      ConfigManager_init_def)
     (simp add: ImageRenderer_init_def emit_def split: option.splits)

text \<open>The elements after each translator.\<close>

lemma alertFrame_ShapeManager_apply:
  "alertFrame (ShapeManager_apply w) =
     map_option (\<lambda>frame. frame\<lparr>dataset := (dataset frame)
        (''shape'' \<mapsto> get_from (cm_fields w) ''alertBoxShape'' (Str ''rounded-rectangle''),
         ''aspect'' := (if strict_eq (get_from (cm_fields w) ''maintainAspectRatio'' (Str ''none'')) (Str ''none'')
                        then None
                        else Some (get_from (cm_fields w) ''maintainAspectRatio'' (Str ''none''))))\<rparr>)
       (alertFrame w)"
  by (simp add: ShapeManager_apply_def Let_def setVar_def emit_def ConfigManager_get_def
      split: option.splits)

lemma alertAvatarWrapper_ShapeManager_apply:
  "alertAvatarWrapper (ShapeManager_apply w) =
     (if alertFrame w = None then alertAvatarWrapper w
      else map_option (\<lambda>e. e\<lparr>dataset := (dataset e)
             (''avatarShape'' \<mapsto> get_from (cm_fields w) ''avatarShape'' (Str ''circle''))\<rparr>)
             (alertAvatarWrapper w))"
  by (simp add: ShapeManager_apply_def Let_def setVar_def emit_def ConfigManager_get_def
      split: option.splits)

lemma alertFrame_applyGlow:
  "alertFrame (applyGlow w) =
     map_option (toggle ''alert-frame--glow''
        (strict_eq (get_from (cm_fields w) ''glowEnabled'' (Str ''false'')) (Str ''true'')))
       (alertFrame w)"
  by (simp add: applyGlow_def Let_def setVar_def ConfigManager_get_def split: option.splits)

lemma alertFrame_applyAnimationToggles:
  "alertFrame (applyAnimationToggles w) =
     map_option (\<lambda>frame.
        toggle ''alert-frame--no-gradient-animation''
          (\<not> strict_eq (get_from (cm_fields w) ''enableGradientAnimation'' (Str ''true'')) (Str ''true''))
          (toggle ''alert-frame--no-sway''
             (\<not> strict_eq (get_from (cm_fields w) ''enableSway'' (Str ''true'')) (Str ''true'')) frame))
       (alertFrame w)"
  by (simp add: applyAnimationToggles_def Let_def setVar_def ConfigManager_get_def
      split: option.splits)

lemma alertAvatarRing_applyAnimationToggles:
  "alertAvatarRing (applyAnimationToggles w) =
     map_option (toggle ''alert-avatar-ring--no-spin''
        (\<not> strict_eq (get_from (cm_fields w) ''enableRingSpin'' (Str ''true'')) (Str ''true'')))
       (alertAvatarRing w)"
  by (simp add: applyAnimationToggles_def Let_def setVar_def ConfigManager_get_def
      split: option.splits)

text \<open>The translators together, and why a second run changes no element.\<close>

lemma dataset_toggle [simp]: "dataset (toggle c b e) = dataset e"
  by (simp add: toggle_def)

lemma classList_toggle:
  "classList (toggle c b e) = (if b then insert c (classList e) else classList e - {c})"
  by (simp add: toggle_def)

lemma alertFrame_apply_styles:
  "alertFrame (apply_styles w) = map_option (frame_styled (cm_fields w)) (alertFrame w)"
  by (simp add: apply_styles_def EffectsManager_apply_def alertFrame_ShapeManager_apply
      alertFrame_applyGlow alertFrame_applyAnimationToggles option.map_comp comp_def
      frame_styled_def [abs_def])

lemma alertAvatarWrapper_apply_styles:
  "alertAvatarWrapper (apply_styles w) =
     (if alertFrame w = None then alertAvatarWrapper w
      else map_option (wrapper_styled (cm_fields w)) (alertAvatarWrapper w))"
  by (simp add: apply_styles_def EffectsManager_apply_def alertAvatarWrapper_ShapeManager_apply
      wrapper_styled_def [abs_def])

lemma alertAvatarRing_apply_styles:
  "alertAvatarRing (apply_styles w) = map_option (ring_styled (cm_fields w)) (alertAvatarRing w)"
  by (simp add: apply_styles_def EffectsManager_apply_def alertAvatarRing_applyAnimationToggles
      ring_styled_def [abs_def])

lemma toggle3_twice:
  "c1 \<noteq> c2 \<Longrightarrow> c1 \<noteq> c3 \<Longrightarrow> c2 \<noteq> c3 \<Longrightarrow>
   toggle c3 b3 (toggle c2 b2 (toggle c1 b1
     ((toggle c3 b3 (toggle c2 b2 (toggle c1 b1 (e\<lparr>dataset := d\<rparr>))))\<lparr>dataset := d\<rparr>)))
   = toggle c3 b3 (toggle c2 b2 (toggle c1 b1 (e\<lparr>dataset := d\<rparr>)))"
  by (cases b1; cases b2; cases b3) (auto simp add: toggle_def intro!: element.equality)

lemma frame_styled_idem: "frame_styled fs (frame_styled fs e) = frame_styled fs e"
  unfolding frame_styled_def dataset_toggle
  by (simp add: toggle3_twice)

lemma wrapper_styled_idem: "wrapper_styled fs (wrapper_styled fs e) = wrapper_styled fs e"
  by (simp add: wrapper_styled_def)

lemma ring_styled_idem: "ring_styled fs (ring_styled fs e) = ring_styled fs e"
  by (auto simp add: ring_styled_def toggle_def intro!: element.equality)

lemma sound_played_idem: "sound_played fs (sound_played fs el) = sound_played fs el"
  by (simp add: sound_played_def)

text \<open>\<open>AudioManager.play\<close> by cases, and the last stage of \<open>init\<close>.\<close>

lemma isTokenString_cases:
  "isTokenString v =
     (if spec_resolved v then Inr False
      else if truthy v \<and> (case v of Str s \<Rightarrow> False | _ \<Rightarrow> True) then Inl TypeError
      else Inr True)"
  by (cases v) (auto simp add: isTokenString_def spec_resolved_def String_includes_def)

lemma spec_resolved_truthy: "spec_resolved v \<Longrightarrow> truthy v"
  by (cases v) (auto simp add: spec_resolved_def)

lemma AudioManager_play_cases:
  "AudioManager_play w =
     (case alertSound w of
        None \<Rightarrow> Inr w
      | Some el \<Rightarrow>
          if \<not> am_element w then Inr w
          else if spec_resolved (get_from (cm_fields w) ''alertSound'' (Str []))
          then Inr ((if playRejected w then emit (ConsoleWarn ''[Alert] Audio playback failed:'') else id)
                 (emit PlayRequested (w\<lparr>alertSound := Some (sound_played (cm_fields w) el)\<rparr>)))
          else if play_throws (cm_fields w) then Inl TypeError
          else Inr w)"
  by (auto simp add: AudioManager_play_def Let_def isTokenString_cases ConfigManager_get_def
      play_throws_def sound_played_def emit_def spec_resolved_truthy split: option.splits)

lemma alertSound_finish_init:
  "am_element w = (alertSound w \<noteq> None)
     \<Longrightarrow> alertSound (finish_init w) = map_option (sound_played (cm_fields w)) (alertSound w)"
  by (auto simp add: finish_init_def AudioManager_play_cases emit_def sound_played_def
      split: option.splits)

lemma srAnnouncement_finish_init:
  "am_element w = (alertSound w \<noteq> None) \<Longrightarrow> acc_element w = (srAnnouncement w \<noteq> None)
     \<Longrightarrow> srAnnouncement (finish_init w) =
           (if alertSound w \<noteq> None \<and> play_throws (cm_fields w)
                 \<and> \<not> spec_resolved (get_from (cm_fields w) ''alertSound'' (Str []))
            then srAnnouncement w
            else map_option (\<lambda>t. []) (srAnnouncement w))"
  by (auto simp add: finish_init_def AudioManager_play_cases emit_def announce_def
      split: option.splits)


lemma map_add_absorb: "(m ++ d) ++ d = m ++ d"
  by (rule ext) (simp add: map_add_def split: option.splits)

text \<open>The observable parts of the page after \<open>init\<close>.\<close>

lemma init_inputs [simp]:
  "customFields (init w) = customFields w"
  "animeDefined (init w) = animeDefined w"
  "playRejected (init w) = playRejected w"
  by (simp_all add: init_split)

lemma init_styleVars:
  "styleVars (init w) =
     styleVars w ++ styleVars (apply_styles ((managers_init w)\<lparr>styleVars := Map.empty\<rparr>))"
  using adds_varsD [OF adds_vars_apply_styles, of "(managers_init w)\<lparr>styleVars := Map.empty\<rparr>"
      "managers_init w"]
  by (simp add: init_split)

lemma init_elements:
  "alertFrame (init w) =
     map_option (frame_styled (case customFields w of None \<Rightarrow> Map.empty | Some fs \<Rightarrow> fs)) (alertFrame w)"
  "alertAvatarWrapper (init w) =
     (if alertFrame w = None then alertAvatarWrapper w
      else map_option (wrapper_styled (case customFields w of None \<Rightarrow> Map.empty | Some fs \<Rightarrow> fs))
             (alertAvatarWrapper w))"
  "alertAvatarRing (init w) =
     map_option (ring_styled (case customFields w of None \<Rightarrow> Map.empty | Some fs \<Rightarrow> fs))
       (alertAvatarRing w)"
  "map_option (\<lambda>el. (img_src el, img_data_fallback el)) (alertAvatar (init w))
     = map_option (\<lambda>el. (img_src el, img_data_fallback el)) (alertAvatar w)"
  "alertSound (init w) =
     map_option (sound_played (case customFields w of None \<Rightarrow> Map.empty | Some fs \<Rightarrow> fs)) (alertSound w)"
  "srAnnouncement (init w) =
     (if alertSound w \<noteq> None
         \<and> play_throws (case customFields w of None \<Rightarrow> Map.empty | Some fs \<Rightarrow> fs)
         \<and> \<not> spec_resolved (get_from (case customFields w of None \<Rightarrow> Map.empty | Some fs \<Rightarrow> fs)
                               ''alertSound'' (Str []))
      then srAnnouncement w
      else map_option (\<lambda>t. []) (srAnnouncement w))"
  by (auto simp add: init_split alertFrame_apply_styles alertAvatarWrapper_apply_styles
      alertAvatarRing_apply_styles alertSound_finish_init srAnnouncement_finish_init)

lemma init_styleVars_again:
  "styleVars (apply_styles ((managers_init (init w))\<lparr>styleVars := Map.empty\<rparr>))
     = styleVars (apply_styles ((managers_init w)\<lparr>styleVars := Map.empty\<rparr>))"
  using adds_varsD [OF adds_vars_apply_styles, of "(managers_init w)\<lparr>styleVars := Map.empty\<rparr>"
      "(managers_init (init w))\<lparr>styleVars := Map.empty\<rparr>"]
  by (simp add: init_elements)

text \<open>
  Claim C2. Running \<open>init\<close> twice in succession on an unchanged configuration leaves the
  same style variables and the same attributes and classes of every element as running
  it once.
\<close>

theorem init_idempotent: "observable (init (init w)) = observable (init w)"
proof -
  have sv: "styleVars (init (init w)) = styleVars (init w)"
    by (simp add: init_styleVars [of "init w"] init_styleVars_again)
       (simp add: init_styleVars [of w] map_add_absorb)
  have fr: "alertFrame (init (init w)) = alertFrame (init w)"
    by (simp add: init_elements option.map_comp comp_def frame_styled_idem)
  have wr: "alertAvatarWrapper (init (init w)) = alertAvatarWrapper (init w)"
    by (simp add: init_elements option.map_comp comp_def wrapper_styled_idem)
  have rg: "alertAvatarRing (init (init w)) = alertAvatarRing (init w)"
    by (simp add: init_elements option.map_comp comp_def ring_styled_idem)
  have av: "map_option (\<lambda>el. (img_src el, img_data_fallback el)) (alertAvatar (init (init w)))
          = map_option (\<lambda>el. (img_src el, img_data_fallback el)) (alertAvatar (init w))"
    by (simp only: init_elements)
  have snd: "alertSound (init (init w)) = alertSound (init w)"
    by (simp add: init_elements option.map_comp comp_def sound_played_idem)
  have sr: "srAnnouncement (init (init w)) = srAnnouncement (init w)"
    by (simp add: init_elements option.map_comp comp_def)
  show ?thesis
    unfolding observable_def by (simp only: sv fr wr rg av snd sr)
qed

text \<open>
  The example page, which has no custom field: after one and after two runs the frame's
  shape selector is the default, no aspect selector is set, and the frame carries neither
  the glow class nor a class that switches an animation off.
\<close>

theorem init_idempotent_witness:
  "observable (init (init example_page)) = observable (init example_page)
   \<and> map_option (\<lambda>f. (dataset f ''shape'', dataset f ''aspect'', classList f))
         (alertFrame (init (init example_page)))
       = Some (Some (Str ''rounded-rectangle''), None, {''alert-frame''})"
proof -
  have g: "get_from Map.empty ''alertBoxShape'' (Str ''rounded-rectangle'') = Str ''rounded-rectangle''"
      "get_from Map.empty ''maintainAspectRatio'' (Str ''none'') = Str ''none''"
      "get_from Map.empty ''glowEnabled'' (Str ''false'') = Str ''false''"
      "get_from Map.empty ''enableSway'' (Str ''true'') = Str ''true''"
      "get_from Map.empty ''enableGradientAnimation'' (Str ''true'') = Str ''true''"
    by (simp_all add: get_from_def getField_def get_property_def Object_prototype_names_def nullish_def)
  have f: "map_option (\<lambda>f. (dataset f ''shape'', dataset f ''aspect'', classList f))
         (alertFrame (init example_page))
       = Some (Some (Str ''rounded-rectangle''), None, {''alert-frame''})"
    by (simp add: init_elements example_page_def frame_styled_def g strict_eq_def toggle_def)
  have "alertFrame (init (init example_page)) = alertFrame (init example_page)"
    using init_idempotent [of example_page] by (simp add: observable_def)
  then show ?thesis
    using f init_idempotent [of example_page] by simp
qed

section \<open>Further properties\<close>

subsection \<open>parseFloat and the clamp\<close>

text \<open>
  A clamp of a number other than NaN lies within the bounds; \<open>parseFloat\<close> yields NaN
  exactly on the strings without a numeric prefix.
\<close>

lemma clamp_in_range:
  "n \<noteq> NaN \<Longrightarrow> num_le lo hi \<Longrightarrow> in_range lo hi (Math_min (Math_max n lo) hi)"
  unfolding in_range_def
  by (cases n; cases lo; cases hi) auto

lemma takeWhile_empty_iff: "takeWhile P xs = [] \<longleftrightarrow> (xs = [] \<or> \<not> P (hd xs))"
  by (cases xs) auto

lemma unsigned_NaN_iff:
  "strUnsignedDecimalLiteral u = NaN \<longleftrightarrow>
     \<not> (take 8 u = ''Infinity''
         \<or> (u \<noteq> [] \<and> isDecimalDigit (hd u))
         \<or> (u \<noteq> [] \<and> hd u = CHR ''.'' \<and> tl u \<noteq> [] \<and> isDecimalDigit (hd (tl u))))"
proof (cases "take 8 u = ''Infinity''")
  case True
  then show ?thesis by (simp add: strUnsignedDecimalLiteral_def)
next
  case notInf: False
  show ?thesis
  proof (cases u)
    case Nil
    then show ?thesis by (simp add: strUnsignedDecimalLiteral_def)
  next
    case (Cons c r)
    show ?thesis
    proof (cases "isDecimalDigit c")
      case True
      then show ?thesis using Cons notInf
        by (simp add: strUnsignedDecimalLiteral_def Let_def)
    next
      case False
      then show ?thesis using Cons notInf
        by (auto simp add: strUnsignedDecimalLiteral_def Let_def takeWhile_empty_iff)
    qed
  qed
qed

lemma num_neg_NaN_iff: "num_neg n = NaN \<longleftrightarrow> n = NaN"
  by (cases n) auto

lemma signed_NaN_iff:
  "(case t of [] \<Rightarrow> NaN
    | c # r \<Rightarrow> if c = CHR ''+'' then strUnsignedDecimalLiteral r
               else if c = CHR ''-'' then num_neg (strUnsignedDecimalLiteral r)
               else strUnsignedDecimalLiteral t) = NaN
   \<longleftrightarrow> \<not> (let u = (if t \<noteq> [] \<and> (hd t = CHR ''+'' \<or> hd t = CHR ''-'') then tl t else t)
          in take 8 u = ''Infinity''
             \<or> (u \<noteq> [] \<and> isDecimalDigit (hd u))
             \<or> (u \<noteq> [] \<and> hd u = CHR ''.'' \<and> tl u \<noteq> [] \<and> isDecimalDigit (hd (tl u))))"
proof (cases t)
  case Nil
  then show ?thesis by simp
next
  case (Cons c r)
  show ?thesis
  proof (cases "c = CHR ''+'' \<or> c = CHR ''-''")
    case True
    then show ?thesis using Cons
      by (auto simp add: unsigned_NaN_iff num_neg_NaN_iff)
  next
    case False
    then show ?thesis using Cons
      by (simp add: unsigned_NaN_iff[of "c # r"])
  qed
qed

lemma parseFloat_str_NaN_iff: "parseFloat_str s = NaN \<longleftrightarrow> \<not> spec_numericPrefix s"
  unfolding parseFloat_str_def spec_numericPrefix_def Let_def
  using signed_NaN_iff[of "dropWhile isWhiteSpace s"] unfolding Let_def by blast

lemma isNaN_iff: "isNaN n \<longleftrightarrow> n = NaN"
  by (cases n) auto

text \<open>
  The value of a well-formed decimal literal: the digits are read as \<open>spec_decimal\<close>
  reads them, a run of characters is split where its predicate first fails, the exponent
  is read with its sign, and the scaling by a power of ten is a multiplication.
\<close>

lemma foldl_digits:
  "foldl (\<lambda>a c. 10 * a + digitValue c) a ds = a * 10 ^ length ds + spec_decimal ds"
  by (induction ds arbitrary: a) (simp_all add: algebra_simps)

lemma digitsValue_spec: "digitsValue ds = spec_decimal ds"
  by (simp add: digitsValue_def foldl_digits)

lemma spec_decimal_append:
  "spec_decimal (xs @ ys) = spec_decimal xs * 10 ^ length ys + spec_decimal ys"
  by (induction xs) (simp_all add: algebra_simps power_add)

lemma span_run:
  assumes "list_all P xs" "ys = [] \<or> \<not> P (hd ys)"
  shows "takeWhile P (xs @ ys) = xs" and "dropWhile P (xs @ ys) = ys"
proof -
  have t: "takeWhile P ys = []" and d: "dropWhile P ys = ys"
    using assms(2) by (cases ys; simp)+
  show "takeWhile P (xs @ ys) = xs"
    using assms(1) by (induction xs) (simp_all add: t)
  show "dropWhile P (xs @ ys) = ys"
    using assms(1) by (induction xs) (simp_all add: d)
qed

lemma digit_chars:
  "isDecimalDigit c \<Longrightarrow>
     c \<noteq> CHR ''+'' \<and> c \<noteq> CHR ''-'' \<and> c \<noteq> CHR ''.'' \<and> c \<noteq> CHR ''e'' \<and> c \<noteq> CHR ''E''
     \<and> c \<noteq> CHR ''I'' \<and> \<not> isWhiteSpace c"
  by (auto simp add: isDecimalDigit_def isWhiteSpace_def)

lemma scale10_powi: "scale10 m e = real m * 10 powi e"
  by (simp add: scale10_def power_int_def field_simps)

lemma exponentPart_stop: "\<not> spec_exponentStart rest \<Longrightarrow> exponentPart rest = 0"
proof (cases rest)
  case Nil
  then show ?thesis by (simp add: exponentPart_def)
next
  case (Cons c r1)
  assume n: "\<not> spec_exponentStart rest"
  show ?thesis
  proof (cases r1)
    case Nil
    then show ?thesis using Cons by (simp add: exponentPart_def)
  next
    case r1: (Cons d r2)
    have z: "\<And>r. r = [] \<or> \<not> isDecimalDigit (hd r) \<Longrightarrow> digitsValue (takeWhile isDecimalDigit r) = 0"
      by (case_tac r) (auto simp add: digitsValue_def)
    show ?thesis
    proof (cases "c = CHR ''e'' \<or> c = CHR ''E''")
      case False
      then show ?thesis using Cons by (simp add: exponentPart_def)
    next
      case True
      have nd: "\<not> isDecimalDigit d"
        using n True Cons r1 by (auto simp add: spec_exponentStart_def)
      have ns: "d = CHR ''+'' \<or> d = CHR ''-'' \<Longrightarrow> r2 = [] \<or> \<not> isDecimalDigit (hd r2)"
        using n True Cons r1 by (cases r2) (auto simp add: spec_exponentStart_def)
      show ?thesis
        using True Cons r1 nd ns z [of r2] z [of "d # r2"]
        by (auto simp add: exponentPart_def)
    qed
  qed
qed

lemma exponentPart_text:
  assumes "spec_exponent_ok (Some (ec, esg, ed))" "rest = [] \<or> \<not> isDecimalDigit (hd rest)"
  shows "exponentPart (spec_exponent_text (Some (ec, esg, ed)) @ rest)
           = spec_exponent_value (Some (ec, esg, ed))"
proof -
  have ok: "ec = CHR ''e'' \<or> ec = CHR ''E''" "spec_sign esg" "ed \<noteq> []" "list_all isDecimalDigit ed"
    using assms(1) by (simp_all add: spec_exponent_ok_def)
  obtain d ds where ed: "ed = d # ds" using ok(3) by (cases ed) auto
  have dd: "isDecimalDigit d" using ok(4) ed by simp
  have tw: "takeWhile isDecimalDigit (ed @ rest) = ed"
    by (rule span_run(1) [OF ok(4) assms(2)])
  consider "esg = []" | "esg = ''+''" | "esg = ''-''"
    using ok(2) by (auto simp add: spec_sign_def)
  then show ?thesis
  proof cases
    case 1
    have "takeWhile isDecimalDigit (d # ds @ rest) = ed"
      using tw ed by simp
    then show ?thesis
      using 1 ok(1) ed dd digit_chars [OF dd]
      by (simp add: exponentPart_def spec_exponent_text_def spec_exponent_value_def digitsValue_spec)
  next
    case 2
    then show ?thesis
      using ok(1) tw
      by (simp add: exponentPart_def spec_exponent_text_def spec_exponent_value_def digitsValue_spec)
  next
    case 3
    then show ?thesis
      using ok(1) tw
      by (simp add: exponentPart_def spec_exponent_text_def spec_exponent_value_def digitsValue_spec)
  qed
qed

lemma exponentPart_spec:
  assumes "spec_exponent_ok ex" "spec_stops dot ex rest"
  shows "exponentPart (spec_exponent_text ex @ rest) = spec_exponent_value ex"
proof (cases ex)
  case None
  have "\<not> spec_exponentStart rest"
    using assms(2) None by (cases rest) (simp_all add: spec_stops_def spec_exponentStart_def)
  then show ?thesis
    using None by (simp add: exponentPart_stop spec_exponent_text_def spec_exponent_value_def)
next
  case (Some t)
  obtain ec esg ed where t: "t = (ec, esg, ed)" by (cases t) auto
  have "rest = [] \<or> \<not> isDecimalDigit (hd rest)"
    using assms(2) by (cases rest) (simp_all add: spec_stops_def)
  then show ?thesis
    using exponentPart_text [of ec esg ed rest] assms(1) Some t by simp
qed

lemma exponent_head:
  assumes "spec_exponent_ok ex" "spec_stops dot ex rest"
  shows "spec_exponent_text ex @ rest = [] \<or> \<not> isDecimalDigit (hd (spec_exponent_text ex @ rest))"
    and "\<not> dot \<Longrightarrow> spec_exponent_text ex @ rest = [] \<or> hd (spec_exponent_text ex @ rest) \<noteq> CHR ''.''"
  using assms
  by (cases ex; cases rest;
      auto simp add: spec_exponent_ok_def spec_exponent_text_def spec_stops_def isDecimalDigit_def)+

lemma literal_arith:
  "(real a * 10 ^ n + real b) * 10 powi (e - int n) = (real a + real b / 10 ^ n) * 10 powi e"
proof -
  have "(10::real) powi (e - int n) = 10 powi e / 10 ^ n"
    by (simp add: power_int_diff)
  then show ?thesis
    by (simp add: field_simps)
qed

lemma unsigned_without_point:
  "take 8 u \<noteq> ''Infinity'' \<Longrightarrow> takeWhile isDecimalDigit u = ip \<Longrightarrow> dropWhile isDecimalDigit u = r1
     \<Longrightarrow> \<not> (r1 \<noteq> [] \<and> hd r1 = CHR ''.'') \<Longrightarrow> ip \<noteq> []
     \<Longrightarrow> strUnsignedDecimalLiteral u = Fin (scale10 (digitsValue ip) (exponentPart r1))"
proof -
  assume a: "take 8 u \<noteq> ''Infinity''" "takeWhile isDecimalDigit u = ip"
    "dropWhile isDecimalDigit u = r1" "\<not> (r1 \<noteq> [] \<and> hd r1 = CHR ''.'')" "ip \<noteq> []"
  have b: "\<not> (dropWhile isDecimalDigit u \<noteq> [] \<and> hd (dropWhile isDecimalDigit u) = CHR ''.'')"
    using a(3) a(4) by simp
  have c: "takeWhile isDecimalDigit u \<noteq> []"
    using a(2) a(5) by simp
  have "strUnsignedDecimalLiteral u
      = Fin (scale10 (digitsValue (takeWhile isDecimalDigit u)) (exponentPart (dropWhile isDecimalDigit u)))"
    using a(1) b c by (auto simp add: strUnsignedDecimalLiteral_def Let_def)
  then show ?thesis
    unfolding a(2) a(3) .
qed

lemma unsigned_with_point:
  "take 8 u \<noteq> ''Infinity'' \<Longrightarrow> takeWhile isDecimalDigit u = ip
     \<Longrightarrow> dropWhile isDecimalDigit u = CHR ''.'' # t
     \<Longrightarrow> takeWhile isDecimalDigit t = fp \<Longrightarrow> dropWhile isDecimalDigit t = r2
     \<Longrightarrow> ip \<noteq> [] \<or> fp \<noteq> []
     \<Longrightarrow> strUnsignedDecimalLiteral u
           = Fin (scale10 (digitsValue (ip @ fp)) (exponentPart r2 - int (length fp)))"
  by (auto simp add: strUnsignedDecimalLiteral_def Let_def)

lemma unsigned_literal:
  assumes ok: "spec_literal_ok [] ip dot fp ex" and st: "spec_stops dot ex rest"
  shows "strUnsignedDecimalLiteral (spec_literal_text [] ip dot fp ex @ rest)
           = Fin ((real (spec_decimal ip) + real (spec_decimal fp) / 10 ^ length fp)
                    * 10 powi spec_exponent_value ex)"
proof -
  let ?E = "spec_exponent_text ex @ rest"
  have o: "list_all isDecimalDigit ip" "list_all isDecimalDigit fp" "dot \<or> fp = []"
      "ip \<noteq> [] \<or> fp \<noteq> []" "spec_exponent_ok ex"
    using ok by (simp_all add: spec_literal_ok_def)
  have ex: "exponentPart ?E = spec_exponent_value ex"
    by (rule exponentPart_spec [OF o(5) st])
  note eh = exponent_head [OF o(5) st]
  show ?thesis
  proof (cases dot)
    case True
    let ?u = "ip @ CHR ''.'' # fp @ ?E"
    have ni: "take 8 ?u \<noteq> ''Infinity''"
    proof (cases ip)
      case Nil
      then show ?thesis by simp
    next
      case (Cons d ds)
      then show ?thesis using o(1) digit_chars [of d] by simp
    qed
    have nd: "\<not> isDecimalDigit CHR ''.''"
      by (simp add: isDecimalDigit_def)
    have s1: "takeWhile isDecimalDigit ?u = ip" "dropWhile isDecimalDigit ?u = CHR ''.'' # fp @ ?E"
      using span_run [OF o(1), of "CHR ''.'' # fp @ ?E"] nd by simp_all
    have s2: "takeWhile isDecimalDigit (fp @ ?E) = fp" "dropWhile isDecimalDigit (fp @ ?E) = ?E"
      using span_run [OF o(2) eh(1)] by simp_all
    have "strUnsignedDecimalLiteral ?u
            = Fin (scale10 (digitsValue (ip @ fp)) (exponentPart ?E - int (length fp)))"
      by (rule unsigned_with_point [OF ni s1 s2 o(4)])
    then show ?thesis
      using True
      by (simp add: ex spec_literal_text_def scale10_powi digitsValue_spec spec_decimal_append
          literal_arith)
  next
    case False
    then have fp: "fp = []" and ip: "ip \<noteq> []"
      using o(3,4) by auto
    let ?u = "ip @ ?E"
    obtain d ds where ds: "ip = d # ds" using ip by (cases ip) auto
    have ni: "take 8 ?u \<noteq> ''Infinity''"
      using ds o(1) digit_chars [of d] by simp
    have s1: "takeWhile isDecimalDigit ?u = ip" "dropWhile isDecimalDigit ?u = ?E"
      using span_run [OF o(1) eh(1)] by simp_all
    have nodot: "\<not> (?E \<noteq> [] \<and> hd ?E = CHR ''.'')"
      using eh(2) [OF False] by auto
    have "strUnsignedDecimalLiteral ?u = Fin (scale10 (digitsValue ip) (exponentPart ?E))"
      by (rule unsigned_without_point [OF ni s1 nodot ip])
    then show ?thesis
      using False fp
      by (simp add: ex spec_literal_text_def scale10_powi digitsValue_spec)
  qed
qed

lemma literal_text_sign:
  "spec_literal_text sg ip dot fp ex = sg @ spec_literal_text [] ip dot fp ex"
  by (simp add: spec_literal_text_def)

lemma literal_head:
  assumes "spec_literal_ok [] ip dot fp ex"
  shows "\<exists>c r. spec_literal_text [] ip dot fp ex @ rest = c # r
            \<and> \<not> isWhiteSpace c \<and> c \<noteq> CHR ''+'' \<and> c \<noteq> CHR ''-''"
proof (cases ip)
  case Nil
  then have "dot" using assms by (auto simp add: spec_literal_ok_def)
  then show ?thesis using Nil by (simp add: spec_literal_text_def isWhiteSpace_def)
next
  case (Cons d ds)
  then have "isDecimalDigit d" using assms by (simp add: spec_literal_ok_def)
  then show ?thesis using Cons digit_chars [of d] by (simp add: spec_literal_text_def)
qed

lemma dropWhile_ws:
  "list_all isWhiteSpace ws \<Longrightarrow> \<not> isWhiteSpace c \<Longrightarrow> dropWhile isWhiteSpace (ws @ c # r) = c # r"
  using span_run(2) [of isWhiteSpace ws "c # r"] by simp

lemma parseFloat_str_literal:
  assumes ws: "list_all isWhiteSpace ws" and ok: "spec_literal_ok sg ip dot fp ex"
    and st: "spec_stops dot ex rest"
  shows "parseFloat_str (ws @ spec_literal_text sg ip dot fp ex @ rest)
           = Fin (spec_literal_value sg ip fp ex)"
proof -
  have ok0: "spec_literal_ok [] ip dot fp ex"
    using ok by (simp add: spec_literal_ok_def spec_sign_def)
  let ?body = "spec_literal_text [] ip dot fp ex @ rest"
  obtain c r where cr: "?body = c # r" "\<not> isWhiteSpace c" "c \<noteq> CHR ''+''" "c \<noteq> CHR ''-''"
    using literal_head [OF ok0, of rest] by blast
  have u: "strUnsignedDecimalLiteral ?body
           = Fin ((real (spec_decimal ip) + real (spec_decimal fp) / 10 ^ length fp)
                    * 10 powi spec_exponent_value ex)"
    by (rule unsigned_literal [OF ok0 st])
  have nw: "\<not> isWhiteSpace CHR ''+''" "\<not> isWhiteSpace CHR ''-''"
    by (simp_all add: isWhiteSpace_def)
  consider "sg = []" | "sg = ''+''" | "sg = ''-''"
    using ok by (auto simp add: spec_literal_ok_def spec_sign_def)
  then show ?thesis
  proof cases
    case 1
    have "dropWhile isWhiteSpace (ws @ c # r) = c # r"
      by (rule dropWhile_ws [OF ws cr(2)])
    then show ?thesis
      using 1 u cr by (simp add: parseFloat_str_def Let_def spec_literal_value_def)
  next
    case 2
    have "dropWhile isWhiteSpace (ws @ CHR ''+'' # ?body) = CHR ''+'' # ?body"
      by (rule dropWhile_ws [OF ws nw(1)])
    then show ?thesis
      using 2 u by (simp add: literal_text_sign [of "''+''"] parseFloat_str_def Let_def spec_literal_value_def)
  next
    case 3
    have "dropWhile isWhiteSpace (ws @ CHR ''-'' # ?body) = CHR ''-'' # ?body"
      by (rule dropWhile_ws [OF ws nw(2)])
    then show ?thesis
      using 3 u
      apply (simp add: literal_text_sign [of "''-''"] parseFloat_str_def Let_def spec_literal_value_def)
      apply (simp add: algebra_simps)
      done
  qed
qed

lemma parseFloat_str_Infinity:
  assumes ws: "list_all isWhiteSpace ws" and sg: "spec_sign sg"
  shows "parseFloat_str (ws @ sg @ ''Infinity'' @ rest) = (if sg = ''-'' then NegInf else PosInf)"
proof -
  have nw: "\<not> isWhiteSpace CHR ''+''" "\<not> isWhiteSpace CHR ''-''" "\<not> isWhiteSpace CHR ''I''"
    by (simp_all add: isWhiteSpace_def)
  have u: "strUnsignedDecimalLiteral (''Infinity'' @ rest) = PosInf"
    by (simp add: strUnsignedDecimalLiteral_def)
  consider "sg = []" | "sg = ''+''" | "sg = ''-''"
    using sg by (auto simp add: spec_sign_def)
  then show ?thesis
  proof cases
    case 1
    have "dropWhile isWhiteSpace (ws @ CHR ''I'' # ''nfinity'' @ rest) = CHR ''I'' # ''nfinity'' @ rest"
      by (rule dropWhile_ws [OF ws nw(3)])
    then show ?thesis
      using 1 u by (simp add: parseFloat_str_def Let_def)
  next
    case 2
    have "dropWhile isWhiteSpace (ws @ CHR ''+'' # ''Infinity'' @ rest) = CHR ''+'' # ''Infinity'' @ rest"
      by (rule dropWhile_ws [OF ws nw(1)])
    then show ?thesis
      using 2 u by (simp add: parseFloat_str_def Let_def)
  next
    case 3
    have "dropWhile isWhiteSpace (ws @ CHR ''-'' # ''Infinity'' @ rest) = CHR ''-'' # ''Infinity'' @ rest"
      by (rule dropWhile_ws [OF ws nw(2)])
    then show ?thesis
      using 3 u by (simp add: parseFloat_str_def Let_def)
  qed
qed

text \<open>
  Conversely every string with a numeric prefix is of one of the two forms: white space,
  then a well-formed literal that what follows cannot make longer, or white space, an
  optional sign and \<open>Infinity\<close>.
\<close>

lemma span_digits:
  "r = takeWhile isDecimalDigit r @ dropWhile isDecimalDigit r"
  "list_all isDecimalDigit (takeWhile isDecimalDigit r)"
  "dropWhile isDecimalDigit r = [] \<or> \<not> isDecimalDigit (hd (dropWhile isDecimalDigit r))"
proof -
  show "r = takeWhile isDecimalDigit r @ dropWhile isDecimalDigit r"
    by simp
  show "list_all isDecimalDigit (takeWhile isDecimalDigit r)"
    by (induction r) simp_all
  show "dropWhile isDecimalDigit r = [] \<or> \<not> isDecimalDigit (hd (dropWhile isDecimalDigit r))"
    using hd_dropWhile [of isDecimalDigit r] by blast
qed

lemma exponent_decomposes:
  assumes "r = [] \<or> \<not> isDecimalDigit (hd r)"
  shows "\<exists>ex rest. r = spec_exponent_text ex @ rest \<and> spec_exponent_ok ex
           \<and> (rest = [] \<or> \<not> isDecimalDigit (hd rest))
           \<and> (ex \<noteq> None \<or> \<not> spec_exponentStart rest)
           \<and> (ex = None \<longrightarrow> rest = r)"
proof (cases "spec_exponentStart r")
  case False
  have "r = spec_exponent_text None @ r \<and> spec_exponent_ok None
           \<and> (r = [] \<or> \<not> isDecimalDigit (hd r))
           \<and> (None \<noteq> (None :: (char \<times> string \<times> string) option) \<or> \<not> spec_exponentStart r)
           \<and> ((None :: (char \<times> string \<times> string) option) = None \<longrightarrow> r = r)"
    using False assms by (simp add: spec_exponent_text_def spec_exponent_ok_def)
  then show ?thesis by blast
next
  case True
  then obtain c d r2 where r: "r = c # d # r2" and c: "c = CHR ''e'' \<or> c = CHR ''E''"
    and d: "isDecimalDigit d \<or> ((d = CHR ''+'' \<or> d = CHR ''-'') \<and> r2 \<noteq> [] \<and> isDecimalDigit (hd r2))"
    by (auto simp add: spec_exponentStart_def split: list.splits)
  show ?thesis
  proof (cases "isDecimalDigit d")
    case True
    let ?ed = "takeWhile isDecimalDigit (d # r2)"
    let ?rest = "dropWhile isDecimalDigit (d # r2)"
    let ?ex = "Some (c, [] :: string, ?ed)"
    have ne: "?ed \<noteq> []" using True by simp
    have "r = spec_exponent_text ?ex @ ?rest"
      using r span_digits(1) [of "d # r2"] by (simp add: spec_exponent_text_def)
    moreover have "spec_exponent_ok ?ex"
      using c ne span_digits(2) [of "d # r2"] by (simp add: spec_exponent_ok_def spec_sign_def)
    moreover have "?rest = [] \<or> \<not> isDecimalDigit (hd ?rest)"
      by (rule span_digits(3))
    ultimately have "r = spec_exponent_text ?ex @ ?rest \<and> spec_exponent_ok ?ex
           \<and> (?rest = [] \<or> \<not> isDecimalDigit (hd ?rest))
           \<and> (?ex \<noteq> None \<or> \<not> spec_exponentStart ?rest)
           \<and> (?ex = None \<longrightarrow> ?rest = r)"
      by simp
    then show ?thesis by blast
  next
    case False
    then have sg: "d = CHR ''+'' \<or> d = CHR ''-''" and g: "r2 \<noteq> []" "isDecimalDigit (hd r2)"
      using d by auto
    let ?ed = "takeWhile isDecimalDigit r2"
    let ?rest = "dropWhile isDecimalDigit r2"
    let ?ex = "Some (c, [d], ?ed)"
    have ne: "?ed \<noteq> []" using g by (cases r2) simp_all
    have "r = spec_exponent_text ?ex @ ?rest"
      using r by (simp add: spec_exponent_text_def)
    moreover have "spec_exponent_ok ?ex"
      using c sg ne span_digits(2) [of r2] by (auto simp add: spec_exponent_ok_def spec_sign_def)
    moreover have "?rest = [] \<or> \<not> isDecimalDigit (hd ?rest)"
      by (rule span_digits(3))
    ultimately have "r = spec_exponent_text ?ex @ ?rest \<and> spec_exponent_ok ?ex
           \<and> (?rest = [] \<or> \<not> isDecimalDigit (hd ?rest))
           \<and> (?ex \<noteq> None \<or> \<not> spec_exponentStart ?rest)
           \<and> (?ex = None \<longrightarrow> ?rest = r)"
      by simp
    then show ?thesis by blast
  qed
qed

lemma stopsI:
  "rest = [] \<or> \<not> isDecimalDigit (hd rest) \<Longrightarrow> ex \<noteq> None \<or> \<not> spec_exponentStart rest
     \<Longrightarrow> dot \<or> ex \<noteq> None \<or> rest = [] \<or> hd rest \<noteq> CHR ''.'' \<Longrightarrow> spec_stops dot ex rest"
  by (cases rest) (auto simp add: spec_stops_def)

lemma unsigned_decomposes:
  assumes "(u \<noteq> [] \<and> isDecimalDigit (hd u))
           \<or> (u \<noteq> [] \<and> hd u = CHR ''.'' \<and> tl u \<noteq> [] \<and> isDecimalDigit (hd (tl u)))"
  shows "\<exists>ip dot fp ex rest. u = spec_literal_text [] ip dot fp ex @ rest
           \<and> spec_literal_ok [] ip dot fp ex \<and> spec_stops dot ex rest"
proof -
  let ?ip = "takeWhile isDecimalDigit u"
  let ?r1 = "dropWhile isDecimalDigit u"
  have u: "u = ?ip @ ?r1" by simp
  have ipd: "list_all isDecimalDigit ?ip" by (rule span_digits(2))
  show ?thesis
  proof (cases "?r1 \<noteq> [] \<and> hd ?r1 = CHR ''.''")
    case True
    then obtain t where r1: "?r1 = CHR ''.'' # t" by (cases ?r1) auto
    let ?fp = "takeWhile isDecimalDigit t"
    let ?r2 = "dropWhile isDecimalDigit t"
    have fpd: "list_all isDecimalDigit ?fp" by (rule span_digits(2))
    obtain ex rest where ex: "?r2 = spec_exponent_text ex @ rest" "spec_exponent_ok ex"
        "rest = [] \<or> \<not> isDecimalDigit (hd rest)" "ex \<noteq> None \<or> \<not> spec_exponentStart rest"
      using exponent_decomposes [OF span_digits(3) [of t]] by blast
    have some: "?ip \<noteq> [] \<or> ?fp \<noteq> []"
    proof (cases "u \<noteq> [] \<and> isDecimalDigit (hd u)")
      case True
      then show ?thesis by (cases u) simp_all
    next
      case False
      then obtain v where uv: "u = CHR ''.'' # v" "v \<noteq> []" "isDecimalDigit (hd v)"
        using assms by (cases u) auto
      have "\<not> isDecimalDigit CHR ''.''" by (simp add: isDecimalDigit_def)
      then have "?r1 = u" using uv by simp
      then have "t = v" using r1 uv by simp
      then show ?thesis using uv by (cases v) simp_all
    qed
    have "u = ?ip @ CHR ''.'' # ?fp @ ?r2"
      using u r1 by simp
    then have "u = spec_literal_text [] ?ip True ?fp ex @ rest"
      using ex(1) by (simp add: spec_literal_text_def)
    moreover have "spec_literal_ok [] ?ip True ?fp ex"
      using ipd fpd some ex(2) by (simp add: spec_literal_ok_def spec_sign_def)
    moreover have "spec_stops True ex rest"
      using ex(3) ex(4) by (intro stopsI) simp_all
    ultimately show ?thesis by blast
  next
    case False
    have nd: "\<not> isDecimalDigit CHR ''.''" by (simp add: isDecimalDigit_def)
    have hd_digit: "u \<noteq> [] \<and> isDecimalDigit (hd u)"
    proof (rule ccontr)
      assume n: "\<not> (u \<noteq> [] \<and> isDecimalDigit (hd u))"
      then obtain v where uv: "u = CHR ''.'' # v"
        using assms by (cases u) auto
      then have "?r1 = u" using nd by simp
      then show False using False uv by simp
    qed
    then have ipn: "?ip \<noteq> []" by (cases u) simp_all
    obtain ex rest where ex: "?r1 = spec_exponent_text ex @ rest" "spec_exponent_ok ex"
        "rest = [] \<or> \<not> isDecimalDigit (hd rest)" "ex \<noteq> None \<or> \<not> spec_exponentStart rest"
        "ex = None \<longrightarrow> rest = ?r1"
      using exponent_decomposes [OF span_digits(3) [of u]] by blast
    have "u = ?ip @ spec_exponent_text ex @ rest"
      using u ex(1) by simp
    then have "u = spec_literal_text [] ?ip False [] ex @ rest"
      by (simp add: spec_literal_text_def)
    moreover have "spec_literal_ok [] ?ip False [] ex"
      using ipd ipn ex(2) by (simp add: spec_literal_ok_def spec_sign_def)
    moreover have "spec_stops False ex rest"
    proof (rule stopsI)
      show "rest = [] \<or> \<not> isDecimalDigit (hd rest)" by (rule ex(3))
      show "ex \<noteq> None \<or> \<not> spec_exponentStart rest" by (rule ex(4))
      show "False \<or> ex \<noteq> None \<or> rest = [] \<or> hd rest \<noteq> CHR ''.''"
        using ex(5) False by auto
    qed
    ultimately show ?thesis by blast
  qed
qed

lemma span_ws:
  "s = takeWhile isWhiteSpace s @ dropWhile isWhiteSpace s"
  "list_all isWhiteSpace (takeWhile isWhiteSpace s)"
proof -
  show "s = takeWhile isWhiteSpace s @ dropWhile isWhiteSpace s" by simp
  show "list_all isWhiteSpace (takeWhile isWhiteSpace s)" by (induction s) simp_all
qed

lemma take_Infinity: "take 8 u = ''Infinity'' \<Longrightarrow> u = ''Infinity'' @ drop 8 u"
  using append_take_drop_id [of 8 u] by simp

lemma numericPrefix_decomposes:
  assumes "spec_numericPrefix s"
  shows "(\<exists>ws sg ip dot fp ex rest. s = ws @ spec_literal_text sg ip dot fp ex @ rest
            \<and> list_all isWhiteSpace ws \<and> spec_literal_ok sg ip dot fp ex \<and> spec_stops dot ex rest)
         \<or> (\<exists>ws sg rest. s = ws @ sg @ ''Infinity'' @ rest \<and> list_all isWhiteSpace ws \<and> spec_sign sg)"
proof -
  let ?ws = "takeWhile isWhiteSpace s"
  let ?t = "dropWhile isWhiteSpace s"
  define sg where "sg = (if ?t \<noteq> [] \<and> (hd ?t = CHR ''+'' \<or> hd ?t = CHR ''-'') then [hd ?t] else [])"
  define u where "u = (if ?t \<noteq> [] \<and> (hd ?t = CHR ''+'' \<or> hd ?t = CHR ''-'') then tl ?t else ?t)"
  have t: "?t = sg @ u"
    unfolding sg_def u_def by (cases ?t) simp_all
  have s: "s = ?ws @ sg @ u"
    using span_ws(1) [of s] t by simp
  have sgn: "spec_sign sg"
    unfolding sg_def spec_sign_def by auto
  have p: "take 8 u = ''Infinity''
         \<or> (u \<noteq> [] \<and> isDecimalDigit (hd u))
         \<or> (u \<noteq> [] \<and> hd u = CHR ''.'' \<and> tl u \<noteq> [] \<and> isDecimalDigit (hd (tl u)))"
    using assms unfolding spec_numericPrefix_def Let_def u_def .
  show ?thesis
  proof (cases "take 8 u = ''Infinity''")
    case True
    have "s = ?ws @ sg @ ''Infinity'' @ drop 8 u"
      using s take_Infinity [OF True] by simp
    then show ?thesis using span_ws(2) [of s] sgn by blast
  next
    case False
    then obtain ip dot fp ex rest where d: "u = spec_literal_text [] ip dot fp ex @ rest"
        "spec_literal_ok [] ip dot fp ex" "spec_stops dot ex rest"
      using p unsigned_decomposes [of u] by blast
    have "s = ?ws @ spec_literal_text sg ip dot fp ex @ rest"
      using s d(1) by (simp add: spec_literal_text_def)
    moreover have "spec_literal_ok sg ip dot fp ex"
      using d(2) sgn by (simp add: spec_literal_ok_def)
    ultimately show ?thesis using span_ws(2) [of s] d(3) by blast
  qed
qed

subsection \<open>Field accessor\<close>

text \<open>
  Claim C7 as the code has it. For every configuration map, key and fallback, \<open>getField\<close>
  returns the fallback when the entry is \<open>undefined\<close>, \<open>null\<close> or the empty string, and
  when the map has no entry for the key and the key is not the name of a member that
  every object inherits from \<open>Object.prototype\<close>; for such a name without an entry of
  its own it returns the inherited member. A string entry is returned trimmed, and the
  fallback is returned when trimming leaves nothing; every other value of the map is
  returned unchanged. \<open>getField\<close> is a total function into the values: no branch of it
  raises an error.
\<close>

theorem getField_contract_amended:
  "(((key \<notin> set Object_prototype_names \<and> fs key = None)
       \<or> fs key = Some Undefined \<or> fs key = Some Null \<or> fs key = Some (Str []))
      \<longrightarrow> getField fs key fb = fb)
   \<and> (\<forall>s. fs key = Some (Str s) \<longrightarrow>
         getField fs key fb = (if String_trim s = [] then fb else Str (String_trim s)))
   \<and> (\<forall>v. fs key = Some v \<and> v \<noteq> Undefined \<and> v \<noteq> Null \<and> (\<forall>s. v \<noteq> Str s) \<longrightarrow> getField fs key fb = v)
   \<and> (key \<in> set Object_prototype_names \<and> fs key = None \<longrightarrow> getField fs key fb = Builtin key)"
  by (auto simp: getField_def get_property_def Let_def String_trim_def split: jsval.splits option.splits)

text \<open>
  The accessor on a missing key, on padded strings, on a number, and on the name
  \<open>toString\<close> with and without an entry of its own.
\<close>

theorem getField_contract_amended_witness:
  "''avatarSize'' \<notin> set Object_prototype_names
   \<and> getField Map.empty ''avatarSize'' (Num (Fin 150)) = Num (Fin 150)
   \<and> getField [''textCase'' \<mapsto> Str ''  upper ''] ''textCase'' (Str ''none'') = Str ''upper''
   \<and> getField [''textCase'' \<mapsto> Str ''   ''] ''textCase'' (Str ''none'') = Str ''none''
   \<and> getField [''avatarSize'' \<mapsto> Num (Fin 90)] ''avatarSize'' (Num (Fin 150)) = Num (Fin 90)
   \<and> ''toString'' \<in> set Object_prototype_names
   \<and> getField Map.empty ''toString'' (Str ''none'') = Builtin ''toString''
   \<and> getField [''toString'' \<mapsto> Str '' x''] ''toString'' (Str ''none'') = Str ''x''"
  using getField_contract_amended [of "''avatarSize''" Map.empty "Num (Fin 150)"]
    getField_contract_amended [of "''textCase''" "[''textCase'' \<mapsto> Str ''  upper '']" "Str ''none''"]
    getField_contract_amended [of "''textCase''" "[''textCase'' \<mapsto> Str ''   '']" "Str ''none''"]
    getField_contract_amended [of "''avatarSize''" "[''avatarSize'' \<mapsto> Num (Fin 90)]" "Num (Fin 150)"]
    getField_contract_amended [of "''toString''" Map.empty "Str ''none''"]
    getField_contract_amended [of "''toString''" "[''toString'' \<mapsto> Str '' x'']" "Str ''none''"]
  by (simp add: String_trim_def isWhiteSpace_def Object_prototype_names_def)

text \<open>
  Claim C7 as stated fails: the empty map has no entry for the key \<open>constructor\<close>, and
  \<open>getField\<close> returns the inherited member, not the fallback.
\<close>

theorem getField_inherited_counterexample:
  "(Map.empty :: fields) ''constructor'' = None
   \<and> getField Map.empty ''constructor'' (Str ''fb'') = Builtin ''constructor''
   \<and> Builtin ''constructor'' \<noteq> Str ''fb''"
  by (simp add: getField_def get_property_def Object_prototype_names_def)

lemmas parseFloat_eval =
  parseFloat_str_def strUnsignedDecimalLiteral_def isWhiteSpace_def isDecimalDigit_def
  digitsValue_def digitValue_def scale10_def exponentPart_def

lemma parseNumber_in_range:
  "num_le lo hi \<Longrightarrow> num_le lo fb \<Longrightarrow> num_le fb hi \<Longrightarrow> in_range lo hi (parseNumber v fb lo hi)"
  using clamp_in_range [of "parseFloat v" lo hi]
  by (simp add: parseNumber_def Let_def isNaN_iff) (simp add: in_range_def)

subsection \<open>Numeric clamp parser\<close>

lemma in_range_Fin: "in_range (Fin a) (Fin b) n \<Longrightarrow> \<exists>r. n = Fin r \<and> a \<le> r \<and> r \<le> b"
  by (cases n) (simp_all add: in_range_def)

lemma parseNumber_Fin:
  "a \<le> fb \<Longrightarrow> fb \<le> b \<Longrightarrow> \<exists>r. parseNumber v (Fin fb) (Fin a) (Fin b) = Fin r \<and> a \<le> r \<and> r \<le> b"
  by (rule in_range_Fin) (simp add: parseNumber_in_range)

lemma var_withinI:
  "styleVars w name = Some (WithUnit (parseNumber v (Fin fb) (Fin lo) (Fin hi)) unit)
     \<Longrightarrow> lo \<le> fb \<Longrightarrow> fb \<le> hi \<Longrightarrow> var_within w name unit lo hi"
  using parseNumber_Fin [of lo fb hi v] by (auto simp add: var_within_def)

lemma raw_withinI:
  "styleVars w name = Some (Raw (Num (parseNumber v (Fin fb) (Fin lo) (Fin hi))))
     \<Longrightarrow> lo \<le> fb \<Longrightarrow> fb \<le> hi \<Longrightarrow> raw_within w name lo hi"
  using parseNumber_Fin [of lo fb hi v] by (auto simp add: raw_within_def)

lemma theme_outputs_within:
  "var_within (applyContainerSize w) ''container-width'' ''px'' 300 1600"
  "var_within (applyContainerSize w) ''container-height'' ''px'' 80 400"
  "var_within (applyContainerSize w) ''container-radius-outer'' ''px'' 0 100"
  "var_within (applyContainerSize w) ''outline-width'' ''px'' 1 30"
  "var_within (applyAvatarSize w) ''avatar-size'' ''px'' 60 300"
  "var_within (applyAvatarSize w) ''avatar-ring-offset'' ''px'' 2 30"
  "var_within (applyAnimation w) ''sway-angle'' ''deg'' 0 45"
  "var_within (applyAnimation w) ''sway-duration'' ''s'' 1 20"
  "var_within (applyAnimation w) ''ring-spin-duration'' ''s'' 1 20"
  "raw_within (applyTypography w) ''text-scale'' (1 / 2) 2"
  "var_within (applyTypography w) ''text-shadow-blur'' ''px'' 0 30"
  "var_within (applyTypography w) ''letter-spacing'' ''em'' (- (1 / 10)) (3 / 10)"
  by (rule var_withinI raw_withinI,
      simp add: applyContainerSize_def applyAvatarSize_def applyAnimation_def applyTypography_def
        Let_def setVar_def px_def, simp, simp)+

lemma effects_outputs_within:
  "alertFrame w \<noteq> None \<Longrightarrow> var_within (ShapeManager_apply w) ''shape-padding'' ''px'' 0 60"
  "var_within (applyDropShadow w) ''drop-shadow-x'' ''px'' (- 50) 50"
  "var_within (applyDropShadow w) ''drop-shadow-y'' ''px'' 0 50"
  "var_within (applyDropShadow w) ''drop-shadow-blur'' ''px'' 0 80"
  "raw_within (applyDropShadow w) ''drop-shadow-opacity'' 0 1"
  "var_within (applyGlow w) ''glow-intensity'' ''px'' 5 60"
  "var_within (applyAnimationToggles w) ''gradient-duration'' ''s'' 2 20"
proof -
  show "alertFrame w \<noteq> None \<Longrightarrow> var_within (ShapeManager_apply w) ''shape-padding'' ''px'' 0 60"
    by (rule var_withinI [where v = "get_from (cm_fields w) ''shapePadding'' Undefined" and fb = 16])
       (auto simp add: ShapeManager_apply_def Let_def setVar_def px_def ConfigManager_get_def
          split: option.splits)
  show "var_within (applyDropShadow w) ''drop-shadow-x'' ''px'' (- 50) 50"
    by (rule var_withinI [where v = "ConfigManager_get w ''dropShadowOffsetX'' Undefined" and fb = 0])
       (simp_all add: applyDropShadow_def Let_def setVar_def px_def)
  show "var_within (applyDropShadow w) ''drop-shadow-y'' ''px'' 0 50"
    by (rule var_withinI [where v = "ConfigManager_get w ''dropShadowOffsetY'' Undefined" and fb = 12])
       (simp_all add: applyDropShadow_def Let_def setVar_def px_def)
  show "var_within (applyDropShadow w) ''drop-shadow-blur'' ''px'' 0 80"
    by (rule var_withinI [where v = "ConfigManager_get w ''dropShadowBlur'' Undefined" and fb = 24])
       (simp_all add: applyDropShadow_def Let_def setVar_def px_def)
  show "raw_within (applyDropShadow w) ''drop-shadow-opacity'' 0 1"
    by (rule raw_withinI [where v = "ConfigManager_get w ''dropShadowOpacity'' Undefined" and fb = "4 / 10"])
       (simp_all add: applyDropShadow_def Let_def setVar_def)
  show "var_within (applyGlow w) ''glow-intensity'' ''px'' 5 60"
    by (rule var_withinI [where v = "ConfigManager_get w ''glowIntensity'' Undefined" and fb = 20])
       (simp_all add: applyGlow_def Let_def setVar_def px_def split: option.splits)
  show "var_within (applyAnimationToggles w) ''gradient-duration'' ''s'' 2 20"
    by (rule var_withinI [where v = "get_from (cm_fields w) ''gradientAnimationSpeed'' Undefined" and fb = 8])
       (simp_all add: applyAnimationToggles_def Let_def setVar_def ConfigManager_get_def
          split: option.splits)
qed

text \<open>
  Claim C1. When \<open>parseFloat\<close> yields NaN, \<open>parseNumber\<close> returns the fallback as it is;
  otherwise, for bounds with \<open>min \<le> max\<close>, its result lies within the bounds, both
  included. For every call of \<open>parseNumber\<close> in the program and every configuration map
  the result lies within the bounds of the call: the fallback of each call lies within
  them too. So every numeric style variable that a translator writes from a configured
  key holds a number within the range of the key, whatever the configuration.
\<close>

theorem parseNumber_clamps:
  "(isNaN (parseFloat v) \<longrightarrow> parseNumber v fb lo hi = fb)
   \<and> (\<not> isNaN (parseFloat v) \<and> num_le lo hi \<longrightarrow> in_range lo hi (parseNumber v fb lo hi))
   \<and> (\<forall>(key, fb', lo', hi') \<in> set parseNumber_calls. \<forall>fs.
         in_range lo' hi' (parseNumber (get_from fs key Undefined) fb' lo' hi'))
   \<and> var_within (applyContainerSize w) ''container-width'' ''px'' 300 1600
   \<and> var_within (applyContainerSize w) ''container-height'' ''px'' 80 400
   \<and> var_within (applyContainerSize w) ''container-radius-outer'' ''px'' 0 100
   \<and> var_within (applyContainerSize w) ''outline-width'' ''px'' 1 30
   \<and> var_within (applyAvatarSize w) ''avatar-size'' ''px'' 60 300
   \<and> var_within (applyAvatarSize w) ''avatar-ring-offset'' ''px'' 2 30
   \<and> var_within (applyAnimation w) ''sway-angle'' ''deg'' 0 45
   \<and> var_within (applyAnimation w) ''sway-duration'' ''s'' 1 20
   \<and> var_within (applyAnimation w) ''ring-spin-duration'' ''s'' 1 20
   \<and> raw_within (applyTypography w) ''text-scale'' (1 / 2) 2
   \<and> var_within (applyTypography w) ''text-shadow-blur'' ''px'' 0 30
   \<and> var_within (applyTypography w) ''letter-spacing'' ''em'' (- (1 / 10)) (3 / 10)
   \<and> (alertFrame w \<noteq> None \<longrightarrow> var_within (ShapeManager_apply w) ''shape-padding'' ''px'' 0 60)
   \<and> var_within (applyDropShadow w) ''drop-shadow-x'' ''px'' (- 50) 50
   \<and> var_within (applyDropShadow w) ''drop-shadow-y'' ''px'' 0 50
   \<and> var_within (applyDropShadow w) ''drop-shadow-blur'' ''px'' 0 80
   \<and> raw_within (applyDropShadow w) ''drop-shadow-opacity'' 0 1
   \<and> var_within (applyGlow w) ''glow-intensity'' ''px'' 5 60
   \<and> var_within (applyAnimationToggles w) ''gradient-duration'' ''s'' 2 20"
proof -
  have a: "isNaN (parseFloat v) \<longrightarrow> parseNumber v fb lo hi = fb"
    by (simp add: parseNumber_def)
  have b: "\<not> isNaN (parseFloat v) \<and> num_le lo hi \<longrightarrow> in_range lo hi (parseNumber v fb lo hi)"
    by (simp add: parseNumber_def isNaN_iff clamp_in_range)
  have c: "\<forall>(key, fb', lo', hi') \<in> set parseNumber_calls. \<forall>fs.
          in_range lo' hi' (parseNumber (get_from fs key Undefined) fb' lo' hi')"
    unfolding parseNumber_calls_def
    by (simp add: parseNumber_in_range)
  have e: "alertFrame w \<noteq> None \<longrightarrow> var_within (ShapeManager_apply w) ''shape-padding'' ''px'' 0 60"
    using effects_outputs_within(1) [of w] by blast
  show ?thesis
    by (intro conjI a b c e theme_outputs_within effects_outputs_within)
qed

text \<open>
  A word with a fallback outside the bounds, a number above the range and a negative
  number as container width, and the shape padding of the example page.
\<close>

theorem parseNumber_clamps_witness:
  "isNaN (parseFloat (Str ''wide''))
   \<and> parseNumber (Str ''wide'') (Fin 5) (Fin 300) (Fin 1600) = Fin 5
   \<and> \<not> isNaN (parseFloat (Str ''2000'')) \<and> num_le (Fin 300) (Fin 1600)
   \<and> parseNumber (Str ''2000'') (Fin 1000) (Fin 300) (Fin 1600) = Fin 1600
   \<and> (''containerWidth'', Fin 1000, Fin 300, Fin 1600) \<in> set parseNumber_calls
   \<and> in_range (Fin 300) (Fin 1600)
       (parseNumber (get_from [''containerWidth'' \<mapsto> Str ''-5''] ''containerWidth'' Undefined)
          (Fin 1000) (Fin 300) (Fin 1600))
   \<and> var_within (applyContainerSize (example_page\<lparr>cm_fields := [''containerWidth'' \<mapsto> Str ''-5'']\<rparr>))
       ''container-width'' ''px'' 300 1600
   \<and> alertFrame example_page \<noteq> None
   \<and> var_within (ShapeManager_apply example_page) ''shape-padding'' ''px'' 0 60"
proof -
  have a: "isNaN (parseFloat (Str ''wide''))"
    by (simp add: parseFloat_eval)
  have b: "parseFloat (Str ''2000'') = Fin 2000"
    by (simp add: parseFloat_eval)
  have c: "(''containerWidth'', Fin 1000, Fin 300, Fin 1600) \<in> set parseNumber_calls"
    by (simp add: parseNumber_calls_def)
  note t1 = parseNumber_clamps [where v = "Str ''wide''" and fb = "Fin 5" and lo = "Fin 300" and hi = "Fin 1600"
      and w = example_page]
  note t2 = parseNumber_clamps [where v = "Str ''2000''" and fb = "Fin 1000" and lo = "Fin 300" and hi = "Fin 1600"
      and w = "example_page\<lparr>cm_fields := [''containerWidth'' \<mapsto> Str ''-5'']\<rparr>"]
  from t2 have r4: "var_within (applyContainerSize (example_page\<lparr>cm_fields := [''containerWidth'' \<mapsto> Str ''-5'']\<rparr>))
       ''container-width'' ''px'' 300 1600"
    by blast
  from t1 have r5: "var_within (ShapeManager_apply example_page) ''shape-padding'' ''px'' 0 60"
    by (simp add: example_page_def)
  from t1 a have r1: "parseNumber (Str ''wide'') (Fin 5) (Fin 300) (Fin 1600) = Fin 5"
    by blast
  from t2 c have r3: "in_range (Fin 300) (Fin 1600)
       (parseNumber (get_from [''containerWidth'' \<mapsto> Str ''-5''] ''containerWidth'' Undefined)
          (Fin 1000) (Fin 300) (Fin 1600))"
    by blast
  have r2: "parseNumber (Str ''2000'') (Fin 1000) (Fin 300) (Fin 1600) = Fin 1600"
    using b by (simp add: parseNumber_def)
  have f: "alertFrame example_page \<noteq> None"
    by (simp add: example_page_def)
  show ?thesis using a b c r1 r2 r3 r4 r5 f by simp
qed

text \<open>
  Claim C8. A string with a numeric prefix is parsed as that prefix and the result is
  clamped, whatever follows the prefix; only a string without a numeric prefix makes
  \<open>parseNumber\<close> return the fallback. The numeric prefix is a decimal literal (an
  optional sign, digits with an optional fraction, an optional exponent) or a signed
  \<open>Infinity\<close>, after optional white space; the number parsed is the one the literal
  denotes, digit by digit, with its sign, fraction and exponent. Every string with a
  numeric prefix is of one of these two forms. In particular \<open>12px\<close> is read as 12,
  \<open>3.5abc\<close> as 3.5, \<open>-5px\<close> as -5 and \<open>1e3px\<close> as 1000.
\<close>

theorem parseFloat_numeric_prefix:
  "(spec_numericPrefix s \<longleftrightarrow> \<not> isNaN (parseFloat (Str s)))
   \<and> (\<not> spec_numericPrefix s \<longrightarrow> parseNumber (Str s) fb lo hi = fb)
   \<and> (list_all isWhiteSpace ws \<and> spec_literal_ok sg ip dot fp ex \<and> spec_stops dot ex rest
      \<longrightarrow> parseFloat (Str (ws @ spec_literal_text sg ip dot fp ex @ rest))
            = Fin (spec_literal_value sg ip fp ex)
          \<and> parseNumber (Str (ws @ spec_literal_text sg ip dot fp ex @ rest)) fb lo hi
            = Math_min (Math_max (Fin (spec_literal_value sg ip fp ex)) lo) hi)
   \<and> (list_all isWhiteSpace ws \<and> spec_sign sg
      \<longrightarrow> parseFloat (Str (ws @ sg @ ''Infinity'' @ rest)) = (if sg = ''-'' then NegInf else PosInf)
          \<and> parseNumber (Str (ws @ sg @ ''Infinity'' @ rest)) fb lo hi
            = Math_min (Math_max (if sg = ''-'' then NegInf else PosInf) lo) hi)
   \<and> (spec_numericPrefix s
      \<longrightarrow> (\<exists>ws sg ip dot fp ex rest.
              s = ws @ spec_literal_text sg ip dot fp ex @ rest
              \<and> list_all isWhiteSpace ws \<and> spec_literal_ok sg ip dot fp ex \<and> spec_stops dot ex rest
              \<and> parseNumber (Str s) fb lo hi
                  = Math_min (Math_max (Fin (spec_literal_value sg ip fp ex)) lo) hi)
          \<or> (\<exists>ws sg rest.
              s = ws @ sg @ ''Infinity'' @ rest \<and> list_all isWhiteSpace ws \<and> spec_sign sg
              \<and> parseNumber (Str s) fb lo hi
                  = Math_min (Math_max (if sg = ''-'' then NegInf else PosInf) lo) hi))
   \<and> parseFloat (Str ''12px'') = Fin 12
   \<and> parseFloat (Str ''3.5abc'') = Fin (7 / 2)
   \<and> parseFloat (Str ''px12'') = NaN
   \<and> parseFloat (Str ''-5px'') = Fin (- 5)
   \<and> parseFloat (Str ''1e3px'') = Fin 1000
   \<and> parseFloat (Str ''  +2.5E+2!'') = Fin 250
   \<and> parseFloat (Str ''.5e-1x'') = Fin (1 / 20)
   \<and> parseFloat (Str ''7.e'') = Fin 7
   \<and> parseFloat (Str ''-Infinity!'') = NegInf"
proof -
  have lit: "parseFloat (Str (ws @ spec_literal_text sg ip dot fp ex @ rest))
            = Fin (spec_literal_value sg ip fp ex)
          \<and> parseNumber (Str (ws @ spec_literal_text sg ip dot fp ex @ rest)) fb lo hi
            = Math_min (Math_max (Fin (spec_literal_value sg ip fp ex)) lo) hi"
    if "list_all isWhiteSpace ws" "spec_literal_ok sg ip dot fp ex" "spec_stops dot ex rest"
    for ws sg ip dot fp ex rest
    using parseFloat_str_literal [OF that] by (simp add: parseNumber_def)
  have inf: "parseFloat (Str (ws @ sg @ ''Infinity'' @ rest)) = (if sg = ''-'' then NegInf else PosInf)
          \<and> parseNumber (Str (ws @ sg @ ''Infinity'' @ rest)) fb lo hi
            = Math_min (Math_max (if sg = ''-'' then NegInf else PosInf) lo) hi"
    if "list_all isWhiteSpace ws" "spec_sign sg" for ws sg rest
    using parseFloat_str_Infinity [OF that, of rest] by (simp add: parseNumber_def)
  have c1: "spec_numericPrefix s \<longleftrightarrow> \<not> isNaN (parseFloat (Str s))"
    by (simp add: isNaN_iff parseFloat_str_NaN_iff)
  have c2: "\<not> spec_numericPrefix s \<longrightarrow> parseNumber (Str s) fb lo hi = fb"
    by (simp add: parseNumber_def isNaN_iff parseFloat_str_NaN_iff)
  have c3: "list_all isWhiteSpace ws \<and> spec_literal_ok sg ip dot fp ex \<and> spec_stops dot ex rest
      \<longrightarrow> parseFloat (Str (ws @ spec_literal_text sg ip dot fp ex @ rest))
            = Fin (spec_literal_value sg ip fp ex)
          \<and> parseNumber (Str (ws @ spec_literal_text sg ip dot fp ex @ rest)) fb lo hi
            = Math_min (Math_max (Fin (spec_literal_value sg ip fp ex)) lo) hi"
    using lit by blast
  have c4: "list_all isWhiteSpace ws \<and> spec_sign sg
      \<longrightarrow> parseFloat (Str (ws @ sg @ ''Infinity'' @ rest)) = (if sg = ''-'' then NegInf else PosInf)
          \<and> parseNumber (Str (ws @ sg @ ''Infinity'' @ rest)) fb lo hi
            = Math_min (Math_max (if sg = ''-'' then NegInf else PosInf) lo) hi"
    using inf by blast
  have c5: "spec_numericPrefix s
      \<longrightarrow> (\<exists>ws sg ip dot fp ex rest.
              s = ws @ spec_literal_text sg ip dot fp ex @ rest
              \<and> list_all isWhiteSpace ws \<and> spec_literal_ok sg ip dot fp ex \<and> spec_stops dot ex rest
              \<and> parseNumber (Str s) fb lo hi
                  = Math_min (Math_max (Fin (spec_literal_value sg ip fp ex)) lo) hi)
          \<or> (\<exists>ws sg rest.
              s = ws @ sg @ ''Infinity'' @ rest \<and> list_all isWhiteSpace ws \<and> spec_sign sg
              \<and> parseNumber (Str s) fb lo hi
                  = Math_min (Math_max (if sg = ''-'' then NegInf else PosInf) lo) hi)"
  proof
    assume "spec_numericPrefix s"
    then consider
      (literal) ws sg ip dot fp ex rest where "s = ws @ spec_literal_text sg ip dot fp ex @ rest"
        "list_all isWhiteSpace ws" "spec_literal_ok sg ip dot fp ex" "spec_stops dot ex rest"
      | (infinity) ws sg rest where "s = ws @ sg @ ''Infinity'' @ rest"
        "list_all isWhiteSpace ws" "spec_sign sg"
      using numericPrefix_decomposes [of s] by blast
    then show "(\<exists>ws sg ip dot fp ex rest.
              s = ws @ spec_literal_text sg ip dot fp ex @ rest
              \<and> list_all isWhiteSpace ws \<and> spec_literal_ok sg ip dot fp ex \<and> spec_stops dot ex rest
              \<and> parseNumber (Str s) fb lo hi
                  = Math_min (Math_max (Fin (spec_literal_value sg ip fp ex)) lo) hi)
          \<or> (\<exists>ws sg rest.
              s = ws @ sg @ ''Infinity'' @ rest \<and> list_all isWhiteSpace ws \<and> spec_sign sg
              \<and> parseNumber (Str s) fb lo hi
                  = Math_min (Math_max (if sg = ''-'' then NegInf else PosInf) lo) hi)"
    proof cases
      case literal
      have "parseNumber (Str s) fb lo hi
              = Math_min (Math_max (Fin (spec_literal_value sg ip fp ex)) lo) hi"
        using lit [OF literal(2) literal(3) literal(4)] unfolding literal(1) by blast
      then show ?thesis using literal by blast
    next
      case infinity
      have "parseNumber (Str s) fb lo hi
              = Math_min (Math_max (if sg = ''-'' then NegInf else PosInf) lo) hi"
        using inf [OF infinity(2) infinity(3), of rest] unfolding infinity(1) by blast
      then show ?thesis using infinity by blast
    qed
  qed
  have e1: "parseFloat (Str ''12px'') = Fin 12"
    by (simp add: parseFloat_eval)
  have e2: "parseFloat (Str ''3.5abc'') = Fin (7 / 2)"
    by (simp add: parseFloat_eval)
  have e3: "parseFloat (Str ''px12'') = NaN"
    by (simp add: parseFloat_eval)
  have e4: "parseFloat (Str ''-5px'') = Fin (- 5)"
    by (simp add: parseFloat_eval)
  have e5: "parseFloat (Str ''1e3px'') = Fin 1000"
    by (simp add: parseFloat_eval)
  have e6: "parseFloat (Str ''  +2.5E+2!'') = Fin 250"
    by (simp add: parseFloat_eval)
  have e7: "parseFloat (Str ''.5e-1x'') = Fin (1 / 20)"
    by (simp add: parseFloat_eval)
  have e8: "parseFloat (Str ''7.e'') = Fin 7"
    by (simp add: parseFloat_eval)
  have e9: "parseFloat (Str ''-Infinity!'') = NegInf"
    by (simp add: parseFloat_eval)
  show ?thesis
    using c1 c2 c3 c4 c5 e1 e2 e3 e4 e5 e6 e7 e8 e9 by (intro conjI)
qed

text \<open>
  The strings \<open>12px\<close>, \<open>px12\<close> and \<open>300px\<close> as shape padding, and a literal with white
  space, sign, fraction and exponent.
\<close>

theorem parseFloat_numeric_prefix_witness:
  "spec_numericPrefix ''12px''
   \<and> parseNumber (Str ''12px'') (Fin 16) (Fin 0) (Fin 60) = Fin 12
   \<and> \<not> spec_numericPrefix ''px12''
   \<and> parseNumber (Str ''px12'') (Fin 16) (Fin 0) (Fin 60) = Fin 16
   \<and> parseNumber (Str ''300px'') (Fin 16) (Fin 0) (Fin 60) = Fin 60
   \<and> list_all isWhiteSpace ''  ''
   \<and> spec_literal_ok ''-'' ''12'' True ''5'' (Some (CHR ''e'', ''+'', ''1''))
   \<and> spec_stops True (Some (CHR ''e'', ''+'', ''1'')) ''px''
   \<and> spec_literal_value ''-'' ''12'' ''5'' (Some (CHR ''e'', ''+'', ''1'')) = - 125
   \<and> parseFloat (Str ''  -12.5e+1px'') = Fin (- 125)
   \<and> parseNumber (Str ''  -12.5e+1px'') (Fin 0) (Fin (- 100)) (Fin 100) = Fin (- 100)
   \<and> spec_sign ''-''
   \<and> parseNumber (Str '' -Infinity!'') (Fin 16) (Fin 0) (Fin 60) = Fin 0"
proof -
  have a: "spec_numericPrefix ''12px''" "\<not> spec_numericPrefix ''px12''"
    by (simp_all add: spec_numericPrefix_def isWhiteSpace_def isDecimalDigit_def)
  have b: "list_all isWhiteSpace ''  ''" "list_all isWhiteSpace '' ''" "list_all isWhiteSpace []"
    by (simp_all add: isWhiteSpace_def)
  have c: "spec_literal_ok ''-'' ''12'' True ''5'' (Some (CHR ''e'', ''+'', ''1''))"
    "spec_literal_ok [] ''12'' False [] None"
    "spec_literal_ok [] ''300'' False [] None"
    by (simp_all add: spec_literal_ok_def spec_sign_def spec_exponent_ok_def isDecimalDigit_def)
  have d: "spec_stops True (Some (CHR ''e'', ''+'', ''1'')) ''px''"
    "spec_stops False None ''px''"
    by (simp_all add: spec_stops_def spec_exponentStart_def isDecimalDigit_def)
  have v: "spec_literal_value ''-'' ''12'' ''5'' (Some (CHR ''e'', ''+'', ''1'')) = - 125"
    "spec_literal_value [] ''12'' [] None = 12"
    "spec_literal_value [] ''300'' [] None = 300"
    by (simp_all add: spec_literal_value_def spec_exponent_value_def digitValue_def)
  have t: "''  '' @ spec_literal_text ''-'' ''12'' True ''5'' (Some (CHR ''e'', ''+'', ''1'')) @ ''px''
             = ''  -12.5e+1px''"
    "[] @ spec_literal_text [] ''12'' False [] None @ ''px'' = ''12px''"
    "[] @ spec_literal_text [] ''300'' False [] None @ ''px'' = ''300px''"
    "'' '' @ ''-'' @ ''Infinity'' @ ''!'' = '' -Infinity!''"
    by (simp_all add: spec_literal_text_def spec_exponent_text_def)
  have g: "spec_sign ''-''"
    by (simp add: spec_sign_def)
  note t1 = parseFloat_numeric_prefix [where s = "''12px''" and fb = "Fin 16" and lo = "Fin 0" and hi = "Fin 60"
      and ws = "[]" and sg = "[]" and ip = "''12''" and dot = False and fp = "[]" and ex = None
      and rest = "''px''", unfolded t v]
  note t2 = parseFloat_numeric_prefix [where s = "''px12''" and fb = "Fin 16" and lo = "Fin 0" and hi = "Fin 60"
      and ws = "[]" and sg = "[]" and ip = "''300''" and dot = False and fp = "[]" and ex = None
      and rest = "''px''", unfolded t v]
  note t3 = parseFloat_numeric_prefix [where s = "''12px''" and fb = "Fin 0" and lo = "Fin (- 100)" and hi = "Fin 100"
      and ws = "''  ''" and sg = "''-''" and ip = "''12''" and dot = True and fp = "''5''"
      and ex = "Some (CHR ''e'', ''+'', ''1'')" and rest = "''px''", unfolded t v]
  note t4 = parseFloat_numeric_prefix [where s = "''12px''" and fb = "Fin 16" and lo = "Fin 0" and hi = "Fin 60"
      and ws = "'' ''" and sg = "''-''" and ip = "''12''" and dot = True and fp = "''5''"
      and ex = "Some (CHR ''e'', ''+'', ''1'')" and rest = "''!''", unfolded t]
  have r1: "parseNumber (Str ''12px'') (Fin 16) (Fin 0) (Fin 60) = Fin 12"
    using t1 b(3) c(2) d(2) by simp
  have r2: "parseNumber (Str ''px12'') (Fin 16) (Fin 0) (Fin 60) = Fin 16"
    using t2 a(2) by blast
  have r3: "parseNumber (Str ''300px'') (Fin 16) (Fin 0) (Fin 60) = Fin 60"
    using t2 b(3) c(3) d(2) by simp
  have r4: "parseFloat (Str ''  -12.5e+1px'') = Fin (- 125)"
    "parseNumber (Str ''  -12.5e+1px'') (Fin 0) (Fin (- 100)) (Fin 100) = Fin (- 100)"
    using t3 b(1) c(1) d(1) by simp_all
  have r5: "parseNumber (Str '' -Infinity!'') (Fin 16) (Fin 0) (Fin 60) = Fin 0"
    using t4 b(2) g by simp
  show ?thesis
    using a b(1) c(1) d(1) v(1) g r1 r2 r3 r4 r5 by (intro conjI)
qed

subsection \<open>Image fallback\<close>

text \<open>
  When the address read from the element equals the recorded fallback, \<open>handleError\<close>
  changes nothing. Otherwise it assigns the fallback text to \<open>src\<close>.
\<close>

lemma handleError_noop:
  "alertAvatar w = Some el \<Longrightarrow> resolveURL w (img_src el) = ir_fallbackSrc w \<Longrightarrow> handleError w = w"
  by (simp add: handleError_def)

lemma handleError_assigns:
  assumes "ir_element w" "alertAvatar w = Some el" "resolveURL w (img_src el) \<noteq> ir_fallbackSrc w"
  shows "alertAvatar (handleError w) = Some (el\<lparr>img_src := ir_fallbackSrc w\<rparr>)"
    and "src_assignments (trace (handleError w)) = Suc (src_assignments (trace w))"
  using assms by (simp_all add: handleError_def emit_def Let_def src_assignments_def)

lemma src_assignments_handleError:
  "src_assignments (trace (handleError w)) \<le> Suc (src_assignments (trace w))"
  by (auto simp: handleError_def emit_def Let_def src_assignments_def split: option.splits)

text \<open>
  A fallback whose text reads back as itself (an absolute address in canonical form, as
  the default is): the guard holds after the first assignment, so any number of failures
  assigns at most once.
\<close>

lemma handleError_idem_canonical:
  "resolveURL w (ir_fallbackSrc w) = ir_fallbackSrc w \<Longrightarrow> handleError (handleError w) = handleError w"
  by (auto simp: handleError_def emit_def Let_def split: option.splits)

lemma handleError_funpow_canonical:
  "resolveURL w (ir_fallbackSrc w) = ir_fallbackSrc w \<Longrightarrow> (handleError ^^ Suc n) w = handleError w"
  by (induction n) (simp_all add: handleError_idem_canonical)

lemma handleError_at_most_once_canonical:
  assumes "resolveURL w (ir_fallbackSrc w) = ir_fallbackSrc w"
  shows "src_assignments (trace ((handleError ^^ n) w)) \<le> Suc (src_assignments (trace w))"
proof (cases n)
  case 0
  then show ?thesis by simp
next
  case (Suc m)
  then show ?thesis
    using handleError_funpow_canonical [OF assms, of m] src_assignments_handleError [of w]
    by (simp del: funpow.simps)
qed

text \<open>
  A fallback whose text does not read back as itself (a relative address, or one that
  the document writes differently): the guard holds after every assignment too, and every
  failure assigns again.
\<close>

lemma handleError_every_time:
  assumes "ir_element w" "alertAvatar w = Some el"
    and "resolveURL w (img_src el) \<noteq> ir_fallbackSrc w"
    and "resolveURL w (ir_fallbackSrc w) \<noteq> ir_fallbackSrc w"
  shows "src_assignments (trace ((handleError ^^ n) w)) = src_assignments (trace w) + n"
  using assms
proof (induction n arbitrary: w el)
  case 0
  then show ?case by simp
next
  case (Suc n)
  have a: "alertAvatar (handleError w) = Some (el\<lparr>img_src := ir_fallbackSrc w\<rparr>)"
      "src_assignments (trace (handleError w)) = Suc (src_assignments (trace w))"
    using handleError_assigns [OF Suc.prems(1,2,3)] by simp_all
  have "src_assignments (trace ((handleError ^^ n) (handleError w)))
          = src_assignments (trace (handleError w)) + n"
    by (rule Suc.IH [OF _ a(1)]) (simp_all add: Suc.prems)
  then show ?case
    by (simp add: funpow_swap1 a(2))
qed

text \<open>
  Claim C3 on the code. The page gives the avatar image the relative address
  \<open>fallback.gif\<close> as its \<open>data-fallback\<close>. \<open>ImageRenderer.init\<close> records that text;
  after the first failure the attribute holds it, and the address read from the element
  is the resolved one, which is not the recorded text. So the guard never stops: two
  failures assign twice, and \<open>n\<close> failures assign \<open>n\<close> times, for calls of
  \<open>handleError\<close> and for error events of the element alike.
\<close>

theorem handleError_relative_fallback:
  "ir_fallbackSrc (ImageRenderer_init relative_fallback_page) = ''fallback.gif''
   \<and> map_option img_src (alertAvatar (handleError (ImageRenderer_init relative_fallback_page)))
       = Some ''fallback.gif''
   \<and> resolveURL (handleError (ImageRenderer_init relative_fallback_page)) ''fallback.gif''
       = ''https://streamlabs.com/alert-box/fallback.gif''
   \<and> src_assignments (trace (ImageRenderer_init relative_fallback_page)) = 0
   \<and> src_assignments (trace ((handleError ^^ 2) (ImageRenderer_init relative_fallback_page))) = 2
   \<and> src_assignments (trace (avatar_error_event (avatar_error_event
         (ImageRenderer_init relative_fallback_page)))) = 2
   \<and> (\<forall>n. src_assignments (trace ((handleError ^^ n) (ImageRenderer_init relative_fallback_page))) = n)"
proof -
  let ?w = "ImageRenderer_init relative_fallback_page"
  let ?el = "\<lparr>img_src = ''https://example.com/avatar.png'', img_data_fallback = Some ''fallback.gif'',
              img_error_listeners = Suc 0\<rparr>"
  have w: "ir_element ?w" "alertAvatar ?w = Some ?el" "ir_fallbackSrc ?w = ''fallback.gif''"
      "resolveURL ?w = example_resolve" "trace ?w = []"
    by (simp_all add: ImageRenderer_init_def relative_fallback_page_def example_page_def)
  have r: "example_resolve ''https://example.com/avatar.png'' \<noteq> ''fallback.gif''"
      "example_resolve ''fallback.gif'' = ''https://streamlabs.com/alert-box/fallback.gif''"
    by (simp_all add: example_resolve_def)
  have h: "resolveURL ?w (img_src ?el) \<noteq> ir_fallbackSrc ?w"
      "resolveURL ?w (ir_fallbackSrc ?w) \<noteq> ir_fallbackSrc ?w"
    unfolding w(3) w(4) by (simp_all add: r)
  have n: "\<And>n. src_assignments (trace ((handleError ^^ n) ?w)) = n"
    using handleError_every_time [OF w(1,2) h] by (simp add: w(5) src_assignments_def)
  have a1: "alertAvatar (handleError ?w) = Some (?el\<lparr>img_src := ''fallback.gif''\<rparr>)"
    using handleError_assigns(1) [OF w(1,2) h(1)] by (simp add: w(3))
  have e1: "avatar_error_event ?w = handleError ?w"
    by (simp add: avatar_error_event_def w(2))
  have e2: "avatar_error_event (handleError ?w) = handleError (handleError ?w)"
    by (simp add: avatar_error_event_def a1)
  have two: "src_assignments (trace (handleError (handleError ?w))) = 2"
    using n [of 2] by (simp add: numeral_2_eq_2)
  have c2: "map_option img_src (alertAvatar (handleError ?w)) = Some ''fallback.gif''"
    by (simp add: a1)
  have c3: "resolveURL (handleError ?w) ''fallback.gif'' = ''https://streamlabs.com/alert-box/fallback.gif''"
    by (simp add: relative_fallback_page_def example_page_def r)
  have c4: "src_assignments (trace ?w) = 0"
    by (simp add: w(5) src_assignments_def)
  have c6: "src_assignments (trace (avatar_error_event (avatar_error_event ?w))) = 2"
    by (simp only: e1 e2 two)
  show ?thesis
    using w(3) c2 c3 c4 c6 n by blast
qed

subsection \<open>Derived sizes\<close>

text \<open>
  Claim C6. The ring offset is the configured \<open>avatarRingWidth\<close> clamped to the range from
  2 to 30 (10 when it is not a number); the ring visual width written by
  \<open>applyAvatarSize\<close> is half of that offset, and 2 where the half is below 2. A
  configured offset of 2 gives the width 2.
\<close>

theorem ring_width_half_floor_2:
  "(\<exists>r. 2 \<le> r \<and> r \<le> 30
        \<and> parseNumber (ConfigManager_get w ''avatarRingWidth'' Undefined) (Fin 10) (Fin 2) (Fin 30) = Fin r
        \<and> styleVars (applyAvatarSize w) ''avatar-ring-offset'' = Some (px (Fin r))
        \<and> styleVars (applyAvatarSize w) ''avatar-ring-width'' = Some (px (Fin (max 2 (r / 2)))))
   \<and> (cm_fields w ''avatarRingWidth'' = Some (Num (Fin 2))
        \<longrightarrow> styleVars (applyAvatarSize w) ''avatar-ring-width'' = Some (px (Fin 2)))"
proof (intro conjI impI)
  obtain r where r: "parseNumber (ConfigManager_get w ''avatarRingWidth'' Undefined) (Fin 10) (Fin 2) (Fin 30) = Fin r"
      "2 \<le> r" "r \<le> 30"
    using parseNumber_Fin [of 2 10 30 "ConfigManager_get w ''avatarRingWidth'' Undefined"] by auto
  have "styleVars (applyAvatarSize w) ''avatar-ring-offset'' = Some (px (Fin r))"
    using r by (simp add: applyAvatarSize_def Let_def setVar_def)
  moreover have "styleVars (applyAvatarSize w) ''avatar-ring-width'' = Some (px (Fin (max 2 (r / 2))))"
    using r by (simp add: applyAvatarSize_def Let_def setVar_def max_def)
  ultimately show "\<exists>r. 2 \<le> r \<and> r \<le> 30
        \<and> parseNumber (ConfigManager_get w ''avatarRingWidth'' Undefined) (Fin 10) (Fin 2) (Fin 30) = Fin r
        \<and> styleVars (applyAvatarSize w) ''avatar-ring-offset'' = Some (px (Fin r))
        \<and> styleVars (applyAvatarSize w) ''avatar-ring-width'' = Some (px (Fin (max 2 (r / 2))))"
    using r by blast
next
  assume "cm_fields w ''avatarRingWidth'' = Some (Num (Fin 2))"
  then have "parseNumber (ConfigManager_get w ''avatarRingWidth'' Undefined) (Fin 10) (Fin 2) (Fin 30) = Fin 2"
    by (simp add: ConfigManager_get_def get_from_def getField_def get_property_def Object_prototype_names_def parseNumber_def)
  then show "styleVars (applyAvatarSize w) ''avatar-ring-width'' = Some (px (Fin 2))"
    by (simp add: applyAvatarSize_def Let_def setVar_def)
qed

text \<open>The example page with ring offsets 2 and \<open>20\<close>: the widths are 2 and 10.\<close>

theorem ring_width_half_floor_2_witness:
  "cm_fields (example_page\<lparr>cm_fields := [''avatarRingWidth'' \<mapsto> Num (Fin 2)]\<rparr>) ''avatarRingWidth''
     = Some (Num (Fin 2))
   \<and> styleVars (applyAvatarSize (example_page\<lparr>cm_fields := [''avatarRingWidth'' \<mapsto> Num (Fin 2)]\<rparr>))
        ''avatar-ring-width'' = Some (px (Fin 2))
   \<and> styleVars (applyAvatarSize (example_page\<lparr>cm_fields := [''avatarRingWidth'' \<mapsto> Str ''20'']\<rparr>))
        ''avatar-ring-width'' = Some (px (Fin 10))"
proof -
  have p: "parseNumber (ConfigManager_get (example_page\<lparr>cm_fields := [''avatarRingWidth'' \<mapsto> Str ''20'']\<rparr>)
             ''avatarRingWidth'' Undefined) (Fin 10) (Fin 2) (Fin 30) = Fin 20"
    by (simp add: ConfigManager_get_def get_from_def getField_def get_property_def Object_prototype_names_def parseNumber_def
        String_trim_def parseFloat_eval)
  show ?thesis
    using p
      ring_width_half_floor_2 [of "example_page\<lparr>cm_fields := [''avatarRingWidth'' \<mapsto> Num (Fin 2)]\<rparr>"]
      ring_width_half_floor_2 [of "example_page\<lparr>cm_fields := [''avatarRingWidth'' \<mapsto> Str ''20'']\<rparr>"]
    by auto
qed

text \<open>
  Claim C10. The outer radius is the configured \<open>containerBorderRadius\<close> clamped to the
  range from 0 to 100 (42 when it is not a number), and the inner radius written by
  \<open>applyContainerSize\<close> is the larger of 0 and the outer radius minus 8: it is never
  negative, never above the outer radius, and equal to the outer radius minus 8 from 8 on.
\<close>

theorem inner_radius_inset:
  "\<exists>r. 0 \<le> r \<and> r \<le> 100
       \<and> parseNumber (ConfigManager_get w ''containerBorderRadius'' Undefined) (Fin 42) (Fin 0) (Fin 100) = Fin r
       \<and> styleVars (applyContainerSize w) ''container-radius-outer'' = Some (px (Fin r))
       \<and> styleVars (applyContainerSize w) ''container-radius-inner'' = Some (px (Fin (max 0 (r - 8))))
       \<and> 0 \<le> max 0 (r - 8) \<and> max 0 (r - 8) \<le> r
       \<and> (8 \<le> r \<longrightarrow> max 0 (r - 8) = r - 8)"
proof -
  obtain r where r: "parseNumber (ConfigManager_get w ''containerBorderRadius'' Undefined) (Fin 42) (Fin 0) (Fin 100) = Fin r"
      "0 \<le> r" "r \<le> 100"
    using parseNumber_Fin [of 0 42 100 "ConfigManager_get w ''containerBorderRadius'' Undefined"] by auto
  have o: "styleVars (applyContainerSize w) ''container-radius-outer'' = Some (px (Fin r))"
    using r by (simp add: applyContainerSize_def Let_def setVar_def)
  have i: "styleVars (applyContainerSize w) ''container-radius-inner'' = Some (px (Fin (max 0 (r - 8))))"
    using r by (simp add: applyContainerSize_def Let_def setVar_def max_def)
  have a: "0 \<le> max 0 (r - 8) \<and> max 0 (r - 8) \<le> r \<and> (8 \<le> r \<longrightarrow> max 0 (r - 8) = r - 8)"
    using r by (simp add: max_def)
  show ?thesis using r o i a by blast
qed

text \<open>The example page with the radii 42, 5 and 250: the inner radii are 34, 0 and 92.\<close>

theorem inner_radius_inset_witness:
  "styleVars (applyContainerSize example_page) ''container-radius-inner'' = Some (px (Fin 34))
   \<and> styleVars (applyContainerSize (example_page\<lparr>cm_fields := [''containerBorderRadius'' \<mapsto> Num (Fin 5)]\<rparr>))
        ''container-radius-inner'' = Some (px (Fin 0))
   \<and> styleVars (applyContainerSize (example_page\<lparr>cm_fields := [''containerBorderRadius'' \<mapsto> Num (Fin 250)]\<rparr>))
        ''container-radius-inner'' = Some (px (Fin 92))"
proof -
  have p1: "parseNumber (ConfigManager_get example_page ''containerBorderRadius'' Undefined)
              (Fin 42) (Fin 0) (Fin 100) = Fin 42"
    by (simp add: ConfigManager_get_def get_from_def getField_def get_property_def Object_prototype_names_def parseNumber_def
        nullish_def example_page_def DEFAULTS_def)
  have p2: "parseNumber (ConfigManager_get (example_page\<lparr>cm_fields := [''containerBorderRadius'' \<mapsto> Num (Fin 5)]\<rparr>)
              ''containerBorderRadius'' Undefined) (Fin 42) (Fin 0) (Fin 100) = Fin 5"
    by (simp add: ConfigManager_get_def get_from_def getField_def get_property_def Object_prototype_names_def parseNumber_def)
  have p3: "parseNumber (ConfigManager_get (example_page\<lparr>cm_fields := [''containerBorderRadius'' \<mapsto> Num (Fin 250)]\<rparr>)
              ''containerBorderRadius'' Undefined) (Fin 42) (Fin 0) (Fin 100) = Fin 100"
    by (simp add: ConfigManager_get_def get_from_def getField_def get_property_def Object_prototype_names_def parseNumber_def)
  show ?thesis
    using p1 p2 p3
      inner_radius_inset [of example_page]
      inner_radius_inset [of "example_page\<lparr>cm_fields := [''containerBorderRadius'' \<mapsto> Num (Fin 5)]\<rparr>"]
      inner_radius_inset [of "example_page\<lparr>cm_fields := [''containerBorderRadius'' \<mapsto> Num (Fin 250)]\<rparr>"]
    by auto
qed

subsection \<open>Audio playback\<close>

lemma play_requests_append [simp]:
  "play_requests (t @ u) = play_requests t + play_requests u"
  by (simp add: play_requests_def)



subsection \<open>Shape selector\<close>

lemma String_trim_id:
  assumes "s \<noteq> []" "\<not> isWhiteSpace (hd s)" "\<not> isWhiteSpace (last s)"
  shows "String_trim s = s"
proof -
  have 1: "dropWhile isWhiteSpace s = s"
    using assms(1,2) by (cases s) simp_all
  have 2: "dropWhile isWhiteSpace (rev s) = rev s"
    using assms(1,3) by (cases "rev s") (simp_all add: hd_rev [symmetric])
  show ?thesis by (simp add: String_trim_def 1 2)
qed

lemma shape_of_frame_styled:
  "dataset (frame_styled fs e) ''shape'' = Some (get_from fs ''alertBoxShape'' (Str ''rounded-rectangle''))"
  by (simp add: frame_styled_def)

lemma String_trim_Nil: "String_trim [] = []"
  by (simp add: String_trim_def)

lemma get_from_Str:
  "fs key = Some (Str s) \<Longrightarrow> fb \<noteq> Undefined \<Longrightarrow> fb \<noteq> Null \<Longrightarrow>
   get_from fs key fb = (if String_trim s = [] then fb else Str (String_trim s))"
  by (cases "s = []")
     (simp_all add: get_from_def getField_def get_property_def Object_prototype_names_def nullish_def Let_def String_trim_Nil)

text \<open>
  Claim C5 as the code has it. With the frame present, a string configured as
  \<open>alertBoxShape\<close> appears as the frame's shape selector with the white space around it
  removed, whenever something is left of it; so a string that neither starts nor ends with
  white space appears exactly as configured, whatever it is. A string of white space only
  gives the default shape. This holds for \<open>ShapeManager.apply\<close> and for the whole of
  \<open>init\<close>.
\<close>

theorem shape_selector_trimmed:
  "(alertFrame w = Some frame \<and> cm_fields w ''alertBoxShape'' = Some (Str s) \<longrightarrow>
      (String_trim s \<noteq> [] \<longrightarrow>
         map_option (\<lambda>f. dataset f ''shape'') (alertFrame (ShapeManager_apply w))
           = Some (Some (Str (String_trim s))))
      \<and> (s \<noteq> [] \<and> \<not> isWhiteSpace (hd s) \<and> \<not> isWhiteSpace (last s) \<longrightarrow>
         map_option (\<lambda>f. dataset f ''shape'') (alertFrame (ShapeManager_apply w)) = Some (Some (Str s)))
      \<and> (String_trim s = [] \<longrightarrow>
         map_option (\<lambda>f. dataset f ''shape'') (alertFrame (ShapeManager_apply w))
           = Some (Some (Str ''rounded-rectangle''))))
   \<and> (alertFrame w = Some frame \<and> customFields w = Some fs \<and> fs ''alertBoxShape'' = Some (Str s) \<longrightarrow>
      (String_trim s \<noteq> [] \<longrightarrow>
         map_option (\<lambda>f. dataset f ''shape'') (alertFrame (init w)) = Some (Some (Str (String_trim s))))
      \<and> (s \<noteq> [] \<and> \<not> isWhiteSpace (hd s) \<and> \<not> isWhiteSpace (last s) \<longrightarrow>
         map_option (\<lambda>f. dataset f ''shape'') (alertFrame (init w)) = Some (Some (Str s))))"
proof (intro conjI impI; (elim conjE)?)
  assume a: "alertFrame w = Some frame" "cm_fields w ''alertBoxShape'' = Some (Str s)"
  have g: "get_from (cm_fields w) ''alertBoxShape'' (Str ''rounded-rectangle'')
             = (if String_trim s = [] then Str ''rounded-rectangle'' else Str (String_trim s))"
    using a(2) by (simp add: get_from_Str)
  have sh: "map_option (\<lambda>f. dataset f ''shape'') (alertFrame (ShapeManager_apply w))
             = Some (Some (get_from (cm_fields w) ''alertBoxShape'' (Str ''rounded-rectangle'')))"
    using a(1) by (simp add: alertFrame_ShapeManager_apply)
  show "String_trim s \<noteq> [] \<Longrightarrow>
         map_option (\<lambda>f. dataset f ''shape'') (alertFrame (ShapeManager_apply w))
           = Some (Some (Str (String_trim s)))"
    by (simp add: sh g)
  show "s \<noteq> [] \<Longrightarrow> \<not> isWhiteSpace (hd s) \<Longrightarrow> \<not> isWhiteSpace (last s) \<Longrightarrow>
         map_option (\<lambda>f. dataset f ''shape'') (alertFrame (ShapeManager_apply w)) = Some (Some (Str s))"
    by (simp add: sh g String_trim_id)
  show "String_trim s = [] \<Longrightarrow>
         map_option (\<lambda>f. dataset f ''shape'') (alertFrame (ShapeManager_apply w))
           = Some (Some (Str ''rounded-rectangle''))"
    by (simp add: sh g)
next
  assume a: "alertFrame w = Some frame" "customFields w = Some fs" "fs ''alertBoxShape'' = Some (Str s)"
  have g: "get_from fs ''alertBoxShape'' (Str ''rounded-rectangle'')
             = (if String_trim s = [] then Str ''rounded-rectangle'' else Str (String_trim s))"
    using a(3) by (simp add: get_from_Str)
  have sh: "map_option (\<lambda>f. dataset f ''shape'') (alertFrame (init w))
             = Some (Some (get_from fs ''alertBoxShape'' (Str ''rounded-rectangle'')))"
    using a(1,2) by (simp add: init_elements shape_of_frame_styled)
  show "String_trim s \<noteq> [] \<Longrightarrow>
         map_option (\<lambda>f. dataset f ''shape'') (alertFrame (init w)) = Some (Some (Str (String_trim s)))"
    by (simp add: sh g)
  show "s \<noteq> [] \<Longrightarrow> \<not> isWhiteSpace (hd s) \<Longrightarrow> \<not> isWhiteSpace (last s) \<Longrightarrow>
         map_option (\<lambda>f. dataset f ''shape'') (alertFrame (init w)) = Some (Some (Str s))"
    by (simp add: sh g String_trim_id)
qed

text \<open>The example page with the shapes \<open>hexagon\<close> and \<open>my-shape 2\<close>, the second padded.\<close>

theorem shape_selector_trimmed_witness:
  "map_option (\<lambda>f. dataset f ''shape'')
     (alertFrame (init (example_page\<lparr>customFields := Some [''alertBoxShape'' \<mapsto> Str ''hexagon'']\<rparr>)))
     = Some (Some (Str ''hexagon''))
   \<and> String_trim ''  my-shape 2 '' = ''my-shape 2''
   \<and> map_option (\<lambda>f. dataset f ''shape'')
     (alertFrame (init (example_page\<lparr>customFields := Some [''alertBoxShape'' \<mapsto> Str ''  my-shape 2 '']\<rparr>)))
     = Some (Some (Str ''my-shape 2''))"
proof -
  have f: "\<And>c. alertFrame (example_page\<lparr>customFields := c\<rparr>)
             = Some \<lparr>dataset = Map.empty, classList = {''alert-frame''}\<rparr>"
    by (simp add: example_page_def)
  have t: "String_trim ''  my-shape 2 '' = ''my-shape 2''"
    by (simp add: String_trim_def isWhiteSpace_def)
  have h: "''hexagon'' \<noteq> [] \<and> \<not> isWhiteSpace (hd ''hexagon'') \<and> \<not> isWhiteSpace (last ''hexagon'')"
    by (simp add: isWhiteSpace_def)
  note t1 = shape_selector_trimmed [where w = "example_page\<lparr>customFields := Some [''alertBoxShape'' \<mapsto> Str ''hexagon'']\<rparr>"
      and frame = "\<lparr>dataset = Map.empty, classList = {''alert-frame''}\<rparr>"
      and fs = "[''alertBoxShape'' \<mapsto> Str ''hexagon'']" and s = "''hexagon''"]
  note t2 = shape_selector_trimmed [where w = "example_page\<lparr>customFields := Some [''alertBoxShape'' \<mapsto> Str ''  my-shape 2 '']\<rparr>"
      and frame = "\<lparr>dataset = Map.empty, classList = {''alert-frame''}\<rparr>"
      and fs = "[''alertBoxShape'' \<mapsto> Str ''  my-shape 2 '']" and s = "''  my-shape 2 ''"]
  have r1: "map_option (\<lambda>f. dataset f ''shape'')
     (alertFrame (init (example_page\<lparr>customFields := Some [''alertBoxShape'' \<mapsto> Str ''hexagon'']\<rparr>)))
     = Some (Some (Str ''hexagon''))"
    using t1 h f by simp
  have r2: "map_option (\<lambda>f. dataset f ''shape'')
     (alertFrame (init (example_page\<lparr>customFields := Some [''alertBoxShape'' \<mapsto> Str ''  my-shape 2 '']\<rparr>)))
     = Some (Some (Str ''my-shape 2''))"
    using t2 t f by simp
  show ?thesis using r1 r2 t by blast
qed

text \<open>
  Claim C5 as stated fails: the string \<open>star\<close> with a blank in front is not empty, and
  the frame's shape selector after \<open>init\<close> is \<open>star\<close> without the blank.
\<close>

theorem shape_passthrough_counterexample:
  "customFields (example_page\<lparr>customFields := Some [''alertBoxShape'' \<mapsto> Str '' star'']\<rparr>)
     = Some [''alertBoxShape'' \<mapsto> Str '' star'']
   \<and> '' star'' \<noteq> []
   \<and> map_option (\<lambda>f. dataset f ''shape'')
       (alertFrame (init (example_page\<lparr>customFields := Some [''alertBoxShape'' \<mapsto> Str '' star'']\<rparr>)))
       = Some (Some (Str ''star''))
   \<and> Str ''star'' \<noteq> Str '' star''"
proof -
  have g: "get_from [''alertBoxShape'' \<mapsto> Str '' star''] ''alertBoxShape'' (Str ''rounded-rectangle'')
             = Str ''star''"
    by (simp add: get_from_def getField_def get_property_def Object_prototype_names_def nullish_def String_trim_def isWhiteSpace_def)
  have "map_option (\<lambda>f. dataset f ''shape'')
       (alertFrame (init (example_page\<lparr>customFields := Some [''alertBoxShape'' \<mapsto> Str '' star'']\<rparr>)))
       = Some (Some (Str ''star''))"
    by (simp add: init_elements example_page_def shape_of_frame_styled g)
  then show ?thesis by simp
qed

subsection \<open>Enable flags\<close>

lemma strict_eq_Str [simp]: "strict_eq v (Str s) = (v = Str s)"
  by (auto simp add: strict_eq_def)

text \<open>
  Claim C9. Each of the five flags counts as enabled exactly when the value that
  \<open>ConfigManager.get\<close> resolves for it is the string \<open>true\<close>: the style variables of
  drop shadow and glow are 1 then and 0 otherwise, the glow class is on the frame exactly
  then, and the three classes that switch sway, ring spin and gradient animation off are
  present exactly otherwise. The resolved value is \<open>true\<close> when the entry is a string that
  is \<open>true\<close> after trimming, or when the entry is missing, null or blank and the default
  is \<open>true\<close>; a boolean or a number never resolves to it. (A missing entry counts as
  missing when the key is not the name of a member inherited from \<open>Object.prototype\<close>;
  none of the five flag keys is.)
\<close>

theorem flags_enabled_iff_true:
  "styleVars (applyDropShadow w) ''drop-shadow-enabled''
     = Some (Raw (Str (if ConfigManager_get w ''dropShadowEnabled'' (Str ''true'') = Str ''true''
                       then ''1'' else ''0'')))
   \<and> styleVars (applyGlow w) ''glow-enabled''
     = Some (Raw (Str (if ConfigManager_get w ''glowEnabled'' (Str ''false'') = Str ''true''
                       then ''1'' else ''0'')))
   \<and> (alertFrame w = Some frame \<longrightarrow>
        (\<exists>f'. alertFrame (applyGlow w) = Some f'
           \<and> (''alert-frame--glow'' \<in> classList f'
                \<longleftrightarrow> ConfigManager_get w ''glowEnabled'' (Str ''false'') = Str ''true'')))
   \<and> (alertFrame w = Some frame \<longrightarrow>
        (\<exists>f'. alertFrame (applyAnimationToggles w) = Some f'
           \<and> (''alert-frame--no-sway'' \<in> classList f'
                \<longleftrightarrow> ConfigManager_get w ''enableSway'' (Str ''true'') \<noteq> Str ''true'')
           \<and> (''alert-frame--no-gradient-animation'' \<in> classList f'
                \<longleftrightarrow> ConfigManager_get w ''enableGradientAnimation'' (Str ''true'') \<noteq> Str ''true'')))
   \<and> (alertAvatarRing w = Some ring \<longrightarrow>
        (\<exists>r'. alertAvatarRing (applyAnimationToggles w) = Some r'
           \<and> (''alert-avatar-ring--no-spin'' \<in> classList r'
                \<longleftrightarrow> ConfigManager_get w ''enableRingSpin'' (Str ''true'') \<noteq> Str ''true'')))
   \<and> (ConfigManager_get w key (Str d) = Str ''true'' \<longleftrightarrow>
        (case cm_fields w key of
           None \<Rightarrow> key \<notin> set Object_prototype_names \<and> d = ''true''
         | Some Undefined \<Rightarrow> d = ''true''
         | Some Null \<Rightarrow> d = ''true''
         | Some (Str s) \<Rightarrow> (if String_trim s = [] then d = ''true'' else String_trim s = ''true'')
         | Some (Bool b) \<Rightarrow> False
         | Some (Num n) \<Rightarrow> False
         | Some (Builtin n) \<Rightarrow> False))"
proof (intro conjI impI)
  show "styleVars (applyDropShadow w) ''drop-shadow-enabled''
     = Some (Raw (Str (if ConfigManager_get w ''dropShadowEnabled'' (Str ''true'') = Str ''true''
                       then ''1'' else ''0'')))"
    by (simp add: applyDropShadow_def Let_def setVar_def flag01_def)
  show "styleVars (applyGlow w) ''glow-enabled''
     = Some (Raw (Str (if ConfigManager_get w ''glowEnabled'' (Str ''false'') = Str ''true''
                       then ''1'' else ''0'')))"
    by (simp add: applyGlow_def Let_def setVar_def flag01_def split: option.splits)
  show "alertFrame w = Some frame \<Longrightarrow>
        \<exists>f'. alertFrame (applyGlow w) = Some f'
           \<and> (''alert-frame--glow'' \<in> classList f'
                \<longleftrightarrow> ConfigManager_get w ''glowEnabled'' (Str ''false'') = Str ''true'')"
    by (simp add: alertFrame_applyGlow classList_toggle ConfigManager_get_def)
  show "alertFrame w = Some frame \<Longrightarrow>
        \<exists>f'. alertFrame (applyAnimationToggles w) = Some f'
           \<and> (''alert-frame--no-sway'' \<in> classList f'
                \<longleftrightarrow> ConfigManager_get w ''enableSway'' (Str ''true'') \<noteq> Str ''true'')
           \<and> (''alert-frame--no-gradient-animation'' \<in> classList f'
                \<longleftrightarrow> ConfigManager_get w ''enableGradientAnimation'' (Str ''true'') \<noteq> Str ''true'')"
    by (simp add: alertFrame_applyAnimationToggles classList_toggle ConfigManager_get_def)
  show "alertAvatarRing w = Some ring \<Longrightarrow>
        \<exists>r'. alertAvatarRing (applyAnimationToggles w) = Some r'
           \<and> (''alert-avatar-ring--no-spin'' \<in> classList r'
                \<longleftrightarrow> ConfigManager_get w ''enableRingSpin'' (Str ''true'') \<noteq> Str ''true'')"
    by (simp add: alertAvatarRing_applyAnimationToggles classList_toggle ConfigManager_get_def)
  show "ConfigManager_get w key (Str d) = Str ''true'' \<longleftrightarrow>
        (case cm_fields w key of
           None \<Rightarrow> key \<notin> set Object_prototype_names \<and> d = ''true''
         | Some Undefined \<Rightarrow> d = ''true''
         | Some Null \<Rightarrow> d = ''true''
         | Some (Str s) \<Rightarrow> (if String_trim s = [] then d = ''true'' else String_trim s = ''true'')
         | Some (Bool b) \<Rightarrow> False
         | Some (Num n) \<Rightarrow> False
         | Some (Builtin n) \<Rightarrow> False)"
    by (auto simp add: ConfigManager_get_def get_from_def getField_def get_property_def nullish_def
        Let_def String_trim_Nil split: option.splits jsval.splits)
qed

text \<open>
  The example page: without entries the drop shadow is on and the glow is off; the boolean
  true and the string \<open>TRUE\<close> switch the drop shadow off, and the string \<open>false\<close> for
  sway puts the class on the frame.
\<close>

theorem flags_enabled_iff_true_witness:
  "styleVars (applyDropShadow example_page) ''drop-shadow-enabled'' = Some (Raw (Str ''1''))
   \<and> styleVars (applyGlow example_page) ''glow-enabled'' = Some (Raw (Str ''0''))
   \<and> styleVars (applyDropShadow (example_page\<lparr>cm_fields := [''dropShadowEnabled'' \<mapsto> Bool True]\<rparr>))
        ''drop-shadow-enabled'' = Some (Raw (Str ''0''))
   \<and> styleVars (applyDropShadow (example_page\<lparr>cm_fields := [''dropShadowEnabled'' \<mapsto> Str ''TRUE'']\<rparr>))
        ''drop-shadow-enabled'' = Some (Raw (Str ''0''))
   \<and> (\<exists>f'. alertFrame (applyAnimationToggles (example_page\<lparr>cm_fields := [''enableSway'' \<mapsto> Str ''false'']\<rparr>))
              = Some f'
          \<and> ''alert-frame--no-sway'' \<in> classList f'
          \<and> ''alert-frame--no-gradient-animation'' \<notin> classList f')"
proof -
  have g1: "ConfigManager_get example_page ''dropShadowEnabled'' (Str ''true'') = Str ''true''"
       "ConfigManager_get example_page ''glowEnabled'' (Str ''false'') = Str ''false''"
    by (simp_all add: ConfigManager_get_def get_from_def getField_def get_property_def Object_prototype_names_def nullish_def
        example_page_def)
  have g2: "ConfigManager_get (example_page\<lparr>cm_fields := [''dropShadowEnabled'' \<mapsto> Bool True]\<rparr>)
              ''dropShadowEnabled'' (Str ''true'') = Bool True"
    by (simp add: ConfigManager_get_def get_from_def getField_def get_property_def Object_prototype_names_def nullish_def)
  have g3: "ConfigManager_get (example_page\<lparr>cm_fields := [''dropShadowEnabled'' \<mapsto> Str ''TRUE'']\<rparr>)
              ''dropShadowEnabled'' (Str ''true'') = Str ''TRUE''"
    by (simp add: ConfigManager_get_def get_from_def getField_def get_property_def Object_prototype_names_def nullish_def
        String_trim_def isWhiteSpace_def)
  have g4: "ConfigManager_get (example_page\<lparr>cm_fields := [''enableSway'' \<mapsto> Str ''false'']\<rparr>)
              ''enableSway'' (Str ''true'') = Str ''false''"
       "ConfigManager_get (example_page\<lparr>cm_fields := [''enableSway'' \<mapsto> Str ''false'']\<rparr>)
              ''enableGradientAnimation'' (Str ''true'') = Str ''true''"
    by (simp_all add: ConfigManager_get_def get_from_def getField_def get_property_def Object_prototype_names_def nullish_def
        String_trim_def isWhiteSpace_def)
  have f: "\<And>c. alertFrame (example_page\<lparr>cm_fields := c\<rparr>)
             = Some \<lparr>dataset = Map.empty, classList = {''alert-frame''}\<rparr>"
    by (simp add: example_page_def)
  note t1 = flags_enabled_iff_true [of example_page]
  note t2 = flags_enabled_iff_true [of "example_page\<lparr>cm_fields := [''dropShadowEnabled'' \<mapsto> Bool True]\<rparr>"]
  note t3 = flags_enabled_iff_true [of "example_page\<lparr>cm_fields := [''dropShadowEnabled'' \<mapsto> Str ''TRUE'']\<rparr>"]
  note t4 = flags_enabled_iff_true [of "example_page\<lparr>cm_fields := [''enableSway'' \<mapsto> Str ''false'']\<rparr>"
      "\<lparr>dataset = Map.empty, classList = {''alert-frame''}\<rparr>"]
  have r1: "styleVars (applyDropShadow example_page) ''drop-shadow-enabled'' = Some (Raw (Str ''1''))"
       "styleVars (applyGlow example_page) ''glow-enabled'' = Some (Raw (Str ''0''))"
    using t1 g1 by simp_all
  have r2: "styleVars (applyDropShadow (example_page\<lparr>cm_fields := [''dropShadowEnabled'' \<mapsto> Bool True]\<rparr>))
        ''drop-shadow-enabled'' = Some (Raw (Str ''0''))"
    using t2 g2 by simp
  have r3: "styleVars (applyDropShadow (example_page\<lparr>cm_fields := [''dropShadowEnabled'' \<mapsto> Str ''TRUE'']\<rparr>))
        ''drop-shadow-enabled'' = Some (Raw (Str ''0''))"
    using t3 g3 by simp
  have r4: "\<exists>f'. alertFrame (applyAnimationToggles (example_page\<lparr>cm_fields := [''enableSway'' \<mapsto> Str ''false'']\<rparr>))
              = Some f'
          \<and> ''alert-frame--no-sway'' \<in> classList f'
          \<and> ''alert-frame--no-gradient-animation'' \<notin> classList f'"
    using t4 g4 f by simp
  show ?thesis using r1 r2 r3 r4 by blast
qed

end
